theory Spec2Isabelle
  imports Main "HOL-Library.Sublist" "HOL-Library.AList"
begin

section \<open>JavaScript values\<close>

text \<open>
  The sync layer is written in TypeScript, but the values that decide its control flow
  (a thrown error, a session object, a document parsed from storage or pulled from the
  remote store) are typed \<open>any\<close> or \<open>unknown\<close>, so they are modelled as untyped JSON-like
  values. Numbers are integers: time stamps and HTTP status codes are the only numbers
  the code computes with.
\<close>

datatype jsval =
    JUndefined
  | JNull
  | JBool bool
  | JNum int
  | JStr string
  | JArr "jsval list"
  | JObj "(string \<times> jsval) list"

text \<open>Truthiness, as tested by \<open>if (v)\<close>, \<open>!v\<close>, \<open>a || b\<close> and \<open>a && b\<close>.\<close>

fun truthy :: "jsval \<Rightarrow> bool" where
  "truthy JUndefined = False"
| "truthy JNull = False"
| "truthy (JBool b) = b"
| "truthy (JNum n) = (n \<noteq> 0)"
| "truthy (JStr s) = (s \<noteq> [])"
| "truthy (JArr xs) = True"
| "truthy (JObj kv) = True"

fun nullish :: "jsval \<Rightarrow> bool" where
  "nullish JUndefined = True"
| "nullish JNull = True"
| "nullish v = False"

text \<open>\<open>a ?? b\<close> and \<open>a || b\<close>.\<close>

definition coalesce :: "jsval \<Rightarrow> jsval \<Rightarrow> jsval" where
  "coalesce a b = (if nullish a then b else a)"

definition js_or :: "jsval \<Rightarrow> jsval \<Rightarrow> jsval" where
  "js_or a b = (if truthy a then a else b)"

text \<open>
  \<open>v?.k\<close>: the property \<open>k\<close> of \<open>v\<close>, \<open>undefined\<close> when \<open>v\<close> is nullish or has no such
  property. None of the property names this program reads (\<open>message\<close>, \<open>status\<close>,
  \<open>user\<close>, \<open>schemaVersion\<close>, ...) exists on a primitive or on an array, so only objects
  answer. A plain \<open>v.k\<close> is the same on a non-nullish \<open>v\<close> and a \<open>TypeError\<close> on a nullish
  one; the callers below write that case out.
\<close>

fun opt_prop :: "jsval \<Rightarrow> string \<Rightarrow> jsval" where
  "opt_prop (JObj kv) k = (case map_of kv k of Some v \<Rightarrow> v | None \<Rightarrow> JUndefined)"
| "opt_prop v k = JUndefined"

text \<open>\<open>v?.[0]\<close>: the first element of an array.\<close>

fun opt_first :: "jsval \<Rightarrow> jsval" where
  "opt_first (JArr (x # xs)) = x"
| "opt_first (JObj kv) = opt_prop (JObj kv) ''0''"
| "opt_first (JStr (c # cs)) = JStr [c]"
| "opt_first v = JUndefined"

section \<open>Strings\<close>

text \<open>Decimal notation of a number, as \<open>String(n)\<close> and \<open>n.toString()\<close> print an integer.\<close>

definition digit_char :: "nat \<Rightarrow> char" where
  "digit_char d = ''0123456789'' ! d"

fun show_nat :: "nat \<Rightarrow> string" where
  "show_nat n =
     (if n < 10 then [digit_char n] else show_nat (n div 10) @ [digit_char (n mod 10)])"

declare show_nat.simps [simp del]

definition show_int :: "int \<Rightarrow> string" where
  "show_int i = (if i < 0 then CHR ''-'' # show_nat (nat (- i)) else show_nat (nat i))"

fun join_comma :: "string list \<Rightarrow> string" where
  "join_comma [] = []"
| "join_comma [s] = s"
| "join_comma (s # t # ss) = s @ '','' @ join_comma (t # ss)"

text \<open>\<open>String(v)\<close> on a JSON-like value.\<close>

fun js_string :: "jsval \<Rightarrow> string" where
  "js_string JUndefined = ''undefined''"
| "js_string JNull = ''null''"
| "js_string (JBool b) = (if b then ''true'' else ''false'')"
| "js_string (JNum n) = show_int n"
| "js_string (JStr s) = s"
| "js_string (JArr xs) = join_comma (map (\<lambda>x. if nullish x then [] else js_string x) xs)"
| "js_string (JObj kv) = ''[object Object]''"

text \<open>\<open>s.toLowerCase()\<close>; characters are bytes, and the letters A to Z are the ones changed.\<close>

definition lower_char :: "char \<Rightarrow> char" where
  "lower_char c =
     (case map_of (zip ''ABCDEFGHIJKLMNOPQRSTUVWXYZ'' ''abcdefghijklmnopqrstuvwxyz'') c of
        Some l \<Rightarrow> l
      | None \<Rightarrow> c)"

definition toLowerCase :: "string \<Rightarrow> string" where
  "toLowerCase s = map lower_char s"

text \<open>\<open>s.includes(p)\<close>: a left-to-right search for \<open>p\<close> at every position of \<open>s\<close>.\<close>

fun js_includes :: "string \<Rightarrow> string \<Rightarrow> bool" where
  "js_includes [] p = (p = [])"
| "js_includes (c # cs) p = (prefix p (c # cs) \<or> js_includes cs p)"

section \<open>Failure classifier\<close>

text \<open>
  A failure signal is whatever was thrown: a JSON-like value (a string, \<open>null\<close>, a plain
  object such as the remote store's error record), or an instance of an error class,
  which has own properties and prints through its \<open>toString\<close> method as the given text.
\<close>

datatype failure =
    Thrown jsval
  | ThrownInstance "(string \<times> jsval) list" string

fun err_opt_prop :: "failure \<Rightarrow> string \<Rightarrow> jsval" where
  "err_opt_prop (Thrown v) k = opt_prop v k"
| "err_opt_prop (ThrownInstance ps t) k = opt_prop (JObj ps) k"

text \<open>\<open>String((err as any)?.message ?? err ?? "").toLowerCase()\<close>\<close>

definition failure_message :: "failure \<Rightarrow> string" where
  "failure_message err =
     toLowerCase
       (let m = err_opt_prop err ''message'' in
        if \<not> nullish m then js_string m
        else (case err of
                Thrown v \<Rightarrow> if nullish v then [] else js_string v
              | ThrownInstance ps t \<Rightarrow> t))"

text \<open>\<open>(err as any)?.status ?? (err as any)?.statusCode ?? 0\<close>\<close>

definition failure_status :: "failure \<Rightarrow> jsval" where
  "failure_status err =
     coalesce (coalesce (err_opt_prop err ''status'') (err_opt_prop err ''statusCode'')) (JNum 0)"

text \<open>\<open>typeof status === "number" && status >= 500 && status < 600\<close>\<close>

fun status_5xx :: "jsval \<Rightarrow> bool" where
  "status_5xx (JNum n) = (500 \<le> n \<and> n < 600)"
| "status_5xx v = False"

definition isNetworkOrServerError :: "bool \<Rightarrow> failure \<Rightarrow> bool" where
  "isNetworkOrServerError navigator_onLine err =
     (let msg = failure_message err; status = failure_status err in
        \<not> navigator_onLine \<or>
        js_includes msg ''failed to fetch'' \<or>
        js_includes msg ''err_name_not_resolved'' \<or>
        js_includes msg ''networkerror'' \<or>
        js_includes msg ''internal server error'' \<or>
        js_includes msg ''bad gateway'' \<or>
        js_includes msg ''service unavailable'' \<or>
        js_includes msg ''gateway timeout'' \<or>
        js_includes msg ''timeout'' \<or>
        js_includes msg ''econnrefused'' \<or>
        js_includes msg ''econnreset'' \<or>
        status_5xx status)"

text \<open>
  The network-failure patterns as the specification groups them: fetch failure, DNS
  resolution failure, generic network error, the four server-error texts, timeout,
  connection refused and connection reset.
\<close>

definition network_failure_patterns :: "string list" where
  "network_failure_patterns =
     [''failed to fetch'', ''err_name_not_resolved'', ''networkerror'',
      ''internal server error'', ''bad gateway'', ''service unavailable'', ''gateway timeout'',
      ''timeout'', ''econnrefused'', ''econnreset'']"

section \<open>parseInt\<close>

text \<open>
  \<open>parseInt(s, 10)\<close>: leading white space is skipped, one sign is read, then the longest
  run of decimal digits; the result is \<open>NaN\<close> (here \<open>None\<close>) when there is no digit.
  Every comparison with \<open>NaN\<close> is false.
\<close>

definition is_space :: "char \<Rightarrow> bool" where
  "is_space c = (c \<in> set [CHR 0x09, CHR 0x0A, CHR 0x0B, CHR 0x0C, CHR 0x0D, CHR '' ''])"

definition is_digit :: "char \<Rightarrow> bool" where
  "is_digit c = (c \<in> set ''0123456789'')"

definition digit_val :: "char \<Rightarrow> nat" where
  "digit_val c =
     (case map_of (zip ''0123456789'' [0, 1, 2, 3, 4, 5, 6, 7, 8, 9]) c of
        Some d \<Rightarrow> d
      | None \<Rightarrow> 0)"

definition digits_value :: "string \<Rightarrow> nat" where
  "digits_value ds = foldl (\<lambda>a c. 10 * a + digit_val c) 0 ds"

definition parseInt :: "string \<Rightarrow> int option" where
  "parseInt s =
     (let t = dropWhile is_space s;
          neg = (case t of c # r \<Rightarrow> c = CHR ''-'' | [] \<Rightarrow> False);
          u = (case t of c # r \<Rightarrow> if c = CHR ''-'' \<or> c = CHR ''+'' then r else t | [] \<Rightarrow> []);
          ds = takeWhile is_digit u
      in if ds = [] then None
         else Some (if neg then - int (digits_value ds) else int (digits_value ds)))"

section \<open>Browser storage\<close>

text \<open>
  \<open>localStorage\<close> is the durable substrate shared by every tab: an ordered list of
  key/value strings. The code wraps most of its accesses in \<open>try\<close>/\<open>catch\<close>, so the
  substrate has a mode: it works, it refuses every write (quota exhausted), or it refuses
  every access (storage disabled). The mode carries the value the platform throws.
\<close>

datatype ls_mode = Available | WriteRefused failure | Denied failure

record local_storage =
  items :: "(string \<times> string) list"
  mode :: ls_mode

definition getItem :: "string \<Rightarrow> local_storage \<Rightarrow> failure + string option" where
  "getItem k ls =
     (case mode ls of
        Denied e \<Rightarrow> Inl e
      | _ \<Rightarrow> Inr (map_of (items ls) k))"

definition setItem :: "string \<Rightarrow> string \<Rightarrow> local_storage \<Rightarrow> failure + local_storage" where
  "setItem k v ls =
     (case mode ls of
        Available \<Rightarrow> Inr (ls\<lparr>items := AList.update k v (items ls)\<rparr>)
      | WriteRefused e \<Rightarrow> Inl e
      | Denied e \<Rightarrow> Inl e)"

definition removeItem :: "string \<Rightarrow> local_storage \<Rightarrow> failure + local_storage" where
  "removeItem k ls =
     (case mode ls of
        Denied e \<Rightarrow> Inl e
      | _ \<Rightarrow> Inr (ls\<lparr>items := AList.delete k (items ls)\<rparr>))"

text \<open>\<open>Object.keys(localStorage)\<close>\<close>

definition storage_keys :: "local_storage \<Rightarrow> failure + string list" where
  "storage_keys ls =
     (case mode ls of
        Denied e \<Rightarrow> Inl e
      | _ \<Rightarrow> Inr (map fst (items ls)))"

text \<open>A string read from storage, tested by \<open>if (item)\<close>.\<close>

definition present_text :: "string option \<Rightarrow> bool" where
  "present_text item = (case item of None \<Rightarrow> False | Some s \<Rightarrow> s \<noteq> [])"

text \<open>The exceptions of the platform, as failure signals.\<close>

definition quota_exceeded :: failure where
  "quota_exceeded = ThrownInstance
     [(''name'', JStr ''QuotaExceededError''), (''message'', JStr ''The quota has been exceeded.'')]
     ''QuotaExceededError: The quota has been exceeded.''"

definition security_error :: failure where
  "security_error = ThrownInstance
     [(''name'', JStr ''SecurityError''), (''message'', JStr ''The operation is insecure.'')]
     ''SecurityError: The operation is insecure.''"

definition syntax_error :: failure where
  "syntax_error = ThrownInstance
     [(''name'', JStr ''SyntaxError''), (''message'', JStr ''Unexpected token in JSON'')]
     ''SyntaxError: Unexpected token in JSON''"

definition type_error :: failure where
  "type_error = ThrownInstance
     [(''name'', JStr ''TypeError''), (''message'', JStr ''Cannot read properties of undefined'')]
     ''TypeError: Cannot read properties of undefined''"

section \<open>Cross-context lock\<close>

definition SYNC_LOCK_KEY :: string where
  "SYNC_LOCK_KEY = ''app.syncLock''"

definition SYNC_LOCK_TIMEOUT :: int where
  "SYNC_LOCK_TIMEOUT = 5000"

text \<open>
  \<open>acquireSyncLock\<close> at the time \<open>now\<close> read from \<open>Date.now()\<close>: the answer and the
  storage it leaves. Any exception inside returns \<open>true\<close>.
\<close>

definition acquireSyncLock :: "int \<Rightarrow> local_storage \<Rightarrow> bool \<times> local_storage" where
  "acquireSyncLock now ls =
     (case getItem SYNC_LOCK_KEY ls of
        Inl e \<Rightarrow> (True, ls)
      | Inr existingLock \<Rightarrow>
          if (case existingLock of
                None \<Rightarrow> False
              | Some s \<Rightarrow>
                  s \<noteq> [] \<and>
                  (case parseInt s of
                     None \<Rightarrow> False
                   | Some lockTime \<Rightarrow> now - lockTime < SYNC_LOCK_TIMEOUT))
          then (False, ls)
          else (case setItem SYNC_LOCK_KEY (show_int now) ls of
                  Inl e \<Rightarrow> (True, ls)
                | Inr ls' \<Rightarrow> (True, ls')))"

definition releaseSyncLock :: "local_storage \<Rightarrow> local_storage" where
  "releaseSyncLock ls =
     (case removeItem SYNC_LOCK_KEY ls of
        Inl e \<Rightarrow> ls
      | Inr ls' \<Rightarrow> ls')"

text \<open>
  The specification's reading of the lock record: its age at time \<open>now\<close> (none when there
  is no record or it holds no number), and the lock counting as held while the age is
  below the timeout.
\<close>

definition lock_record_age :: "int \<Rightarrow> local_storage \<Rightarrow> int option" where
  "lock_record_age now ls =
     (case map_of (items ls) SYNC_LOCK_KEY of
        None \<Rightarrow> None
      | Some s \<Rightarrow> (case parseInt s of None \<Rightarrow> None | Some lockTimestamp \<Rightarrow> Some (now - lockTimestamp)))"

definition lock_held :: "int \<Rightarrow> local_storage \<Rightarrow> bool" where
  "lock_held now ls = (case lock_record_age now ls of None \<Rightarrow> False | Some age \<Rightarrow> age < 5000)"

section \<open>Durable local store (storage.service)\<close>

text \<open>
  \<open>JSON.parse\<close> and \<open>JSON.stringify\<close> belong to the platform, not to the repository, so
  the functions that call them take them as a parameter. \<open>json_parse\<close> answers \<open>None\<close>
  where \<open>JSON.parse\<close> throws a \<open>SyntaxError\<close>.
\<close>

record json_codec =
  json_parse :: "string \<Rightarrow> jsval option"
  json_stringify :: "jsval \<Rightarrow> string"

definition STORAGE_KEY :: string where
  "STORAGE_KEY = ''app_state_v1''"

text \<open>
  \<open>loadState\<close>: \<open>None\<close> is the \<open>null\<close> result. The three ways into the \<open>catch\<close> block are
  written out: a storage access that throws, a text \<open>JSON.parse\<close> rejects, and the property
  read \<open>parsed.schemaVersion\<close> on a parsed \<open>null\<close>.
\<close>

definition loadState :: "(string \<Rightarrow> jsval option) \<Rightarrow> local_storage \<Rightarrow> jsval option" where
  "loadState parse ls =
     (case getItem STORAGE_KEY ls of
        Inl e \<Rightarrow> None
      | Inr None \<Rightarrow> None
      | Inr (Some raw) \<Rightarrow>
          if raw = [] then None
          else (case parse raw of
                  None \<Rightarrow> None
                | Some parsed \<Rightarrow>
                    if nullish parsed then None
                    else if \<not> truthy (opt_prop parsed ''schemaVersion'') then None
                    else Some parsed))"

definition saveState :: "(jsval \<Rightarrow> string) \<Rightarrow> jsval \<Rightarrow> local_storage \<Rightarrow> local_storage" where
  "saveState stringify state ls =
     (case setItem STORAGE_KEY (stringify state) ls of
        Inl e \<Rightarrow> ls
      | Inr ls' \<Rightarrow> ls')"

definition clearState :: "local_storage \<Rightarrow> local_storage" where
  "clearState ls =
     (case removeItem STORAGE_KEY ls of
        Inl e \<Rightarrow> ls
      | Inr ls' \<Rightarrow> ls')"

section \<open>In-memory store (app.store)\<close>

datatype cloud_status = Idle | Syncing | Ok | Offline | Error

datatype cloud_mode = Guest | Cloud

record user_info =
  email :: jsval
  name :: jsval
  avatarUrl :: jsval
  provider :: jsval

text \<open>
  The data held by the store. The first four fields come from the hydrated record and
  from documents pulled from the remote store, so they are untyped; \<open>hydrated_rest\<close>
  holds the properties of the hydrated record that the store does not name itself.
\<close>

record app_store =
  schemaVersion :: jsval
  welcomeSeen :: jsval
  cloudSyncReady :: jsval
  security :: jsval
  subscription :: jsval
  sessionExpired :: bool
  cloudMode :: cloud_mode
  cloudStatus :: cloud_status
  selectedMonth :: string
  user :: user_info
  hydrated_rest :: "(string \<times> jsval) list"

definition SEEN_KEY :: string where
  "SEEN_KEY = ''app.welcomeSeen.v1''"

definition status_text :: "cloud_status \<Rightarrow> string" where
  "status_text s =
     (case s of Idle \<Rightarrow> ''idle'' | Syncing \<Rightarrow> ''syncing'' | Ok \<Rightarrow> ''ok''
      | Offline \<Rightarrow> ''offline'' | Error \<Rightarrow> ''error'')"

definition mode_text :: "cloud_mode \<Rightarrow> string" where
  "mode_text m = (case m of Guest \<Rightarrow> ''guest'' | Cloud \<Rightarrow> ''cloud'')"

text \<open>
  \<open>get()\<close> as the object \<open>JSON.stringify\<close> receives from \<open>saveState(get())\<close> and
  \<open>saveState(next)\<close>: the data properties of the store (its functions are not serialised).
\<close>

definition store_doc :: "app_store \<Rightarrow> jsval" where
  "store_doc s = JObj
     ([(''schemaVersion'', schemaVersion s),
       (''security'', security s),
       (''cloudSyncReady'', cloudSyncReady s),
       (''subscription'', subscription s),
       (''sessionExpired'', JBool (sessionExpired s)),
       (''cloudMode'', JStr (mode_text (cloudMode s))),
       (''cloudStatus'', JStr (status_text (cloudStatus s))),
       (''welcomeSeen'', welcomeSeen s),
       (''selectedMonth'', JStr (selectedMonth s)),
       (''user'', JObj [(''email'', email (user s)), (''name'', name (user s)),
                        (''avatarUrl'', avatarUrl (user s)), (''provider'', provider (user s))])] @
      hydrated_rest s)"

definition setSessionExpired :: "bool \<Rightarrow> app_store \<Rightarrow> app_store" where
  "setSessionExpired v s = s\<lparr>sessionExpired := v\<rparr>"

definition setCloudMode :: "cloud_mode \<Rightarrow> app_store \<Rightarrow> app_store" where
  "setCloudMode m s = s\<lparr>cloudMode := m\<rparr>"

definition setCloudStatus :: "cloud_status \<Rightarrow> app_store \<Rightarrow> app_store" where
  "setCloudStatus st s = s\<lparr>cloudStatus := st\<rparr>"

definition setUser :: "user_info \<Rightarrow> app_store \<Rightarrow> app_store" where
  "setUser u s = s\<lparr>user := u\<rparr>"

definition setCloudSyncReady :: "app_store \<Rightarrow> app_store" where
  "setCloudSyncReady s = s\<lparr>cloudSyncReady := JBool True\<rparr>"

definition setSubscription :: "jsval \<Rightarrow> app_store \<Rightarrow> app_store" where
  "setSubscription sub s = s\<lparr>subscription := sub\<rparr>"

definition clearSubscription :: "app_store \<Rightarrow> app_store" where
  "clearSubscription s = setSubscription JNull s"

text \<open>
  The onboarding flag is kept twice: under its own storage key and in the store. Both
  branches of the write are inside one \<open>try\<close> with an empty \<open>catch\<close>.
\<close>

definition write_seen_flag :: "bool \<Rightarrow> local_storage \<Rightarrow> local_storage" where
  "write_seen_flag v ls =
     (case (if v then setItem SEEN_KEY ''1'' ls else removeItem SEEN_KEY ls) of
        Inl e \<Rightarrow> ls
      | Inr ls' \<Rightarrow> ls')"

definition setWelcomeSeen ::
  "(jsval \<Rightarrow> string) \<Rightarrow> bool \<Rightarrow> app_store \<times> local_storage \<Rightarrow> app_store \<times> local_storage" where
  "setWelcomeSeen stringify v sl =
     (let ls1 = write_seen_flag v (snd sl);
          s1 = (fst sl)\<lparr>welcomeSeen := JBool v\<rparr>
      in (s1, saveState stringify (store_doc s1) ls1))"

definition getSnapshot :: "app_store \<Rightarrow> jsval" where
  "getSnapshot s = JObj
     [(''schemaVersion'', JNum 1), (''welcomeSeen'', welcomeSeen s), (''security'', security s)]"

definition toggleBiometricAuth ::
  "(jsval \<Rightarrow> string) \<Rightarrow> app_store \<times> local_storage \<Rightarrow> app_store \<times> local_storage" where
  "toggleBiometricAuth stringify sl =
     (let state = fst sl;
          next = state\<lparr>
            schemaVersion := JNum 1,
            security := JObj
              [(''biometricEnabled'',
                  JBool (\<not> truthy (coalesce (opt_prop (security state) ''biometricEnabled'') (JBool False)))),
               (''lastAuthTimestamp'', opt_prop (security state) ''lastAuthTimestamp'')]\<rparr>
      in (next, saveState stringify (store_doc next) (snd sl)))"

text \<open>\<open>updateLastAuthTimestamp\<close> at the time \<open>now\<close> read from \<open>Date.now()\<close>.\<close>

definition updateLastAuthTimestamp ::
  "(jsval \<Rightarrow> string) \<Rightarrow> int \<Rightarrow> app_store \<times> local_storage \<Rightarrow> app_store \<times> local_storage" where
  "updateLastAuthTimestamp stringify now sl =
     (let state = fst sl;
          next = state\<lparr>
            schemaVersion := JNum 1,
            security := JObj
              [(''biometricEnabled'', coalesce (opt_prop (security state) ''biometricEnabled'') (JBool False)),
               (''lastAuthTimestamp'', JNum now)]\<rparr>
      in (next, saveState stringify (store_doc next) (snd sl)))"

definition getBiometricSettings :: "app_store \<Rightarrow> jsval" where
  "getBiometricSettings s = coalesce (security s) (JObj [(''biometricEnabled'', JBool False)])"

text \<open>The own enumerable properties an object spread \<open>{...v}\<close> copies.\<close>

fun spread :: "jsval \<Rightarrow> (string \<times> jsval) list" where
  "spread (JObj kv) = kv"
| "spread (JArr xs) = zip (map show_nat [0..<length xs]) xs"
| "spread (JStr s) = zip (map show_nat [0..<length s]) (map (\<lambda>c. JStr [c]) s)"
| "spread v = []"

text \<open>\<open>{ ...data, schemaVersion: 1 as const }\<close>\<close>

definition normalizedData :: "jsval \<Rightarrow> jsval" where
  "normalizedData data = JObj (AList.update ''schemaVersion'' (JNum 1) (spread data))"

text \<open>
  \<open>replaceAllData\<close>. The normalised document is saved first. The next statement reads
  \<open>data.welcomeSeen\<close>, which throws on a nullish \<open>data\<close>: the result then carries the
  exception, and the store is as it was.
\<close>

definition replaceAllData ::
  "(jsval \<Rightarrow> string) \<Rightarrow> jsval \<Rightarrow> app_store \<times> local_storage \<Rightarrow>
     failure option \<times> app_store \<times> local_storage" where
  "replaceAllData stringify data sl =
     (let ls1 = saveState stringify (normalizedData data) (snd sl) in
      if nullish data then (Some type_error, fst sl, ls1)
      else
        let ls2 = (if opt_prop data ''welcomeSeen'' \<noteq> JUndefined
                   then write_seen_flag (truthy (opt_prop data ''welcomeSeen'')) ls1
                   else ls1)
        in (None,
            (fst sl)\<lparr>
              schemaVersion := JNum 1,
              welcomeSeen := coalesce (opt_prop data ''welcomeSeen'') (JBool False),
              security := coalesce (opt_prop data ''security'') (JObj [(''biometricEnabled'', JBool False)])\<rparr>,
            ls2))"

section \<open>Pending-Change Buffer (pendingSync.service)\<close>

text \<open>
  The buffer is one more key of the browser storage. Each of its three functions wraps its
  storage access in \<open>try\<close> with an empty \<open>catch\<close>: a write or a removal that throws is
  dropped silently, and a read that throws or a text that does not parse gives \<open>null\<close>.
\<close>

definition PENDING_KEY :: string where
  "PENDING_KEY = ''app.pendingSnapshot.v1''"

definition setPendingSnapshot :: "(jsval \<Rightarrow> string) \<Rightarrow> jsval \<Rightarrow> local_storage \<Rightarrow> local_storage" where
  "setPendingSnapshot stringify state ls =
     (case setItem PENDING_KEY (stringify state) ls of
        Inl e \<Rightarrow> ls
      | Inr ls' \<Rightarrow> ls')"

definition getPendingSnapshot :: "(string \<Rightarrow> jsval option) \<Rightarrow> local_storage \<Rightarrow> jsval" where
  "getPendingSnapshot parse ls =
     (case getItem PENDING_KEY ls of
        Inl e \<Rightarrow> JNull
      | Inr None \<Rightarrow> JNull
      | Inr (Some raw) \<Rightarrow>
          if raw = [] then JNull
          else (case parse raw of
                  None \<Rightarrow> JNull
                | Some parsed \<Rightarrow> parsed))"

definition clearPendingSnapshot :: "local_storage \<Rightarrow> local_storage" where
  "clearPendingSnapshot ls =
     (case removeItem PENDING_KEY ls of
        Inl e \<Rightarrow> ls
      | Inr ls' \<Rightarrow> ls')"

definition hasPendingSnapshot :: "(string \<Rightarrow> jsval option) \<Rightarrow> local_storage \<Rightarrow> bool" where
  "hasPendingSnapshot parse ls = truthy (getPendingSnapshot parse ls)"

section \<open>The sync gate: state and collaborators\<close>

text \<open>
  The calls the sync gate (the component CloudSyncGate) makes to its collaborators
  (authentication, remote store, subscription, push notifications, the page itself), in
  the order they are made, and the two places where it takes and gives back its lock:
  \<open>LockAcquired\<close> stands for a call of \<open>acquireSyncLock\<close> that answered \<open>true\<close>,
  \<open>LockReleased\<close> for a call of \<open>releaseSyncLock\<close>.
\<close>

datatype event =
    GetSession
  | SignOut
  | Reload
  | SignInAnonymously
  | GetCloudState
  | UpsertCloudState jsval
  | GetSubscription jsval
  | InitializePushNotifications
  | DeactivateToken
  | CleanupPushNotifications
  | ClearSubscriptionCache
  | ScheduleSessionRetry
  | LockAcquired
  | LockReleased

text \<open>
  Everything the sync gate reads and writes: the in-memory store, the browser storage
  (which holds the Pending-Change Buffer and the lock record), the \<open>initializedRef\<close> flag
  of the component, and the log. Each entry of the log is a call together with the lock
  record the storage holds at the moment the call is made.
\<close>

record world =
  store :: app_store
  storage :: local_storage
  initialized :: bool
  log :: "(event \<times> string option) list"

definition on_store :: "(app_store \<Rightarrow> app_store) \<Rightarrow> world \<Rightarrow> world" where
  "on_store f w = w\<lparr>store := f (store w)\<rparr>"

definition on_storage :: "(local_storage \<Rightarrow> local_storage) \<Rightarrow> world \<Rightarrow> world" where
  "on_storage f w = w\<lparr>storage := f (storage w)\<rparr>"

definition on_both ::
  "(app_store \<times> local_storage \<Rightarrow> app_store \<times> local_storage) \<Rightarrow> world \<Rightarrow> world" where
  "on_both f w = (let r = f (store w, storage w) in w\<lparr>store := fst r, storage := snd r\<rparr>)"

definition lock_cell :: "local_storage \<Rightarrow> string option" where
  "lock_cell ls = map_of (items ls) SYNC_LOCK_KEY"

definition emit :: "event \<Rightarrow> world \<Rightarrow> world" where
  "emit ev w = w\<lparr>log := log w @ [(ev, lock_cell (storage w))]\<rparr>"

subsection \<open>Push\<close>

text \<open>
  What the surroundings answer during one push: the connectivity oracle
  (\<open>getNetworkStatus()\<close>, from the module \<open>network.service\<close>), the remote upsert
  (\<open>upsertCloudState\<close>, from \<open>cloudState.service\<close>; \<open>None\<close> when it resolves, the thrown
  value when it rejects), and \<open>navigator.onLine\<close> as the classifier reads it after a
  failure. Neither module is among the source files.
\<close>

record push_env =
  network_status :: bool
  upsert_result :: "failure option"
  browser_online :: bool

definition pushSnapshot :: "json_codec \<Rightarrow> push_env \<Rightarrow> jsval \<Rightarrow> world \<Rightarrow> world" where
  "pushSnapshot J pe snapshot w =
     (if \<not> network_status pe then
        on_storage (setPendingSnapshot (json_stringify J) snapshot)
          (on_store (setCloudStatus Offline) w)
      else
        let w1 = on_store (setCloudStatus Syncing) w;
            w2 = emit (UpsertCloudState snapshot) w1
        in case upsert_result pe of
             None \<Rightarrow> on_store (setCloudStatus Ok) (on_storage clearPendingSnapshot w2)
           | Some err \<Rightarrow>
               on_storage (setPendingSnapshot (json_stringify J) snapshot)
                 (on_store
                    (setCloudStatus
                       (if isNetworkOrServerError (browser_online pe) err then Offline else Error))
                    w2))"

definition pushNow :: "json_codec \<Rightarrow> push_env \<Rightarrow> world \<Rightarrow> world" where
  "pushNow J pe w = pushSnapshot J pe (getSnapshot (store w)) w"

subsection \<open>Connectivity listener\<close>

definition onOnline :: "json_codec \<Rightarrow> push_env \<Rightarrow> world \<Rightarrow> world" where
  "onOnline J pe w =
     (if \<not> initialized w then w
      else
        let pendingSnapshot = getPendingSnapshot (json_parse J) (storage w)
        in if truthy pendingSnapshot then pushSnapshot J pe pendingSnapshot w else w)"

definition onOffline :: "json_codec \<Rightarrow> world \<Rightarrow> world" where
  "onOffline J w =
     on_storage (setPendingSnapshot (json_stringify J) (getSnapshot (store w)))
       (on_store (setCloudStatus Offline) w)"

text \<open>The callback given to \<open>addNetworkListener\<close>.\<close>

definition network_listener :: "json_codec \<Rightarrow> push_env \<Rightarrow> bool \<Rightarrow> world \<Rightarrow> world" where
  "network_listener J pe isOnline w = (if isOnline then onOnline J pe w else onOffline J w)"

subsection \<open>Retry timer and local-change trigger\<close>

text \<open>One tick of the 30-second interval.\<close>

definition retry_tick :: "json_codec \<Rightarrow> push_env \<Rightarrow> world \<Rightarrow> world" where
  "retry_tick J pe w =
     (if cloudMode (store w) \<noteq> Cloud \<or> \<not> initialized w then w
      else if cloudStatus (store w) \<noteq> Error then w
      else
        let pendingSnapshot = getPendingSnapshot (json_parse J) (storage w)
        in if truthy pendingSnapshot then pushSnapshot J pe pendingSnapshot w else w)"

text \<open>
  The effect that runs when \<open>welcomeSeen\<close> or \<open>security\<close> changed: \<open>online\<close> is the
  connectivity at that moment, and the push environment is the one found 1200 ms later,
  when the debounce timer fires \<open>pushNow\<close>.
\<close>

definition local_change_trigger :: "json_codec \<Rightarrow> bool \<Rightarrow> push_env \<Rightarrow> world \<Rightarrow> world" where
  "local_change_trigger J online pe w =
     (if cloudMode (store w) \<noteq> Cloud \<or> \<not> initialized w then w
      else if \<not> online then
        on_storage (setPendingSnapshot (json_stringify J) (getSnapshot (store w)))
          (on_store (setCloudStatus Offline) w)
      else pushNow J pe w)"

section \<open>Reconciliation (initForSession)\<close>

text \<open>
  An asynchronous function either returns or rejects with the value thrown inside it;
  what it did to the state before that stays done. One run is followed from its first
  statement to its last: what other handlers of the same page might do between two of its
  \<open>await\<close>s is not part of the model.
\<close>

datatype completion = Returned | Rejected failure

text \<open>
  What the surroundings answer during one run of \<open>initForSession\<close>, in the order the
  code asks: the two connectivity probes, the race of \<open>getSession()\<close> against the 5000 ms
  timer (the session of the result, or the value the \<open>catch\<close> receives), the clock at each
  place that reads it, the sign-out, the anonymous sign-in (the \<open>error\<close> field of its
  result, or the value it throws), the environment of the push of a pending snapshot, the
  pull (the remote document, \<open>null\<close> when there is none), the dynamic import of the
  subscription service (\<open>None\<close> when the module loads) and the lookup it offers, the
  upsert that seeds a new account, and \<open>navigator.onLine\<close> as the classifier reads it.
\<close>

record env =
  dev_mode :: bool
  net_entry :: bool
  session_lookup :: "failure + jsval"
  now_otp :: int
  sign_out_result :: "failure option"
  anon_sign_in :: "failure + jsval"
  net_after_session :: bool
  now_lock :: int
  push :: push_env
  cloud_state :: "failure + jsval"
  now_onboarding :: int
  subscription_import :: "failure option"
  subscription_lookup :: "failure + jsval"
  seed_upsert :: "failure option"
  now_auth :: int
  nav_online :: bool

text \<open>\<open>key.includes('sb-') && key.includes('-auth-token')\<close>\<close>

definition is_auth_token_key :: "string \<Rightarrow> bool" where
  "is_auth_token_key key = (js_includes key ''sb-'' \<and> js_includes key ''-auth-token'')"

text \<open>
  The \<open>some\<close> loop of the offline branch: the parsed value of the first key whose item is
  present and parses to a truthy value; reading or parsing failures move on to the next
  key.
\<close>

fun stored_session :: "(string \<Rightarrow> jsval option) \<Rightarrow> local_storage \<Rightarrow> string list \<Rightarrow> jsval option" where
  "stored_session parse ls [] = None"
| "stored_session parse ls (key # keys) =
     (case getItem key ls of
        Inl e \<Rightarrow> stored_session parse ls keys
      | Inr item \<Rightarrow>
          if present_text item then
            (case parse (the item) of
               None \<Rightarrow> stored_session parse ls keys
             | Some parsed \<Rightarrow>
                 if truthy parsed then Some parsed else stored_session parse ls keys)
          else stored_session parse ls keys)"

text \<open>
  The \<open>for\<close> loop of the timeout fallback: \<open>parsed.currentSession\<close> of the first key
  where it is truthy, \<open>null\<close> when there is none. The text parsed is
  \<open>localStorage.getItem(key) || ""\<close>.
\<close>

fun cached_session :: "(string \<Rightarrow> jsval option) \<Rightarrow> local_storage \<Rightarrow> string list \<Rightarrow> jsval" where
  "cached_session parse ls [] = JNull"
| "cached_session parse ls (key # keys) =
     (case getItem key ls of
        Inl e \<Rightarrow> cached_session parse ls keys
      | Inr item \<Rightarrow>
          (case parse (if present_text item then the item else []) of
             None \<Rightarrow> cached_session parse ls keys
           | Some parsed \<Rightarrow>
               if truthy (opt_prop parsed ''currentSession'')
               then opt_prop parsed ''currentSession''
               else cached_session parse ls keys))"

text \<open>The identity \<open>setUser\<close> receives, computed from a session's user object.\<close>

definition user_of :: "jsval \<Rightarrow> user_info" where
  "user_of sessionUser =
     (let meta = coalesce (opt_prop sessionUser ''user_metadata'') (JObj []);
          appMeta = coalesce (opt_prop sessionUser ''app_metadata'') (JObj [])
      in \<lparr>email = coalesce (opt_prop sessionUser ''email'') JNull,
          name = js_or (js_or (opt_prop meta ''full_name'') (opt_prop meta ''name'')) JNull,
          avatarUrl = js_or (js_or (opt_prop meta ''avatar_url'') (opt_prop meta ''picture'')) JNull,
          provider =
            js_or (js_or (opt_prop appMeta ''provider'')
                         (opt_prop (opt_first (opt_prop sessionUser ''identities'')) ''provider''))
                  JNull\<rparr>)"

definition no_user :: user_info where
  "no_user = \<lparr>email = JNull, name = JNull, avatarUrl = JNull, provider = JNull\<rparr>"

text \<open>\<open>initializedRef.current = true; useAppStore.getState().setCloudSyncReady();\<close>\<close>

definition mark_ready :: "world \<Rightarrow> world" where
  "mark_ready w = on_store setCloudSyncReady (w\<lparr>initialized := True\<rparr>)"

subsection \<open>Started offline (lines 112 to 168)\<close>

definition offline_startup :: "json_codec \<Rightarrow> world \<Rightarrow> completion \<times> world" where
  "offline_startup J w =
     (case storage_keys (storage w) of
        Inl e \<Rightarrow> (Rejected e, w)
      | Inr ks \<Rightarrow>
          let supabaseKeys = filter is_auth_token_key ks;
              w1 = (case stored_session (json_parse J) (storage w) supabaseKeys of
                      Some session \<Rightarrow>
                        let wc = on_store (setCloudMode Cloud) w;
                            sessionUser = js_or (opt_prop (opt_prop session ''currentSession'') ''user'')
                                                (opt_prop session ''user'')
                        in if truthy sessionUser \<and> \<not> truthy (opt_prop sessionUser ''is_anonymous'')
                           then on_store (setUser (user_of sessionUser)) wc
                           else wc
                    | None \<Rightarrow> on_store (setCloudMode Guest) w)
          in (Returned, mark_ready (on_store (setCloudStatus Offline) w1)))"

subsection \<open>Session lookup (lines 170 to 212)\<close>

definition resolve_session :: "json_codec \<Rightarrow> env \<Rightarrow> world \<Rightarrow> failure + jsval" where
  "resolve_session J e w =
     (case session_lookup e of
        Inr session \<Rightarrow> Inr session
      | Inl timeout \<Rightarrow>
          (case storage_keys (storage w) of
             Inl err \<Rightarrow> Inl err
           | Inr ks \<Rightarrow>
               Inr (cached_session (json_parse J) (storage w) (filter is_auth_token_key ks))))"

definition OTP_KEY :: string where
  "OTP_KEY = ''auth.pendingOtpVerification''"

text \<open>The pending-verification mark is present and older than ten minutes.\<close>

definition abandoned_otp :: "int \<Rightarrow> string option \<Rightarrow> bool" where
  "abandoned_otp now pendingOtp =
     (present_text pendingOtp \<and>
      (case parseInt (the pendingOtp) of
         None \<Rightarrow> False
       | Some timestamp \<Rightarrow> now - timestamp > 10 * 60 * 1000))"

definition sign_out_abandoned :: "env \<Rightarrow> world \<Rightarrow> completion \<times> world" where
  "sign_out_abandoned e w =
     (case removeItem OTP_KEY (storage w) of
        Inl err \<Rightarrow> (Rejected err, w)
      | Inr ls' \<Rightarrow>
          let w1 = emit SignOut (w\<lparr>storage := ls'\<rparr>)
          in (case sign_out_result e of
                Some err \<Rightarrow> (Rejected err, w1)
              | None \<Rightarrow> (Returned, emit Reload w1)))"

subsection \<open>No session (lines 214 to 287)\<close>

definition WAS_AUTHENTICATED_KEY :: string where
  "WAS_AUTHENTICATED_KEY = ''app.wasAuthenticated''"

definition default_document :: jsval where
  "default_document = JObj [(''schemaVersion'', JNum 1)]"

text \<open>The snapshot of the default state: what \<open>getSnapshot\<close> returns after a wipe.\<close>

definition default_snapshot :: jsval where
  "default_snapshot = JObj
     [(''schemaVersion'', JNum 1), (''welcomeSeen'', JBool False),
      (''security'', JObj [(''biometricEnabled'', JBool False)])]"

definition remove_seen_key :: "local_storage \<Rightarrow> local_storage" where
  "remove_seen_key ls = (case removeItem SEEN_KEY ls of Inl e \<Rightarrow> ls | Inr ls' \<Rightarrow> ls')"

text \<open>
  The wipe of lines 249 to 256. The document given to \<open>replaceAllData\<close> is the literal
  \<open>{ schemaVersion: 1 }\<close>, on which it returns normally.
\<close>

definition wipe_local :: "json_codec \<Rightarrow> world \<Rightarrow> world" where
  "wipe_local J w =
     (let w1 = on_storage clearPendingSnapshot w;
          w2 = on_storage clearState w1;
          w3 = on_both (\<lambda>sl. snd (replaceAllData (json_stringify J) default_document sl)) w2;
          w4 = on_storage remove_seen_key w3
      in on_both (setWelcomeSeen (json_stringify J) False) w4)"

definition guest_fallback :: "world \<Rightarrow> world" where
  "guest_fallback w =
     on_store setCloudSyncReady
       ((on_store (setCloudStatus Idle) (on_store (setCloudMode Guest) w))\<lparr>initialized := False\<rparr>)"

definition without_session :: "json_codec \<Rightarrow> env \<Rightarrow> world \<Rightarrow> completion \<times> world" where
  "without_session J e w =
     (case getItem WAS_AUTHENTICATED_KEY (storage w) of
        Inl err \<Rightarrow> (Rejected err, w)
      | Inr flag \<Rightarrow>
          if flag = Some ''true'' then
            (Returned,
             mark_ready (on_store (setCloudStatus Idle)
               (on_store (setCloudMode Guest) (on_store (setSessionExpired True) w))))
          else
            let currentMode = cloudMode (store w);
                currentUser = user (store w);
                hasExistingCloudSession = (currentMode = Cloud \<and> truthy (email currentUser))
            in if dev_mode e \<and> hasExistingCloudSession then (Returned, emit ScheduleSessionRetry w)
               else
                 let wasAuthenticated = (currentMode = Cloud \<and> truthy (email currentUser));
                     w1 = (if wasAuthenticated then wipe_local J w else w);
                     w2 = on_store (setUser no_user) w1
                 in if net_entry e then
                      (let w3 = emit SignInAnonymously w2
                       in (case anon_sign_in e of
                             Inl err \<Rightarrow> (Returned, guest_fallback w3)
                           | Inr anonError \<Rightarrow>
                               if \<not> truthy anonError then (Returned, w3)
                               else (Returned, guest_fallback w3)))
                    else (Returned, guest_fallback w2))"

subsection \<open>Session found (lines 289 to 395)\<close>

text \<open>
  The breadcrumbs of lines 303 to 307. The three writes are not inside a \<open>try\<close>: the first
  one that throws ends the run.
\<close>

definition remember_auth :: "jsval \<Rightarrow> local_storage \<Rightarrow> failure + local_storage" where
  "remember_auth sessionUser ls =
     (if truthy (opt_prop sessionUser ''email'') \<and> \<not> truthy (opt_prop sessionUser ''is_anonymous'') then
        (case setItem WAS_AUTHENTICATED_KEY ''true'' ls of
           Inl err \<Rightarrow> Inl err
         | Inr ls1 \<Rightarrow>
             (case setItem ''app.lastAuthEmail'' (js_string (opt_prop sessionUser ''email'')) ls1 of
                Inl err \<Rightarrow> Inl err
              | Inr ls2 \<Rightarrow>
                  if truthy (provider (user_of sessionUser))
                  then setItem ''app.lastAuthProvider'' (js_string (provider (user_of sessionUser))) ls2
                  else Inr ls2))
      else Inr ls)"

text \<open>Lines 350 to 354, inside the \<open>try\<close>.\<close>

definition mark_onboarding :: "int \<Rightarrow> jsval \<Rightarrow> local_storage \<Rightarrow> failure + local_storage" where
  "mark_onboarding now cloud ls =
     (case getItem ''app.onboarding.completed.v2'' ls of
        Inl err \<Rightarrow> Inl err
      | Inr completed \<Rightarrow>
          if completed \<noteq> Some ''true'' \<and> truthy (opt_prop cloud ''welcomeSeen'') then
            (case setItem ''app.onboarding.completed.v2'' ''true'' ls of
               Inl err \<Rightarrow> Inl err
             | Inr ls1 \<Rightarrow> setItem ''app.onboarding.timestamp.v2'' (show_int now) ls1)
          else Inr ls)"

text \<open>Lines 377 to 385: the end of a successful initialisation.\<close>

definition init_done :: "world \<Rightarrow> world" where
  "init_done w = emit InitializePushNotifications (mark_ready (on_store (setCloudStatus Ok) w))"

text \<open>Lines 386 to 391: the \<open>catch\<close> block.\<close>

definition init_failed :: "json_codec \<Rightarrow> env \<Rightarrow> failure \<Rightarrow> world \<Rightarrow> world" where
  "init_failed J e err w =
     mark_ready
       (on_storage (setPendingSnapshot (json_stringify J) (getSnapshot (store w)))
          (on_store
             (setCloudStatus (if isNetworkOrServerError (nav_online e) err then Offline else Error))
             w))"

text \<open>
  Lines 342 to 385, the pull: the value thrown inside, if any, and the state reached.
\<close>

definition pull_section :: "json_codec \<Rightarrow> env \<Rightarrow> jsval \<Rightarrow> world \<Rightarrow> failure option \<times> world" where
  "pull_section J e sessionUser w =
     (let w1 = emit GetCloudState w
      in (case cloud_state e of
           Inl err \<Rightarrow> (Some err, w1)
         | Inr cloud \<Rightarrow>
             if truthy cloud then
               (case mark_onboarding (now_onboarding e) cloud (storage w1) of
                  Inl err \<Rightarrow> (Some err, w1)
                | Inr ls' \<Rightarrow>
                    (case replaceAllData (json_stringify J) cloud (store w1, ls') of
                       (Some err, s2, ls2) \<Rightarrow> (Some err, w1\<lparr>store := s2, storage := ls2\<rparr>)
                     | (None, s2, ls2) \<Rightarrow>
                         let w2 = w1\<lparr>store := s2, storage := ls2\<rparr>;
                             w4 = (case subscription_import e of
                                     Some subError \<Rightarrow> w2
                                   | None \<Rightarrow>
                                       let w3 = emit (GetSubscription (opt_prop sessionUser ''id'')) w2
                                       in (case subscription_lookup e of
                                             Inl subError \<Rightarrow> w3
                                           | Inr sub \<Rightarrow> on_store (setSubscription sub) w3));
                             w5 = on_both (updateLastAuthTimestamp (json_stringify J) (now_auth e)) w4
                         in (None, init_done w5)))
             else
               let localSnapshot = getSnapshot (store w1);
                   w2 = emit (UpsertCloudState localSnapshot) w1
               in (case seed_upsert e of
                     Some err \<Rightarrow> (Some err, w2)
                   | None \<Rightarrow>
                       (None,
                        init_done (on_both (updateLastAuthTimestamp (json_stringify J) (now_auth e)) w2)))))"

text \<open>Lines 330 to 391: the \<open>try\<close> block with its \<open>catch\<close>, entered with the lock acquired.\<close>

definition locked_section :: "json_codec \<Rightarrow> env \<Rightarrow> jsval \<Rightarrow> world \<Rightarrow> world" where
  "locked_section J e sessionUser w =
     (let w1 = on_store (setCloudStatus Syncing) w;
          pendingSnapshot = getPendingSnapshot (json_parse J) (storage w1)
      in if truthy pendingSnapshot then (pushSnapshot J (push e) pendingSnapshot w1)\<lparr>initialized := True\<rparr>
         else (case pull_section J e sessionUser w1 of
                 (None, w2) \<Rightarrow> w2
               | (Some err, w2) \<Rightarrow> init_failed J e err w2))"

definition with_session :: "json_codec \<Rightarrow> env \<Rightarrow> jsval \<Rightarrow> world \<Rightarrow> completion \<times> world" where
  "with_session J e session w =
     (let sessionUser = opt_prop session ''user''
      in if nullish sessionUser then (Rejected type_error, w)
         else
           let w1 = on_store (setUser (user_of sessionUser)) w
           in (case remember_auth sessionUser (storage w1) of
                Inl err \<Rightarrow> (Rejected err, w1)
              | Inr ls1 \<Rightarrow>
                  let w2 = on_store (setCloudMode Cloud) (w1\<lparr>storage := ls1\<rparr>)
                  in if \<not> net_after_session e then
                       (Returned,
                        mark_ready
                          (on_storage (setPendingSnapshot (json_stringify J) (getSnapshot (store w2)))
                             (on_store (setCloudStatus Offline) w2)))
                     else
                       (case acquireSyncLock (now_lock e) (storage w2) of
                          (False, ls2) \<Rightarrow> (Returned, mark_ready (on_store (setCloudStatus Ok) w2))
                        | (True, ls2) \<Rightarrow>
                            (Returned,
                             emit LockReleased
                               (on_storage releaseSyncLock
                                  (locked_section J e sessionUser
                                     (emit LockAcquired (w2\<lparr>storage := ls2\<rparr>))))))))"

subsection \<open>The whole function\<close>

definition initForSession :: "json_codec \<Rightarrow> env \<Rightarrow> world \<Rightarrow> completion \<times> world" where
  "initForSession J e w =
     (if \<not> net_entry e then offline_startup J w
      else
        let w0 = emit GetSession w
        in (case resolve_session J e w0 of
             Inl err \<Rightarrow> (Rejected err, w0)
           | Inr session \<Rightarrow>
               if truthy session then
                 (case getItem OTP_KEY (storage w0) of
                    Inl err \<Rightarrow> (Rejected err, w0)
                  | Inr pendingOtp \<Rightarrow>
                      if abandoned_otp (now_otp e) pendingOtp then sign_out_abandoned e w0
                      else with_session J e session w0)
               else without_session J e w0))"

section \<open>Sign-out handler\<close>

definition OAUTH_TRANSITION_KEY :: string where
  "OAUTH_TRANSITION_KEY = ''app.oauthTransition''"

text \<open>The OAuth marker is present and younger than 120 seconds.\<close>

definition oauth_in_progress :: "int \<Rightarrow> string option \<Rightarrow> bool" where
  "oauth_in_progress now oauthTransition =
     (present_text oauthTransition \<and>
      (case parseInt (the oauthTransition) of
         None \<Rightarrow> False
       | Some t \<Rightarrow> now - t < 120000))"

text \<open>
  The \<open>SIGNED_OUT\<close> branch of the authentication listener (lines 453 to 516), at the time
  \<open>now\<close> and with the given answer of the anonymous sign-in. The subscription cache is
  cleared in the \<open>then\<close> of a dynamic import that is not awaited: that callback cannot run
  before the handler reaches its \<open>await\<close>, which is after it has called
  \<open>signInAnonymously\<close>, and it never runs when the import fails (\<open>cache_import\<close> false).
\<close>

definition signed_out ::
  "json_codec \<Rightarrow> int \<Rightarrow> bool \<Rightarrow> failure + jsval \<Rightarrow> world \<Rightarrow> completion \<times> world" where
  "signed_out J now cache_import anon w =
     (case getItem OAUTH_TRANSITION_KEY (storage w) of
        Inl err \<Rightarrow> (Rejected err, w)
      | Inr oauthTransition \<Rightarrow>
          if oauth_in_progress now oauthTransition then (Returned, w)
          else
            (case (if present_text oauthTransition then removeItem OAUTH_TRANSITION_KEY (storage w)
                   else Inr (storage w)) of
               Inl err \<Rightarrow> (Rejected err, w)
             | Inr ls1 \<Rightarrow>
                 let w1 = w\<lparr>storage := ls1\<rparr>
                 in (case getItem WAS_AUTHENTICATED_KEY ls1 of
                      Inl err \<Rightarrow> (Rejected err, w1)
                    | Inr persistedAuth \<Rightarrow>
                        if present_text persistedAuth then
                          (Returned,
                           on_store (setCloudStatus Idle)
                             (on_store (setCloudMode Guest) (on_store (setSessionExpired True) w1)))
                        else
                          let w2 = emit CleanupPushNotifications (emit DeactivateToken w1);
                              w3 = on_storage clearState (on_storage clearPendingSnapshot w2);
                              w4 = on_store clearSubscription w3;
                              w5 = on_both (\<lambda>sl. snd (replaceAllData (json_stringify J) default_document sl)) w4;
                              w6 = on_both (setWelcomeSeen (json_stringify J) False)
                                     (on_storage remove_seen_key w5);
                              w7 = (on_store (setCloudStatus Idle)
                                      (on_store (setCloudMode Guest)
                                         (on_store (setUser no_user) w6)))\<lparr>initialized := False\<rparr>;
                              w8 = emit SignInAnonymously w7;
                              w9 = (if cache_import then emit ClearSubscriptionCache w8 else w8)
                          in (case anon of
                                Inl err \<Rightarrow> (Returned, on_store setCloudSyncReady w9)
                              | Inr error \<Rightarrow>
                                  if truthy error then (Returned, on_store setCloudSyncReady w9)
                                  else (Returned, w9)))))"

section \<open>Reading the log\<close>

text \<open>The entries a run added to the log, and the calls alone.\<close>

definition new_entries :: "world \<Rightarrow> world \<Rightarrow> (event \<times> string option) list" where
  "new_entries w w' = drop (length (log w)) (log w')"

definition new_events :: "world \<Rightarrow> world \<Rightarrow> event list" where
  "new_events w w' = map fst (new_entries w w')"

text \<open>
  Reading the calls from the left with the lock free or held: every remote upsert must lie
  between an acquisition and the release that follows it.
\<close>

fun held_after :: "bool \<Rightarrow> event list \<Rightarrow> bool" where
  "held_after held [] = held"
| "held_after held (LockAcquired # es) = held_after True es"
| "held_after held (LockReleased # es) = held_after False es"
| "held_after held (ev # es) = held_after held es"

fun upserts_locked :: "bool \<Rightarrow> event list \<Rightarrow> bool" where
  "upserts_locked held [] = True"
| "upserts_locked held (LockAcquired # es) = upserts_locked True es"
| "upserts_locked held (LockReleased # es) = upserts_locked False es"
| "upserts_locked held (UpsertCloudState s # es) = (held \<and> upserts_locked held es)"
| "upserts_locked held (ev # es) = upserts_locked held es"

text \<open>Every remote upsert among the entries found the given lock record in the storage.\<close>

fun upserts_see :: "string option \<Rightarrow> (event \<times> string option) list \<Rightarrow> bool" where
  "upserts_see cell [] = True"
| "upserts_see cell ((UpsertCloudState s, c) # es) = (c = cell \<and> upserts_see cell es)"
| "upserts_see cell (en # es) = upserts_see cell es"

section \<open>Concrete scenarios\<close>

text \<open>The states and values at which the theorems below are evaluated.\<close>

definition sample_store :: app_store where
  "sample_store = \<lparr>schemaVersion = JNum 2, welcomeSeen = JBool True, cloudSyncReady = JUndefined,
     security = JUndefined, subscription = JNull, sessionExpired = False, cloudMode = Cloud,
     cloudStatus = Ok, selectedMonth = ''2026-01'',
     user = \<lparr>email = JNull, name = JNull, avatarUrl = JNull, provider = JNull\<rparr>,
     hydrated_rest = []\<rparr>"

text \<open>A serialiser that prints the schema version of a document and nothing else.\<close>

definition version_text :: "jsval \<Rightarrow> string" where
  "version_text d = js_string (opt_prop d ''schemaVersion'')"

definition sample_snapshot :: jsval where
  "sample_snapshot = JObj
     [(''schemaVersion'', JNum 1), (''welcomeSeen'', JBool True),
      (''security'', JObj [(''biometricEnabled'', JBool True)])]"

definition empty_storage :: local_storage where
  "empty_storage = \<lparr>items = [], mode = Available\<rparr>"

text \<open>A storage that refuses every write and holds nothing.\<close>

definition refusing_storage :: local_storage where
  "refusing_storage = \<lparr>items = [], mode = WriteRefused quota_exceeded\<rparr>"

text \<open>
  A codec for the scenarios: it writes the sample snapshot as the text \<open>snapshot\<close> and a
  cached session artefact of an identified user as the text \<open>session\<close>, reads these two
  texts back, and rejects every other text; any other document is written as its schema
  version.
\<close>

definition cached_artifact :: jsval where
  "cached_artifact = JObj
     [(''user'', JObj [(''id'', JStr ''u1''), (''email'', JStr ''ann@example.org''),
                       (''is_anonymous'', JBool False)])]"

definition sample_stringify :: "jsval \<Rightarrow> string" where
  "sample_stringify d =
     (if d = sample_snapshot then ''snapshot''
      else if d = cached_artifact then ''session''
      else version_text d)"

definition sample_codec :: json_codec where
  "sample_codec = \<lparr>json_parse = map_of [(''session'', cached_artifact), (''snapshot'', sample_snapshot)],
                     json_stringify = sample_stringify\<rparr>"

text \<open>A storage whose Pending-Change Buffer holds the sample snapshot.\<close>

definition buffered_storage :: local_storage where
  "buffered_storage = \<lparr>items = [(''app.pendingSnapshot.v1'', ''snapshot'')], mode = Available\<rparr>"

text \<open>A sync gate that is not initialised and holds a pending change.\<close>

definition uninitialized_world :: world where
  "uninitialized_world = \<lparr>store = sample_store, storage = buffered_storage,
     initialized = False, log = []\<rparr>"

text \<open>An initialised sync gate in cloud mode that holds a pending change.\<close>

definition pending_world :: world where
  "pending_world = \<lparr>store = sample_store, storage = buffered_storage,
     initialized = True, log = []\<rparr>"

text \<open>An initialised sync gate in cloud mode on a storage that refuses writes.\<close>

definition refused_world :: world where
  "refused_world = \<lparr>store = sample_store, storage = refusing_storage,
     initialized = True, log = []\<rparr>"

definition reachable_ok :: push_env where
  "reachable_ok = \<lparr>network_status = True, upsert_result = None, browser_online = True\<rparr>"

definition http_503 :: failure where
  "http_503 = Thrown (JObj [(''message'', JStr ''Service Unavailable''), (''status'', JNum 503)])"

definition http_409 :: failure where
  "http_409 = Thrown (JObj [(''message'', JStr ''duplicate key value''), (''status'', JNum 409)])"

definition reachable_503 :: push_env where
  "reachable_503 = \<lparr>network_status = True, upsert_result = Some http_503, browser_online = True\<rparr>"

definition reachable_409 :: push_env where
  "reachable_409 = \<lparr>network_status = True, upsert_result = Some http_409, browser_online = True\<rparr>"

definition unreachable :: push_env where
  "unreachable = \<lparr>network_status = False, upsert_result = None, browser_online = False\<rparr>"

text \<open>A session of an identified user, as \<open>getSession()\<close> returns it.\<close>

definition user_session :: jsval where
  "user_session = JObj
     [(''user'', JObj [(''id'', JStr ''u1''), (''email'', JStr ''ann@example.org''),
                       (''is_anonymous'', JBool False)])]"

text \<open>
  A run with connectivity throughout, a session, a reachable remote store that holds no
  document, and every collaborator answering without error.
\<close>

definition online_env :: env where
  "online_env = \<lparr>dev_mode = False, net_entry = True, session_lookup = Inr user_session,
     now_otp = 6000, sign_out_result = None, anon_sign_in = Inr JNull,
     net_after_session = True, now_lock = 7000, push = reachable_ok,
     cloud_state = Inr JNull, now_onboarding = 7100, subscription_import = None,
     subscription_lookup = Inr JNull, seed_upsert = None, now_auth = 7200, nav_online = True\<rparr>"

text \<open>The session of an anonymous user.\<close>

definition anonymous_session :: jsval where
  "anonymous_session = JObj [(''user'', JObj [(''id'', JStr ''a1''), (''is_anonymous'', JBool True)])]"

definition anonymous_env :: env where
  "anonymous_env = online_env\<lparr>session_lookup := Inr anonymous_session\<rparr>"


text \<open>The same run with connectivity lost after the session was found.\<close>

definition dropped_env :: env where
  "dropped_env = online_env\<lparr>net_after_session := False\<rparr>"

text \<open>A run that starts without connectivity.\<close>

definition offline_env :: env where
  "offline_env = online_env\<lparr>net_entry := False, net_after_session := False\<rparr>"

text \<open>A sync gate with nothing buffered whose storage holds a cached session artefact.\<close>

definition cached_world :: world where
  "cached_world = \<lparr>store = sample_store,
     storage = \<lparr>items = [(''sb-demo-auth-token'', ''session'')], mode = Available\<rparr>,
     initialized = False, log = []\<rparr>"

text \<open>
  A sync gate in cloud mode with a pending change, a saved state and the onboarding flag,
  whose storage holds the was-previously-authenticated breadcrumb.
\<close>

definition breadcrumb_world :: world where
  "breadcrumb_world = \<lparr>store = sample_store,
     storage = \<lparr>items = [(''app.wasAuthenticated'', ''true''), (''app_state_v1'', ''2''),
                         (''app.welcomeSeen.v1'', ''1''), (''app.pendingSnapshot.v1'', ''snapshot'')],
                mode = Available\<rparr>,
     initialized = True, log = []\<rparr>"

text \<open>The same state without the breadcrumb.\<close>

definition signed_in_world :: world where
  "signed_in_world = \<lparr>store = sample_store,
     storage = \<lparr>items = [(''app_state_v1'', ''2''), (''app.welcomeSeen.v1'', ''1''),
                         (''app.pendingSnapshot.v1'', ''snapshot'')],
                mode = Available\<rparr>,
     initialized = True, log = []\<rparr>"

text \<open>The same state with the identity of a signed-in user in the store.\<close>

definition known_user_world :: world where
  "known_user_world = \<lparr>
     store = sample_store\<lparr>user := \<lparr>email = JStr ''ann@example.org'', name = JNull,
                                     avatarUrl = JNull, provider = JNull\<rparr>\<rparr>,
     storage = \<lparr>items = [(''app_state_v1'', ''2''), (''app.welcomeSeen.v1'', ''1''),
                         (''app.pendingSnapshot.v1'', ''snapshot'')],
                mode = Available\<rparr>,
     initialized = True, log = []\<rparr>"

section \<open>Properties of the failure classifier\<close>

lemma js_includes_sublist: "js_includes s p \<longleftrightarrow> sublist p s"
  by (induction s) (simp_all add: sublist_Cons_right)

lemma status_5xx_iff: "status_5xx v \<longleftrightarrow> (\<exists>n. v = JNum n \<and> 500 \<le> n \<and> n < 600)"
  by (cases v) simp_all

text \<open>
  C6. A failure is classified connectivity/server-transient exactly when the browser
  reports offline, or the lower-cased failure message contains one of the network-failure
  patterns, or the status read from the failure is a number in [500,600). Every other
  failure gets the answer \<open>False\<close>, the permanent/application class.
\<close>

theorem classifier_transient_iff:
  "isNetworkOrServerError navigator_onLine err \<longleftrightarrow>
     (\<not> navigator_onLine \<or>
      (\<exists>p \<in> set network_failure_patterns. sublist p (failure_message err)) \<or>
      (\<exists>n. failure_status err = JNum n \<and> 500 \<le> n \<and> n < 600))"
  unfolding isNetworkOrServerError_def Let_def network_failure_patterns_def
    js_includes_sublist status_5xx_iff
  by auto

theorem classifier_transient_iff_witness:
  "isNetworkOrServerError True
     (Thrown (JObj [(''message'', JStr ''upstream said no''), (''status'', JNum 503)])) \<and>
   isNetworkOrServerError True (ThrownInstance [(''message'', JStr ''TypeError: Failed to fetch'')] ''TypeError'') \<and>
   \<not> isNetworkOrServerError True
     (Thrown (JObj [(''message'', JStr ''duplicate key''), (''status'', JNum 409)]))"
proof -
  let ?a = "Thrown (JObj [(''message'', JStr ''upstream said no''), (''status'', JNum 503)])"
  let ?b = "ThrownInstance [(''message'', JStr ''TypeError: Failed to fetch'')] ''TypeError''"
  let ?c = "Thrown (JObj [(''message'', JStr ''duplicate key''), (''status'', JNum 409)])"
  have sa: "failure_status ?a = JNum 503"
    by (simp add: failure_status_def coalesce_def)
  have mb: "failure_message ?b = ''typeerror: failed to fetch''"
    by (simp add: failure_message_def toLowerCase_def lower_char_def)
  have mc: "failure_message ?c = ''duplicate key''"
    by (simp add: failure_message_def toLowerCase_def lower_char_def)
  have sc: "failure_status ?c = JNum 409"
    by (simp add: failure_status_def coalesce_def)
  have a: "isNetworkOrServerError True ?a"
    using classifier_transient_iff [of True ?a] sa by simp
  have b: "isNetworkOrServerError True ?b"
    using classifier_transient_iff [of True ?b] mb
    by (simp add: network_failure_patterns_def sublist_Cons_right)
  have c: "\<not> isNetworkOrServerError True ?c"
    using classifier_transient_iff [of True ?c] mc sc
    by (simp add: network_failure_patterns_def sublist_Cons_right)
  from a b c show ?thesis by blast
qed

section \<open>Properties of parseInt\<close>

lemma digit_char_facts:
  assumes "d < 10"
  shows "is_digit (digit_char d)" "digit_val (digit_char d) = d" "\<not> is_space (digit_char d)"
    "digit_char d \<noteq> CHR ''-''" "digit_char d \<noteq> CHR ''+''"
proof -
  from assms have "d = 0 \<or> d = 1 \<or> d = 2 \<or> d = 3 \<or> d = 4 \<or> d = 5 \<or> d = 6 \<or> d = 7 \<or> d = 8 \<or> d = 9"
    by arith
  then show "is_digit (digit_char d)" "digit_val (digit_char d) = d" "\<not> is_space (digit_char d)"
    "digit_char d \<noteq> CHR ''-''" "digit_char d \<noteq> CHR ''+''"
    by (auto simp: digit_char_def is_digit_def digit_val_def is_space_def)
qed

lemma show_nat_digits: "\<forall>c \<in> set (show_nat n). is_digit c"
proof (induction n rule: show_nat.induct)
  case (1 n)
  show ?case
  proof (cases "n < 10")
    case True
    then show ?thesis by (simp add: show_nat.simps [of n] digit_char_facts)
  next
    case False
    with 1 show ?thesis by (simp add: show_nat.simps [of n] digit_char_facts)
  qed
qed

lemma show_nat_value: "digits_value (show_nat n) = n"
proof (induction n rule: show_nat.induct)
  case (1 n)
  show ?case
  proof (cases "n < 10")
    case True
    then show ?thesis by (simp add: show_nat.simps [of n] digits_value_def digit_char_facts)
  next
    case False
    with 1 have "digits_value (show_nat (n div 10)) = n div 10" by simp
    with False show ?thesis
      by (simp add: show_nat.simps [of n] digits_value_def digit_char_facts)
  qed
qed

lemma show_nat_Cons: "\<exists>c cs. show_nat n = c # cs \<and> is_digit c \<and> \<not> is_space c \<and> c \<noteq> CHR ''-'' \<and> c \<noteq> CHR ''+''"
proof (induction n rule: show_nat.induct)
  case (1 n)
  show ?case
  proof (cases "n < 10")
    case True
    then show ?thesis by (simp add: show_nat.simps [of n] digit_char_facts)
  next
    case False
    with 1 obtain c cs where "show_nat (n div 10) = c # cs" "is_digit c" "\<not> is_space c" "c \<noteq> CHR ''-''" "c \<noteq> CHR ''+''"
      by blast
    with False show ?thesis by (simp add: show_nat.simps [of n])
  qed
qed

lemma is_digit_plain: "is_digit c \<Longrightarrow> \<not> is_space c \<and> c \<noteq> CHR ''-'' \<and> c \<noteq> CHR ''+''"
  by (auto simp: is_digit_def is_space_def)

lemma parseInt_digits:
  assumes "ds \<noteq> []" and "\<forall>c \<in> set ds. is_digit c"
  shows "parseInt ds = Some (int (digits_value ds))"
    and "parseInt (CHR ''-'' # ds) = Some (- int (digits_value ds))"
proof -
  from assms obtain c cs where ds: "ds = c # cs" and c: "is_digit c"
    by (cases ds) auto
  have tw: "takeWhile is_digit ds = ds"
    using assms(2) by simp
  have dw: "dropWhile is_space ds = ds"
    using c is_digit_plain [of c] by (simp add: ds)
  have hd: "c \<noteq> CHR ''-''" "c \<noteq> CHR ''+''"
    using c is_digit_plain [of c] by simp_all
  have "parseInt ds = (if takeWhile is_digit ds = [] then None
      else Some (int (digits_value (takeWhile is_digit ds))))"
    unfolding parseInt_def Let_def dw by (simp add: ds hd)
  then show "parseInt ds = Some (int (digits_value ds))"
    by (simp add: tw assms(1))
  have "parseInt (CHR ''-'' # ds) = (if takeWhile is_digit ds = [] then None
      else Some (- int (digits_value (takeWhile is_digit ds))))"
    unfolding parseInt_def Let_def by (simp add: is_space_def)
  then show "parseInt (CHR ''-'' # ds) = Some (- int (digits_value ds))"
    by (simp add: tw assms(1))
qed

lemma show_nat_nonempty: "show_nat n \<noteq> []"
  using show_nat_Cons [of n] by auto

lemma parseInt_show_int: "parseInt (show_int i) = Some i"
  by (simp add: show_int_def parseInt_digits show_nat_nonempty show_nat_digits show_nat_value)

section \<open>Properties of the lock\<close>

lemma parseInt_empty: "parseInt [] = None"
  by (simp add: parseInt_def)

text \<open>
  C5, as the claim states it, fails where the storage refuses the write: acquisition
  succeeds although no record is written.
\<close>

theorem acquireSyncLock_counterexample:
  "fst (acquireSyncLock 7000 \<lparr>items = [], mode = WriteRefused quota_exceeded\<rparr>) \<and>
   items (snd (acquireSyncLock 7000 \<lparr>items = [], mode = WriteRefused quota_exceeded\<rparr>)) = []"
  by (simp add: acquireSyncLock_def getItem_def setItem_def)

text \<open>
  C5, amended. While the storage can be read and written, acquisition succeeds exactly
  when no lock record younger than 5000 ms exists: a younger record makes it answer
  \<open>false\<close> and leave the storage as it is; otherwise (no record, a record that holds no
  number, or one aged 5000 ms or more) it answers \<open>true\<close> and writes a record stamped with
  the current time, which a later contender at time \<open>now'\<close> finds held exactly while
  \<open>now' - now < 5000\<close>. Where the storage refuses writes, acquisition gives the same
  answer and writes nothing; where it refuses every access, acquisition answers \<open>true\<close>
  and writes nothing.
\<close>

theorem acquireSyncLock_amended:
  "(mode ls = Available \<longrightarrow>
      (fst (acquireSyncLock now ls) \<longleftrightarrow> \<not> lock_held now ls) \<and>
      (lock_held now ls \<longrightarrow> acquireSyncLock now ls = (False, ls)) \<and>
      (\<not> lock_held now ls \<longrightarrow>
         acquireSyncLock now ls =
           (True, ls\<lparr>items := AList.update SYNC_LOCK_KEY (show_int now) (items ls)\<rparr>) \<and>
         lock_record_age now' (snd (acquireSyncLock now ls)) = Some (now' - now) \<and>
         (lock_held now' (snd (acquireSyncLock now ls)) \<longleftrightarrow> now' - now < 5000))) \<and>
   (mode ls = WriteRefused e \<longrightarrow> acquireSyncLock now ls = (\<not> lock_held now ls, ls)) \<and>
   (mode ls = Denied e \<longrightarrow> acquireSyncLock now ls = (True, ls))"
  by (auto simp: acquireSyncLock_def getItem_def setItem_def lock_held_def lock_record_age_def
      SYNC_LOCK_TIMEOUT_def parseInt_empty update_conv' parseInt_show_int
      split: option.splits)

theorem acquireSyncLock_amended_witness:
  "lock_held 7000 \<lparr>items = [(''app.syncLock'', ''3000'')], mode = Available\<rparr> \<and>
   acquireSyncLock 7000 \<lparr>items = [(''app.syncLock'', ''3000'')], mode = Available\<rparr> =
     (False, \<lparr>items = [(''app.syncLock'', ''3000'')], mode = Available\<rparr>) \<and>
   \<not> lock_held 8000 \<lparr>items = [(''app.syncLock'', ''3000'')], mode = Available\<rparr> \<and>
   acquireSyncLock 8000 \<lparr>items = [(''app.syncLock'', ''3000'')], mode = Available\<rparr> =
     (True, \<lparr>items = [(''app.syncLock'', ''8000'')], mode = Available\<rparr>) \<and>
   acquireSyncLock 7000 \<lparr>items = [(''app.syncLock'', ''3000'')], mode = Denied security_error\<rparr> =
     (True, \<lparr>items = [(''app.syncLock'', ''3000'')], mode = Denied security_error\<rparr>)"
proof -
  let ?ls = "\<lparr>items = [(''app.syncLock'', ''3000'')], mode = Available\<rparr>"
  let ?den = "\<lparr>items = [(''app.syncLock'', ''3000'')], mode = Denied security_error\<rparr>"
  have p: "parseInt ''3000'' = Some 3000"
    by (simp add: parseInt_def is_space_def is_digit_def digits_value_def digit_val_def)
  have h7: "lock_held 7000 ?ls"
    by (simp add: lock_held_def lock_record_age_def SYNC_LOCK_KEY_def p)
  have h8: "\<not> lock_held 8000 ?ls"
    by (simp add: lock_held_def lock_record_age_def SYNC_LOCK_KEY_def p)
  have s8: "show_int 8000 = ''8000''"
    by (simp add: show_int_def show_nat.simps digit_char_def)
  have a7: "acquireSyncLock 7000 ?ls = (False, ?ls)"
    using acquireSyncLock_amended [of ?ls 7000] h7 by simp
  have a8: "acquireSyncLock 8000 ?ls = (True, \<lparr>items = [(''app.syncLock'', ''8000'')], mode = Available\<rparr>)"
    using acquireSyncLock_amended [of ?ls 8000] h8 by (simp add: SYNC_LOCK_KEY_def s8)
  have d: "acquireSyncLock 7000 ?den = (True, ?den)"
    using acquireSyncLock_amended [of ?den 7000 _ security_error] by simp
  from h7 a7 h8 a8 d show ?thesis by blast
qed

section \<open>Properties of the durable local store\<close>

text \<open>
  C9, as the claim states it, fails on a record whose schema version is not the
  supported one: with \<open>JSON.parse\<close> reading the stored text as the object whose
  \<open>schemaVersion\<close> is 2, \<open>loadState\<close> returns that object.
\<close>

theorem loadState_mismatch_counterexample:
  \<open>loadState (map_of [(''{"schemaVersion":2}'', JObj [(''schemaVersion'', JNum 2)])])
     \<lparr>items = [(''app_state_v1'', ''{"schemaVersion":2}'')], mode = Available\<rparr>
   = Some (JObj [(''schemaVersion'', JNum 2)])\<close>
  by (simp add: loadState_def getItem_def STORAGE_KEY_def)

lemma truthy_not_nullish: "truthy (opt_prop d k) \<Longrightarrow> \<not> nullish d"
  by (cases d) simp_all

text \<open>
  C9, amended. \<open>loadState\<close> checks that the schema-version field is present and truthy,
  not that it equals the supported value: it returns the parsed record exactly when the
  storage holds a non-empty text under the state key, \<open>JSON.parse\<close> accepts it, and the
  \<open>schemaVersion\<close> of the parsed value is truthy (so a record whose \<open>schemaVersion\<close> is
  missing, \<open>null\<close>, \<open>false\<close>, 0 or the empty string is absent, and one whose
  \<open>schemaVersion\<close> is 2 is returned as it is). It never throws: the result is absent
  when the storage access throws, when there is no record or an empty one, when the text
  does not parse, and when the schema version is not truthy.
\<close>

theorem loadState_amended:
  "(loadState parse ls = Some d \<longleftrightarrow>
      (\<exists>raw. getItem STORAGE_KEY ls = Inr (Some raw) \<and> raw \<noteq> [] \<and> parse raw = Some d \<and>
             truthy (opt_prop d ''schemaVersion''))) \<and>
   (loadState parse ls = None \<longleftrightarrow>
      (\<exists>e. getItem STORAGE_KEY ls = Inl e) \<or>
      getItem STORAGE_KEY ls = Inr None \<or>
      getItem STORAGE_KEY ls = Inr (Some []) \<or>
      (\<exists>raw. getItem STORAGE_KEY ls = Inr (Some raw) \<and> parse raw = None) \<or>
      (\<exists>raw p. getItem STORAGE_KEY ls = Inr (Some raw) \<and> parse raw = Some p \<and>
               \<not> truthy (opt_prop p ''schemaVersion'')))"
  using truthy_not_nullish [of _ "''schemaVersion''"]
  by (auto simp: loadState_def split: sum.splits option.splits if_splits)

theorem loadState_amended_witness:
  \<open>loadState (map_of [(''{"schemaVersion":1}'', JObj [(''schemaVersion'', JNum 1)]), (''{}'', JObj [])])
     \<lparr>items = [(''app_state_v1'', ''{"schemaVersion":1}'')], mode = Available\<rparr>
     = Some (JObj [(''schemaVersion'', JNum 1)]) \<and>
   loadState (map_of [(''{"schemaVersion":1}'', JObj [(''schemaVersion'', JNum 1)]), (''{}'', JObj [])])
     \<lparr>items = [(''app_state_v1'', ''{}'')], mode = Available\<rparr> = None \<and>
   loadState (map_of [(''{"schemaVersion":1}'', JObj [(''schemaVersion'', JNum 1)]), (''{}'', JObj [])])
     \<lparr>items = [(''app_state_v1'', ''{"schemaVersion":1}'')], mode = Denied security_error\<rparr> = None\<close>
proof -
  let ?p = \<open>map_of [(''{"schemaVersion":1}'', JObj [(''schemaVersion'', JNum 1)]), (''{}'', JObj [])]\<close>
  let ?a = \<open>\<lparr>items = [(''app_state_v1'', ''{"schemaVersion":1}'')], mode = Available\<rparr>\<close>
  let ?b = \<open>\<lparr>items = [(''app_state_v1'', ''{}'')], mode = Available\<rparr>\<close>
  let ?c = \<open>\<lparr>items = [(''app_state_v1'', ''{"schemaVersion":1}'')], mode = Denied security_error\<rparr>\<close>
  have a: "loadState ?p ?a = Some (JObj [(''schemaVersion'', JNum 1)])"
    using loadState_amended [of ?p ?a "JObj [(''schemaVersion'', JNum 1)]"]
    by (simp add: getItem_def STORAGE_KEY_def)
  have b: "loadState ?p ?b = None"
    using loadState_amended [of ?p ?b]
    by (simp add: getItem_def STORAGE_KEY_def)
  have c: "loadState ?p ?c = None"
    using loadState_amended [of ?p ?c]
    by (simp add: getItem_def STORAGE_KEY_def)
  from a b c show ?thesis by blast
qed

section \<open>Properties of the in-memory store\<close>

lemma opt_prop_normalizedData: "opt_prop (normalizedData data) ''schemaVersion'' = JNum 1"
  by (simp add: normalizedData_def update_conv')

lemma opt_prop_store_doc: "opt_prop (store_doc s) ''schemaVersion'' = schemaVersion s"
  by (simp add: store_doc_def)

lemma getItem_saveState:
  "mode ls = Available \<Longrightarrow> getItem STORAGE_KEY (saveState str doc ls) = Inr (Some (str doc))"
  by (simp add: saveState_def setItem_def getItem_def update_conv')

lemma mode_saveState: "mode (saveState str doc ls) = mode ls"
  by (simp add: saveState_def setItem_def split: ls_mode.splits)

lemma getItem_write_seen_flag:
  "getItem STORAGE_KEY (write_seen_flag v ls) = getItem STORAGE_KEY ls"
  by (simp add: write_seen_flag_def setItem_def removeItem_def getItem_def STORAGE_KEY_def
      SEEN_KEY_def update_conv' delete_conv' split: ls_mode.splits)

text \<open>
  C10. The snapshot \<open>getSnapshot\<close> returns, the state \<open>toggleBiometricAuth\<close> and
  \<open>updateLastAuthTimestamp\<close> install and the document they save, and the document
  \<open>replaceAllData\<close> saves and the state it installs all have \<open>schemaVersion\<close> 1, whatever
  the schema version of the state or of the input document was. (\<open>replaceAllData\<close>
  installs a state for every input that is a value, that is, not \<open>null\<close> or
  \<open>undefined\<close>; the saved text is the one found in a storage that accepts writes.)
\<close>

theorem schemaVersion_always_1:
  "opt_prop (getSnapshot s) ''schemaVersion'' = JNum 1 \<and>
   schemaVersion (fst (toggleBiometricAuth str (s, ls))) = JNum 1 \<and>
   opt_prop (store_doc (fst (toggleBiometricAuth str (s, ls)))) ''schemaVersion'' = JNum 1 \<and>
   schemaVersion (fst (updateLastAuthTimestamp str now (s, ls))) = JNum 1 \<and>
   opt_prop (store_doc (fst (updateLastAuthTimestamp str now (s, ls)))) ''schemaVersion'' = JNum 1 \<and>
   opt_prop (normalizedData data) ''schemaVersion'' = JNum 1 \<and>
   (\<not> nullish data \<longrightarrow>
      fst (replaceAllData str data (s, ls)) = None \<and>
      schemaVersion (fst (snd (replaceAllData str data (s, ls)))) = JNum 1) \<and>
   (mode ls = Available \<longrightarrow>
      getItem STORAGE_KEY (snd (snd (replaceAllData str data (s, ls)))) =
        Inr (Some (str (normalizedData data))) \<and>
      getItem STORAGE_KEY (snd (toggleBiometricAuth str (s, ls))) =
        Inr (Some (str (store_doc (fst (toggleBiometricAuth str (s, ls)))))) \<and>
      getItem STORAGE_KEY (snd (updateLastAuthTimestamp str now (s, ls))) =
        Inr (Some (str (store_doc (fst (updateLastAuthTimestamp str now (s, ls)))))))"
proof -
  have g: "opt_prop (getSnapshot s) ''schemaVersion'' = JNum 1"
    by (simp add: getSnapshot_def)
  have t: "schemaVersion (fst (toggleBiometricAuth str (s, ls))) = JNum 1"
    by (simp add: toggleBiometricAuth_def Let_def)
  have u: "schemaVersion (fst (updateLastAuthTimestamp str now (s, ls))) = JNum 1"
    by (simp add: updateLastAuthTimestamp_def Let_def)
  have r: "\<not> nullish data \<longrightarrow>
      fst (replaceAllData str data (s, ls)) = None \<and>
      schemaVersion (fst (snd (replaceAllData str data (s, ls)))) = JNum 1"
    by (simp add: replaceAllData_def Let_def)
  have p: "mode ls = Available \<longrightarrow>
      getItem STORAGE_KEY (snd (snd (replaceAllData str data (s, ls)))) =
        Inr (Some (str (normalizedData data)))"
    by (simp add: replaceAllData_def Let_def getItem_write_seen_flag getItem_saveState)
  have pt: "mode ls = Available \<longrightarrow>
      getItem STORAGE_KEY (snd (toggleBiometricAuth str (s, ls))) =
        Inr (Some (str (store_doc (fst (toggleBiometricAuth str (s, ls))))))"
    by (simp add: toggleBiometricAuth_def Let_def getItem_saveState)
  have pu: "mode ls = Available \<longrightarrow>
      getItem STORAGE_KEY (snd (updateLastAuthTimestamp str now (s, ls))) =
        Inr (Some (str (store_doc (fst (updateLastAuthTimestamp str now (s, ls))))))"
    by (simp add: updateLastAuthTimestamp_def Let_def getItem_saveState)
  from g t u r p pt pu opt_prop_normalizedData opt_prop_store_doc show ?thesis by metis
qed

theorem schemaVersion_always_1_witness:
  "schemaVersion sample_store = JNum 2 \<and>
   \<not> nullish (JObj [(''schemaVersion'', JNum 7), (''welcomeSeen'', JBool True)]) \<and>
   schemaVersion (fst (snd (replaceAllData version_text
      (JObj [(''schemaVersion'', JNum 7), (''welcomeSeen'', JBool True)])
      (sample_store, \<lparr>items = [], mode = Available\<rparr>)))) = JNum 1 \<and>
   getItem STORAGE_KEY (snd (snd (replaceAllData version_text
      (JObj [(''schemaVersion'', JNum 7), (''welcomeSeen'', JBool True)])
      (sample_store, \<lparr>items = [], mode = Available\<rparr>)))) = Inr (Some ''1'')"
proof -
  let ?d = "JObj [(''schemaVersion'', JNum 7), (''welcomeSeen'', JBool True)]"
  have v: "version_text (normalizedData ?d) = ''1''"
    by (simp add: version_text_def normalizedData_def show_int_def show_nat.simps digit_char_def)
  show ?thesis
    using schemaVersion_always_1 [of sample_store version_text "\<lparr>items = [], mode = Available\<rparr>" 0 ?d] v
    by (simp add: sample_store_def)
qed

section \<open>Properties of the Pending-Change Buffer\<close>

lemma mode_buffer [simp]:
  "mode (setPendingSnapshot str v ls) = mode ls"
  "mode (clearPendingSnapshot ls) = mode ls"
  by (simp_all add: setPendingSnapshot_def clearPendingSnapshot_def setItem_def removeItem_def
      split: ls_mode.splits)

lemma lock_cell_buffer [simp]:
  "lock_cell (setPendingSnapshot str v ls) = lock_cell ls"
  "lock_cell (clearPendingSnapshot ls) = lock_cell ls"
  by (simp_all add: setPendingSnapshot_def clearPendingSnapshot_def setItem_def removeItem_def
      lock_cell_def update_conv' delete_conv' PENDING_KEY_def SYNC_LOCK_KEY_def
      split: ls_mode.splits)

lemma buffer_available:
  assumes "mode ls = Available"
  shows "getItem PENDING_KEY (setPendingSnapshot str v ls) = Inr (Some (str v))"
    and "getItem PENDING_KEY (clearPendingSnapshot ls) = Inr None"
  using assms
  by (simp_all add: setPendingSnapshot_def clearPendingSnapshot_def setItem_def removeItem_def
      getItem_def update_conv' delete_conv')

lemma buffer_refused:
  assumes "mode ls = WriteRefused q"
  shows "setPendingSnapshot str v ls = ls"
    and "getItem PENDING_KEY (clearPendingSnapshot ls) = Inr None"
  using assms
  by (simp_all add: setPendingSnapshot_def clearPendingSnapshot_def setItem_def removeItem_def
      getItem_def delete_conv')

lemma buffer_denied:
  assumes "mode ls = Denied q"
  shows "setPendingSnapshot str v ls = ls" and "clearPendingSnapshot ls = ls"
    and "getPendingSnapshot parse ls = JNull"
  using assms
  by (simp_all add: setPendingSnapshot_def clearPendingSnapshot_def setItem_def removeItem_def
      getPendingSnapshot_def getItem_def)

lemma buffer_read_back:
  assumes "mode ls = Available" "str v \<noteq> []" "parse (str v) = Some v"
  shows "getPendingSnapshot parse (setPendingSnapshot str v ls) = v"
  using assms by (simp add: getPendingSnapshot_def buffer_available)

lemma buffer_cleared_after_read:
  assumes "truthy (getPendingSnapshot parse ls)"
  shows "getItem PENDING_KEY (clearPendingSnapshot ls) = Inr None"
  using assms buffer_denied(3) [of ls _ parse] buffer_available(2) [of ls] buffer_refused(2) [of ls]
  by (cases "mode ls") auto

section \<open>Properties of the push\<close>

lemmas world_ops = on_store_def on_storage_def on_both_def emit_def setCloudStatus_def
  setCloudMode_def


lemma new_events_append: "log w' = log w @ es \<Longrightarrow> new_events w w' = map fst es"
  by (simp add: new_events_def new_entries_def)

lemma log_frame [simp]:
  "log (on_store f w) = log w"
  "log (on_storage g w) = log w"
  "log (on_both h w) = log w"
  "log (mark_ready w) = log w"
  "log (emit ev w) = log w @ [(ev, lock_cell (storage w))]"
  by (simp_all add: world_ops mark_ready_def Let_def)

lemma store_frame [simp]:
  "store (on_store f w) = f (store w)"
  "store (on_storage g w) = store w"
  "store (emit ev w) = store w"
  "store (mark_ready w) = setCloudSyncReady (store w)"
  by (simp_all add: world_ops mark_ready_def)

lemma storage_frame [simp]:
  "storage (on_store f w) = storage w"
  "storage (on_storage g w) = g (storage w)"
  "storage (emit ev w) = storage w"
  "storage (mark_ready w) = storage w"
  by (simp_all add: world_ops mark_ready_def)

lemma initialized_frame [simp]:
  "initialized (on_store f w) = initialized w"
  "initialized (on_storage g w) = initialized w"
  "initialized (on_both h w) = initialized w"
  "initialized (emit ev w) = initialized w"
  "initialized (mark_ready w)"
  by (simp_all add: world_ops mark_ready_def Let_def)

lemma cloudStatus_set [simp]: "cloudStatus (setCloudStatus st s) = st"
  by (simp add: setCloudStatus_def)

lemma getSnapshot_frame [simp]:
  "getSnapshot (setUser u s) = getSnapshot s"
  "getSnapshot (setCloudMode m s) = getSnapshot s"
  "getSnapshot (setCloudStatus st s) = getSnapshot s"
  "getSnapshot (setCloudSyncReady s) = getSnapshot s"
  by (simp_all add: getSnapshot_def setUser_def setCloudMode_def setCloudStatus_def
      setCloudSyncReady_def)

lemma http_503_transient: "isNetworkOrServerError True http_503"
  by (simp add: isNetworkOrServerError_def http_503_def failure_status_def coalesce_def)

lemma http_409_permanent: "\<not> isNetworkOrServerError True http_409"
  by (simp add: isNetworkOrServerError_def http_409_def failure_status_def coalesce_def
      failure_message_def toLowerCase_def lower_char_def)

lemma pushSnapshot_offline:
  "\<not> network_status pe \<Longrightarrow>
     pushSnapshot J pe snapshot w =
       on_storage (setPendingSnapshot (json_stringify J) snapshot) (on_store (setCloudStatus Offline) w)"
  by (simp add: pushSnapshot_def)

lemma pushSnapshot_ok:
  "network_status pe \<Longrightarrow> upsert_result pe = None \<Longrightarrow>
     pushSnapshot J pe snapshot w =
       on_store (setCloudStatus Ok) (on_storage clearPendingSnapshot
         (emit (UpsertCloudState snapshot) (on_store (setCloudStatus Syncing) w)))"
  by (simp add: pushSnapshot_def Let_def)

lemma pushSnapshot_failed:
  "network_status pe \<Longrightarrow> upsert_result pe = Some err \<Longrightarrow>
     pushSnapshot J pe snapshot w =
       on_storage (setPendingSnapshot (json_stringify J) snapshot)
         (on_store (setCloudStatus (if isNetworkOrServerError (browser_online pe) err then Offline else Error))
            (emit (UpsertCloudState snapshot) (on_store (setCloudStatus Syncing) w)))"
  by (simp add: pushSnapshot_def Let_def)

text \<open>
  C1, as the claim states it, fails where the storage refuses the write: the buffer write
  is \<open>try { localStorage.setItem(...) } catch {}\<close>, so a push without connectivity sets
  the status and returns, and the snapshot is in no buffer afterwards.
\<close>

theorem pushSnapshot_dropped_counterexample:
  "\<not> network_status unreachable \<and>
   log (pushSnapshot sample_codec unreachable sample_snapshot refused_world) = [] \<and>
   getItem PENDING_KEY (storage (pushSnapshot sample_codec unreachable sample_snapshot refused_world)) =
     Inr None \<and>
   getPendingSnapshot (json_parse sample_codec)
     (storage (pushSnapshot sample_codec unreachable sample_snapshot refused_world)) = JNull"
  by (simp add: pushSnapshot_def unreachable_def refused_world_def refusing_storage_def
      setPendingSnapshot_def setItem_def getPendingSnapshot_def getItem_def on_storage_def on_store_def)

text \<open>
  C1, amended. For every snapshot passed to \<open>pushSnapshot\<close>: without connectivity at
  entry the status becomes \<open>offline\<close>, no remote call is made and the write of the
  snapshot to the Pending-Change Buffer is attempted; when the remote upsert succeeds the
  removal of the buffer is attempted and the status becomes \<open>ok\<close>; when it fails the
  write of that same snapshot is attempted and the status becomes \<open>offline\<close> if the
  failure is classified transient, else \<open>error\<close>. The push always returns. The buffer
  operations are best effort: on a storage that can be written the buffer then holds the
  serialised snapshot (and reading it gives the snapshot back when the codec round-trips
  it to a non-empty text), respectively nothing; a storage that refuses writes keeps what
  it held, so the snapshot is not buffered, while the removal still works; a storage that
  refuses every access is left as it is.
\<close>

theorem pushSnapshot_amended:
  "(\<not> network_status pe \<longrightarrow>
      cloudStatus (store (pushSnapshot J pe snapshot w)) = Offline \<and>
      new_entries w (pushSnapshot J pe snapshot w) = [] \<and>
      storage (pushSnapshot J pe snapshot w) =
        setPendingSnapshot (json_stringify J) snapshot (storage w)) \<and>
   (network_status pe \<and> upsert_result pe = None \<longrightarrow>
      cloudStatus (store (pushSnapshot J pe snapshot w)) = Ok \<and>
      new_events w (pushSnapshot J pe snapshot w) = [UpsertCloudState snapshot] \<and>
      storage (pushSnapshot J pe snapshot w) = clearPendingSnapshot (storage w)) \<and>
   (network_status pe \<and> upsert_result pe = Some err \<longrightarrow>
      cloudStatus (store (pushSnapshot J pe snapshot w)) =
        (if isNetworkOrServerError (browser_online pe) err then Offline else Error) \<and>
      new_events w (pushSnapshot J pe snapshot w) = [UpsertCloudState snapshot] \<and>
      storage (pushSnapshot J pe snapshot w) =
        setPendingSnapshot (json_stringify J) snapshot (storage w)) \<and>
   (mode ls = Available \<longrightarrow>
      getItem PENDING_KEY (setPendingSnapshot (json_stringify J) snapshot ls) =
        Inr (Some (json_stringify J snapshot)) \<and>
      getItem PENDING_KEY (clearPendingSnapshot ls) = Inr None \<and>
      (json_stringify J snapshot \<noteq> [] \<and> json_parse J (json_stringify J snapshot) = Some snapshot \<longrightarrow>
         getPendingSnapshot (json_parse J) (setPendingSnapshot (json_stringify J) snapshot ls) = snapshot)) \<and>
   (mode ls = WriteRefused q \<longrightarrow>
      setPendingSnapshot (json_stringify J) snapshot ls = ls \<and>
      getItem PENDING_KEY (clearPendingSnapshot ls) = Inr None) \<and>
   (mode ls = Denied q \<longrightarrow>
      setPendingSnapshot (json_stringify J) snapshot ls = ls \<and> clearPendingSnapshot ls = ls)"
proof (intro conjI)
  show "\<not> network_status pe \<longrightarrow>
      cloudStatus (store (pushSnapshot J pe snapshot w)) = Offline \<and>
      new_entries w (pushSnapshot J pe snapshot w) = [] \<and>
      storage (pushSnapshot J pe snapshot w) =
        setPendingSnapshot (json_stringify J) snapshot (storage w)"
    by (simp add: pushSnapshot_offline new_entries_def)
  show "network_status pe \<and> upsert_result pe = None \<longrightarrow>
      cloudStatus (store (pushSnapshot J pe snapshot w)) = Ok \<and>
      new_events w (pushSnapshot J pe snapshot w) = [UpsertCloudState snapshot] \<and>
      storage (pushSnapshot J pe snapshot w) = clearPendingSnapshot (storage w)"
    by (simp add: pushSnapshot_ok new_events_def new_entries_def)
  show "network_status pe \<and> upsert_result pe = Some err \<longrightarrow>
      cloudStatus (store (pushSnapshot J pe snapshot w)) =
        (if isNetworkOrServerError (browser_online pe) err then Offline else Error) \<and>
      new_events w (pushSnapshot J pe snapshot w) = [UpsertCloudState snapshot] \<and>
      storage (pushSnapshot J pe snapshot w) =
        setPendingSnapshot (json_stringify J) snapshot (storage w)"
    by (simp add: pushSnapshot_failed new_events_def new_entries_def)
  show "mode ls = Available \<longrightarrow>
      getItem PENDING_KEY (setPendingSnapshot (json_stringify J) snapshot ls) =
        Inr (Some (json_stringify J snapshot)) \<and>
      getItem PENDING_KEY (clearPendingSnapshot ls) = Inr None \<and>
      (json_stringify J snapshot \<noteq> [] \<and> json_parse J (json_stringify J snapshot) = Some snapshot \<longrightarrow>
         getPendingSnapshot (json_parse J) (setPendingSnapshot (json_stringify J) snapshot ls) = snapshot)"
    by (simp add: buffer_available buffer_read_back)
  show "mode ls = WriteRefused q \<longrightarrow>
      setPendingSnapshot (json_stringify J) snapshot ls = ls \<and>
      getItem PENDING_KEY (clearPendingSnapshot ls) = Inr None"
    by (simp add: buffer_refused)
  show "mode ls = Denied q \<longrightarrow>
      setPendingSnapshot (json_stringify J) snapshot ls = ls \<and> clearPendingSnapshot ls = ls"
    by (simp add: buffer_denied)
qed

lemma sample_round_trip:
  "json_stringify sample_codec sample_snapshot = ''snapshot''"
  "json_parse sample_codec ''snapshot'' = Some sample_snapshot"
  by (simp_all add: sample_codec_def sample_stringify_def)

theorem pushSnapshot_amended_witness:
  "cloudStatus (store (pushSnapshot sample_codec unreachable sample_snapshot cached_world)) = Offline \<and>
   getItem PENDING_KEY (storage (pushSnapshot sample_codec unreachable sample_snapshot cached_world)) =
     Inr (Some ''snapshot'') \<and>
   getPendingSnapshot (json_parse sample_codec)
     (storage (pushSnapshot sample_codec unreachable sample_snapshot cached_world)) = sample_snapshot \<and>
   cloudStatus (store (pushSnapshot sample_codec reachable_ok sample_snapshot pending_world)) = Ok \<and>
   new_events pending_world (pushSnapshot sample_codec reachable_ok sample_snapshot pending_world) =
     [UpsertCloudState sample_snapshot] \<and>
   getItem PENDING_KEY (storage (pushSnapshot sample_codec reachable_ok sample_snapshot pending_world)) =
     Inr None \<and>
   cloudStatus (store (pushSnapshot sample_codec reachable_503 sample_snapshot cached_world)) = Offline \<and>
   getItem PENDING_KEY (storage (pushSnapshot sample_codec reachable_503 sample_snapshot cached_world)) =
     Inr (Some ''snapshot'') \<and>
   cloudStatus (store (pushSnapshot sample_codec reachable_409 sample_snapshot cached_world)) = Error \<and>
   getItem PENDING_KEY (storage (pushSnapshot sample_codec reachable_409 sample_snapshot cached_world)) =
     Inr (Some ''snapshot'') \<and>
   cloudStatus (store (pushSnapshot sample_codec unreachable sample_snapshot refused_world)) = Offline \<and>
   storage (pushSnapshot sample_codec unreachable sample_snapshot refused_world) = refusing_storage \<and>
   setPendingSnapshot (json_stringify sample_codec) sample_snapshot
     \<lparr>items = [], mode = Denied security_error\<rparr> = \<lparr>items = [], mode = Denied security_error\<rparr>"
proof -
  let ?J = sample_codec and ?s = sample_snapshot
  have mc: "mode (storage cached_world) = Available" by (simp add: cached_world_def)
  have mp: "mode (storage pending_world) = Available"
    by (simp add: pending_world_def buffered_storage_def)
  have rt: "json_stringify ?J ?s \<noteq> [] \<and> json_parse ?J (json_stringify ?J ?s) = Some ?s"
    by (simp add: sample_round_trip)
  have u: "\<not> network_status unreachable" by (simp add: unreachable_def)
  have o: "network_status reachable_ok \<and> upsert_result reachable_ok = None"
    by (simp add: reachable_ok_def)
  have f3: "network_status reachable_503 \<and> upsert_result reachable_503 = Some http_503"
    "browser_online reachable_503" by (simp_all add: reachable_503_def)
  have f9: "network_status reachable_409 \<and> upsert_result reachable_409 = Some http_409"
    "browser_online reachable_409" by (simp_all add: reachable_409_def)
  note a = pushSnapshot_amended [of unreachable ?J ?s cached_world _ "storage cached_world"]
  from a u have a1: "cloudStatus (store (pushSnapshot ?J unreachable ?s cached_world)) = Offline"
    by blast
  from a u have a2: "storage (pushSnapshot ?J unreachable ?s cached_world) =
      setPendingSnapshot (json_stringify ?J) ?s (storage cached_world)" by blast
  from a mc have a3: "getItem PENDING_KEY (setPendingSnapshot (json_stringify ?J) ?s (storage cached_world)) =
      Inr (Some (json_stringify ?J ?s))" by blast
  from a mc rt have a4: "getPendingSnapshot (json_parse ?J)
      (setPendingSnapshot (json_stringify ?J) ?s (storage cached_world)) = ?s" by blast
  note b = pushSnapshot_amended [of reachable_ok ?J ?s pending_world _ "storage pending_world"]
  from b o have b1: "cloudStatus (store (pushSnapshot ?J reachable_ok ?s pending_world)) = Ok"
    by blast
  from b o have b2: "new_events pending_world (pushSnapshot ?J reachable_ok ?s pending_world) =
      [UpsertCloudState ?s]" by blast
  from b o have b3: "storage (pushSnapshot ?J reachable_ok ?s pending_world) =
      clearPendingSnapshot (storage pending_world)" by blast
  from b mp have b4: "getItem PENDING_KEY (clearPendingSnapshot (storage pending_world)) = Inr None"
    by blast
  note c = pushSnapshot_amended [of reachable_503 ?J ?s cached_world http_503]
  from c f3 have c1: "cloudStatus (store (pushSnapshot ?J reachable_503 ?s cached_world)) =
      (if isNetworkOrServerError (browser_online reachable_503) http_503 then Offline else Error)"
    by blast
  from c f3 have c2: "storage (pushSnapshot ?J reachable_503 ?s cached_world) =
      setPendingSnapshot (json_stringify ?J) ?s (storage cached_world)" by blast
  note d = pushSnapshot_amended [of reachable_409 ?J ?s cached_world http_409]
  from d f9 have d1: "cloudStatus (store (pushSnapshot ?J reachable_409 ?s cached_world)) =
      (if isNetworkOrServerError (browser_online reachable_409) http_409 then Offline else Error)"
    by blast
  from d f9 have d2: "storage (pushSnapshot ?J reachable_409 ?s cached_world) =
      setPendingSnapshot (json_stringify ?J) ?s (storage cached_world)" by blast
  have mr: "mode (storage refused_world) = WriteRefused quota_exceeded"
    "storage refused_world = refusing_storage"
    by (simp_all add: refused_world_def refusing_storage_def)
  note r = pushSnapshot_amended [of unreachable ?J ?s refused_world _ "storage refused_world"
      quota_exceeded]
  from r u have r1: "cloudStatus (store (pushSnapshot ?J unreachable ?s refused_world)) = Offline"
    by blast
  from r u have r2: "storage (pushSnapshot ?J unreachable ?s refused_world) =
      setPendingSnapshot (json_stringify ?J) ?s (storage refused_world)" by blast
  from r mr(1) have r3: "setPendingSnapshot (json_stringify ?J) ?s (storage refused_world) =
      storage refused_world" by blast
  let ?den = "\<lparr>items = [], mode = Denied security_error\<rparr>"
  have md: "mode ?den = Denied security_error" by simp
  note s = pushSnapshot_amended [of unreachable ?J ?s refused_world _ ?den security_error]
  from s md have s1: "setPendingSnapshot (json_stringify ?J) ?s ?den = ?den" by blast
  from a1 a2 a3 a4 b1 b2 b3 b4 c1 c2 d1 d2 r1 r2 r3 s1 show ?thesis
    by (simp add: sample_round_trip f3 f9 http_503_transient http_409_permanent mr(2))
qed

section \<open>Connectivity listener\<close>

text \<open>
  C8, as the claim states it, fails before the sync gate is initialised: the transition
  to online is reported while a Pending Change is present and the remote store is
  reachable, and nothing is pushed.
\<close>

theorem network_listener_counterexample:
  "truthy (getPendingSnapshot (json_parse sample_codec) (storage uninitialized_world)) \<and>
   network_status reachable_ok \<and>
   network_listener sample_codec reachable_ok True uninitialized_world = uninitialized_world \<and>
   log (network_listener sample_codec reachable_ok True uninitialized_world) = []"
  by (simp add: network_listener_def onOnline_def uninitialized_world_def buffered_storage_def
      getPendingSnapshot_def getItem_def PENDING_KEY_def sample_codec_def sample_snapshot_def
      reachable_ok_def)

text \<open>
  C8, amended. A Pending Change is present when reading the buffer gives a truthy value.
  A reported transition to online pushes the pending snapshot when the sync gate is
  initialised and a Pending Change is present (and when that push succeeds, the upsert
  of that snapshot is the call made, the buffer is empty and the status is \<open>ok\<close>); it
  does nothing when the gate is not initialised or no Pending Change is present. Every
  reported transition to offline sets the status \<open>offline\<close> and attempts to write the
  current snapshot to the buffer: the buffer holds the serialised snapshot when the
  storage can be written, and the storage is unchanged when it cannot.
\<close>

theorem network_listener_amended:
  "(initialized w \<and> truthy (getPendingSnapshot (json_parse J) (storage w)) \<longrightarrow>
      network_listener J pe True w =
        pushSnapshot J pe (getPendingSnapshot (json_parse J) (storage w)) w \<and>
      (network_status pe \<and> upsert_result pe = None \<longrightarrow>
         new_events w (network_listener J pe True w) =
           [UpsertCloudState (getPendingSnapshot (json_parse J) (storage w))] \<and>
         getItem PENDING_KEY (storage (network_listener J pe True w)) = Inr None \<and>
         cloudStatus (store (network_listener J pe True w)) = Ok)) \<and>
   (\<not> initialized w \<longrightarrow> network_listener J pe True w = w) \<and>
   (\<not> truthy (getPendingSnapshot (json_parse J) (storage w)) \<longrightarrow> network_listener J pe True w = w) \<and>
   cloudStatus (store (network_listener J pe False w)) = Offline \<and>
   storage (network_listener J pe False w) =
     setPendingSnapshot (json_stringify J) (getSnapshot (store w)) (storage w) \<and>
   (mode (storage w) = Available \<longrightarrow>
      getItem PENDING_KEY (storage (network_listener J pe False w)) =
        Inr (Some (json_stringify J (getSnapshot (store w))))) \<and>
   (mode (storage w) \<noteq> Available \<longrightarrow> storage (network_listener J pe False w) = storage w)"
proof (intro conjI)
  show "initialized w \<and> truthy (getPendingSnapshot (json_parse J) (storage w)) \<longrightarrow>
      network_listener J pe True w =
        pushSnapshot J pe (getPendingSnapshot (json_parse J) (storage w)) w \<and>
      (network_status pe \<and> upsert_result pe = None \<longrightarrow>
         new_events w (network_listener J pe True w) =
           [UpsertCloudState (getPendingSnapshot (json_parse J) (storage w))] \<and>
         getItem PENDING_KEY (storage (network_listener J pe True w)) = Inr None \<and>
         cloudStatus (store (network_listener J pe True w)) = Ok)"
    using buffer_cleared_after_read [of "json_parse J" "storage w"]
    by (auto simp: network_listener_def onOnline_def Let_def pushSnapshot_ok new_events_def
        new_entries_def)
  show "\<not> initialized w \<longrightarrow> network_listener J pe True w = w"
    by (simp add: network_listener_def onOnline_def)
  show "\<not> truthy (getPendingSnapshot (json_parse J) (storage w)) \<longrightarrow> network_listener J pe True w = w"
    by (simp add: network_listener_def onOnline_def Let_def)
  show "cloudStatus (store (network_listener J pe False w)) = Offline"
    by (simp add: network_listener_def onOffline_def)
  show "storage (network_listener J pe False w) =
     setPendingSnapshot (json_stringify J) (getSnapshot (store w)) (storage w)"
    by (simp add: network_listener_def onOffline_def)
  show "mode (storage w) = Available \<longrightarrow>
      getItem PENDING_KEY (storage (network_listener J pe False w)) =
        Inr (Some (json_stringify J (getSnapshot (store w))))"
    by (simp add: network_listener_def onOffline_def buffer_available)
  show "mode (storage w) \<noteq> Available \<longrightarrow> storage (network_listener J pe False w) = storage w"
    by (cases "mode (storage w)")
       (simp_all add: network_listener_def onOffline_def buffer_refused buffer_denied)
qed

theorem network_listener_amended_witness:
  "initialized pending_world \<and>
   getPendingSnapshot (json_parse sample_codec) (storage pending_world) = sample_snapshot \<and>
   truthy sample_snapshot \<and>
   new_events pending_world (network_listener sample_codec reachable_ok True pending_world) =
     [UpsertCloudState sample_snapshot] \<and>
   getItem PENDING_KEY (storage (network_listener sample_codec reachable_ok True pending_world)) = Inr None \<and>
   cloudStatus (store (network_listener sample_codec reachable_ok True pending_world)) = Ok \<and>
   cloudStatus (store (network_listener sample_codec reachable_ok False pending_world)) = Offline \<and>
   getItem PENDING_KEY (storage (network_listener sample_codec reachable_ok False pending_world)) =
     Inr (Some (json_stringify sample_codec (getSnapshot sample_store))) \<and>
   \<not> initialized uninitialized_world \<and>
   network_listener sample_codec reachable_ok True uninitialized_world = uninitialized_world \<and>
   cloudStatus (store (network_listener sample_codec reachable_ok False refused_world)) = Offline \<and>
   storage (network_listener sample_codec reachable_ok False refused_world) = refusing_storage"
proof -
  let ?J = sample_codec
  have i: "initialized pending_world" "store pending_world = sample_store"
    "mode (storage pending_world) = Available"
    by (simp_all add: pending_world_def buffered_storage_def)
  have g: "getPendingSnapshot (json_parse ?J) (storage pending_world) = sample_snapshot"
    by (simp add: pending_world_def buffered_storage_def getPendingSnapshot_def getItem_def
        PENDING_KEY_def sample_codec_def)
  have t: "truthy sample_snapshot" by (simp add: sample_snapshot_def)
  have e: "network_status reachable_ok \<and> upsert_result reachable_ok = None"
    by (simp add: reachable_ok_def)
  have h: "initialized pending_world \<and>
      truthy (getPendingSnapshot (json_parse ?J) (storage pending_world))"
    using i g t by simp
  note a = network_listener_amended [of pending_world ?J reachable_ok]
  from a h e have 1: "new_events pending_world (network_listener ?J reachable_ok True pending_world) =
      [UpsertCloudState (getPendingSnapshot (json_parse ?J) (storage pending_world))]"
    by blast
  from a h e have 2: "getItem PENDING_KEY (storage (network_listener ?J reachable_ok True pending_world)) = Inr None"
    by blast
  from a h e have 3: "cloudStatus (store (network_listener ?J reachable_ok True pending_world)) = Ok"
    by blast
  from a have 4: "cloudStatus (store (network_listener ?J reachable_ok False pending_world)) = Offline"
    by blast
  from a i(3) have 5: "getItem PENDING_KEY (storage (network_listener ?J reachable_ok False pending_world)) =
      Inr (Some (json_stringify ?J (getSnapshot (store pending_world))))"
    by blast
  have ni: "\<not> initialized uninitialized_world" by (simp add: uninitialized_world_def)
  note b = network_listener_amended [of uninitialized_world ?J reachable_ok]
  from b ni have 6: "network_listener ?J reachable_ok True uninitialized_world = uninitialized_world"
    by blast
  have mr: "mode (storage refused_world) \<noteq> Available" "storage refused_world = refusing_storage"
    by (simp_all add: refused_world_def refusing_storage_def)
  note c = network_listener_amended [of refused_world ?J reachable_ok]
  from c have 7: "cloudStatus (store (network_listener ?J reachable_ok False refused_world)) = Offline"
    by blast
  from c mr(1) have 8: "storage (network_listener ?J reachable_ok False refused_world) =
      storage refused_world"
    by blast
  from i g t 1 2 3 4 5 ni 6 7 8 show ?thesis by (simp add: mr(2))
qed

section \<open>Frames of the storage operations\<close>

lemma getPendingSnapshot_cong:
  "getItem PENDING_KEY a = getItem PENDING_KEY b \<Longrightarrow>
     getPendingSnapshot parse a = getPendingSnapshot parse b"
  by (simp add: getPendingSnapshot_def)

lemma setItem_frame:
  assumes "setItem k v ls = Inr ls'"
  shows "mode ls' = mode ls" and "mode ls = Available"
    and "k' \<noteq> k \<Longrightarrow> getItem k' ls' = getItem k' ls"
    and "k \<noteq> SYNC_LOCK_KEY \<Longrightarrow> lock_cell ls' = lock_cell ls"
  using assms
  by (auto simp: setItem_def getItem_def lock_cell_def update_conv' split: ls_mode.splits)

lemma remember_auth_frame:
  assumes "remember_auth su ls = Inr ls1"
  shows "mode ls1 = mode ls"
    and "getItem PENDING_KEY ls1 = getItem PENDING_KEY ls"
    and "lock_cell ls1 = lock_cell ls"
  using assms
  by (cases "mode ls";
      auto simp: remember_auth_def setItem_def getItem_def lock_cell_def update_conv'
        PENDING_KEY_def WAS_AUTHENTICATED_KEY_def SYNC_LOCK_KEY_def split: if_splits)+

lemma acquire_frame:
  assumes "acquireSyncLock now ls = (ok, ls')"
  shows "mode ls' = mode ls"
    and "getItem PENDING_KEY ls' = getItem PENDING_KEY ls"
    and "ok \<Longrightarrow> lock_cell ls' = (if mode ls = Available then Some (show_int now) else lock_cell ls)"
    and "\<not> ok \<Longrightarrow> ls' = ls"
  using assms
  by (auto simp: acquireSyncLock_def getItem_def setItem_def lock_cell_def update_conv'
      PENDING_KEY_def SYNC_LOCK_KEY_def split: sum.splits if_splits ls_mode.splits)

section \<open>The log of a reconciliation run\<close>





lemma quiet_events:
  "set es \<subseteq> {GetSession, SignOut, Reload, ScheduleSessionRetry, SignInAnonymously} \<Longrightarrow>
     held_after h es = h \<and> upserts_locked h es \<and> LockAcquired \<notin> set es \<and> GetCloudState \<notin> set es"
proof (induction es)
  case Nil
  show ?case by simp
next
  case (Cons ev es)
  then show ?case by (cases ev) auto
qed


lemma log_pushSnapshot:
  "log (pushSnapshot J pe p w) =
     log w @ (if network_status pe then [(UpsertCloudState p, lock_cell (storage w))] else [])"
  by (simp add: pushSnapshot_def Let_def split: option.splits)

lemma offline_startup_frame:
  "log (snd (offline_startup J w)) = log w"
  "storage (snd (offline_startup J w)) = storage w"
  by (simp_all add: offline_startup_def Let_def split: sum.splits option.splits)

lemma log_sign_out_abandoned:
  "\<exists>es. log (snd (sign_out_abandoned e w)) = log w @ es \<and> fst ` set es \<subseteq> {SignOut, Reload}"
  by (auto simp: sign_out_abandoned_def Let_def split: sum.splits option.splits)

lemma log_wipe_local: "log (wipe_local J w) = log w"
  by (simp add: wipe_local_def Let_def)

lemma log_guest_fallback: "log (guest_fallback w) = log w"
  by (simp add: guest_fallback_def)

lemma log_without_session:
  "\<exists>es. log (snd (without_session J e w)) = log w @ es \<and>
        fst ` set es \<subseteq> {ScheduleSessionRetry, SignInAnonymously}"
  by (auto simp: without_session_def Let_def log_wipe_local log_guest_fallback
      split: sum.splits option.splits)

lemma log_init_done:
  "log (init_done w) = log w @ [(InitializePushNotifications, lock_cell (storage w))]"
  by (simp add: init_done_def)

lemma log_init_failed: "log (init_failed J e err w) = log w"
  by (simp add: init_failed_def)

lemma log_pull_section:
  "\<exists>es. log (snd (pull_section J e su w)) = log w @ (GetCloudState, lock_cell (storage w)) # es \<and>
        LockAcquired \<notin> fst ` set es \<and> LockReleased \<notin> fst ` set es \<and>
        upserts_see (lock_cell (storage w)) es"
proof (cases "cloud_state e")
  case (Inl err)
  then show ?thesis by (simp add: pull_section_def Let_def)
next
  case (Inr cloud)
  show ?thesis
  proof (cases "truthy cloud")
    case False
    with Inr show ?thesis
      by (cases "seed_upsert e") (simp_all add: pull_section_def Let_def log_init_done)
  next
    case True
    show ?thesis
    proof (cases "mark_onboarding (now_onboarding e) cloud (storage (emit GetCloudState w))")
      case (Inl err)
      with Inr True show ?thesis by (simp add: pull_section_def Let_def)
    next
      case (Inr ls')
      obtain r s2 ls2 where rep: "replaceAllData (json_stringify J) cloud (store (emit GetCloudState w), ls') = (r, s2, ls2)"
        by (cases "replaceAllData (json_stringify J) cloud (store (emit GetCloudState w), ls')") auto
      show ?thesis
      proof (cases r)
        case None
        with \<open>cloud_state e = Inr cloud\<close> True Inr rep show ?thesis
          by (cases "subscription_import e"; cases "subscription_lookup e")
             (simp_all add: pull_section_def Let_def log_init_done)
      next
        case (Some err)
        with \<open>cloud_state e = Inr cloud\<close> True Inr rep show ?thesis
          by (simp add: pull_section_def Let_def)
      qed
    qed
  qed
qed

lemma locked_section_pending:
  "truthy (getPendingSnapshot (json_parse J) (storage w)) \<Longrightarrow>
     locked_section J e su w =
       (pushSnapshot J (push e) (getPendingSnapshot (json_parse J) (storage w))
          (on_store (setCloudStatus Syncing) w))\<lparr>initialized := True\<rparr>"
  by (simp add: locked_section_def Let_def)

lemma locked_section_pull:
  assumes "\<not> truthy (getPendingSnapshot (json_parse J) (storage w))"
  shows "\<exists>es. log (locked_section J e su w) = log w @ (GetCloudState, lock_cell (storage w)) # es \<and>
        LockAcquired \<notin> fst ` set es \<and> LockReleased \<notin> fst ` set es \<and>
        upserts_see (lock_cell (storage w)) es"
proof -
  let ?w1 = "on_store (setCloudStatus Syncing) w"
  obtain es where es: "log (snd (pull_section J e su ?w1)) = log w @ (GetCloudState, lock_cell (storage w)) # es"
      "LockAcquired \<notin> fst ` set es" "LockReleased \<notin> fst ` set es"
      "upserts_see (lock_cell (storage w)) es"
    using log_pull_section [of J e su ?w1] by auto
  obtain r w2 where p: "pull_section J e su ?w1 = (r, w2)"
    by (cases "pull_section J e su ?w1") auto
  with es have l2: "log w2 = log w @ (GetCloudState, lock_cell (storage w)) # es" by simp
  have "log (locked_section J e su w) = log w2"
    using assms p by (cases r) (simp_all add: locked_section_def Let_def log_init_failed)
  with l2 es show ?thesis by auto
qed


lemma acquire_answer:
  "\<forall>d. mode ls \<noteq> Denied d \<Longrightarrow> fst (acquireSyncLock now ls) = (\<not> lock_held now ls)"
  by (cases "mode ls")
     (auto simp: acquireSyncLock_def getItem_def setItem_def lock_held_def lock_record_age_def
        SYNC_LOCK_TIMEOUT_def parseInt_def split: option.splits)

lemma lock_held_cong: "lock_cell a = lock_cell b \<Longrightarrow> lock_held now a = lock_held now b"
  by (simp add: lock_held_def lock_record_age_def lock_cell_def)

lemma with_session_shape:
  "(\<exists>su wl. with_session J e s w =
        (Returned, emit LockReleased (on_storage releaseSyncLock (locked_section J e su wl))) \<and>
      net_after_session e \<and>
      mode (storage wl) = mode (storage w) \<and>
      getItem PENDING_KEY (storage wl) = getItem PENDING_KEY (storage w) \<and>
      lock_cell (storage wl) =
        (if mode (storage w) = Available then Some (show_int (now_lock e)) else lock_cell (storage w)) \<and>
      ((\<forall>d. mode (storage w) \<noteq> Denied d) \<longrightarrow> \<not> lock_held (now_lock e) (storage w)) \<and>
      log wl = log w @ [(LockAcquired, lock_cell (storage wl))] \<and>
      getSnapshot (store wl) = getSnapshot (store w)) \<or>
   log (snd (with_session J e s w)) = log w"
proof (cases "nullish (opt_prop s ''user'')")
  case True
  then show ?thesis by (simp add: with_session_def Let_def)
next
  case nn: False
  let ?su = "opt_prop s ''user''"
  let ?w1 = "on_store (setUser (user_of ?su)) w"
  show ?thesis
  proof (cases "remember_auth ?su (storage ?w1)")
    case (Inl err)
    with nn show ?thesis by (simp add: with_session_def Let_def)
  next
    case (Inr ls1)
    then have r: "remember_auth ?su (storage w) = Inr ls1" by simp
    let ?w2 = "on_store (setCloudMode Cloud) (?w1\<lparr>storage := ls1\<rparr>)"
    show ?thesis
    proof (cases "net_after_session e")
      case False
      with nn Inr show ?thesis by (simp add: with_session_def Let_def)
    next
      case True
      obtain ok ls2 where a: "acquireSyncLock (now_lock e) (storage ?w2) = (ok, ls2)"
        by (cases "acquireSyncLock (now_lock e) (storage ?w2)") auto
      then have a': "acquireSyncLock (now_lock e) ls1 = (ok, ls2)" by simp
      show ?thesis
      proof (cases ok)
        case False
        with nn Inr True a show ?thesis by (simp add: with_session_def Let_def)
      next
        case ok: True
        let ?wl = "emit LockAcquired (?w2\<lparr>storage := ls2\<rparr>)"
        have 1: "with_session J e s w =
            (Returned, emit LockReleased (on_storage releaseSyncLock (locked_section J e ?su ?wl)))"
          using nn Inr True a ok by (simp add: with_session_def Let_def)
        have st: "storage ?wl = ls2" by simp
        have 2: "mode (storage ?wl) = mode (storage w)"
          unfolding st using acquire_frame(1) [OF a'] remember_auth_frame(1) [OF r] by simp
        have 3: "getItem PENDING_KEY (storage ?wl) = getItem PENDING_KEY (storage w)"
          unfolding st using acquire_frame(2) [OF a'] remember_auth_frame(2) [OF r] by simp
        have 4: "lock_cell (storage ?wl) =
          (if mode (storage w) = Available then Some (show_int (now_lock e)) else lock_cell (storage w))"
          unfolding st using acquire_frame(3) [OF a'] ok remember_auth_frame(1,3) [OF r] by simp
        have 5: "log ?wl = log w @ [(LockAcquired, lock_cell (storage ?wl))]"
          by (simp add: emit_def)
        have 6: "getSnapshot (store ?wl) = getSnapshot (store w)"
          by simp
        have 7: "(\<forall>d. mode (storage w) \<noteq> Denied d) \<longrightarrow> \<not> lock_held (now_lock e) (storage w)"
        proof
          assume nd: "\<forall>d. mode (storage w) \<noteq> Denied d"
          with remember_auth_frame(1) [OF r] have "\<forall>d. mode ls1 \<noteq> Denied d" by simp
          from acquire_answer [OF this, of "now_lock e"] a' ok have "\<not> lock_held (now_lock e) ls1" by simp
          with lock_held_cong [OF remember_auth_frame(3) [OF r], of "now_lock e"]
          show "\<not> lock_held (now_lock e) (storage w)" by simp
        qed
        from 1 2 3 4 5 6 7 True show ?thesis by blast
      qed
    qed
  qed
qed

lemma initForSession_shape:
  "(\<exists>su wl. initForSession J e w =
        (Returned, emit LockReleased (on_storage releaseSyncLock (locked_section J e su wl))) \<and>
      net_entry e \<and> net_after_session e \<and>
      mode (storage wl) = mode (storage w) \<and>
      getItem PENDING_KEY (storage wl) = getItem PENDING_KEY (storage w) \<and>
      lock_cell (storage wl) =
        (if mode (storage w) = Available then Some (show_int (now_lock e)) else lock_cell (storage w)) \<and>
      ((\<forall>d. mode (storage w) \<noteq> Denied d) \<longrightarrow> \<not> lock_held (now_lock e) (storage w)) \<and>
      log wl = log w @ [(GetSession, lock_cell (storage w)), (LockAcquired, lock_cell (storage wl))] \<and>
      getSnapshot (store wl) = getSnapshot (store w)) \<or>
   (\<exists>es. log (snd (initForSession J e w)) = log w @ es \<and>
      fst ` set es \<subseteq> {GetSession, SignOut, Reload, ScheduleSessionRetry, SignInAnonymously})"
proof (cases "net_entry e")
  case False
  then show ?thesis by (simp add: initForSession_def offline_startup_frame)
next
  case ne: True
  let ?w0 = "emit GetSession w"
  have l0: "log ?w0 = log w @ [(GetSession, lock_cell (storage w))]"
    by (simp add: emit_def)
  show ?thesis
  proof (cases "resolve_session J e ?w0")
    case (Inl err)
    with ne l0 show ?thesis by (simp add: initForSession_def Let_def)
  next
    case (Inr session)
    show ?thesis
    proof (cases "truthy session")
      case False
      with ne Inr have "initForSession J e w = without_session J e ?w0"
        by (simp add: initForSession_def Let_def)
      then obtain es where es: "log (snd (initForSession J e w)) = log ?w0 @ es"
          "fst ` set es \<subseteq> {ScheduleSessionRetry, SignInAnonymously}"
        using log_without_session [of J e ?w0] by auto
      have "log (snd (initForSession J e w)) = log w @ ((GetSession, lock_cell (storage w)) # es) \<and>
          fst ` set ((GetSession, lock_cell (storage w)) # es) \<subseteq>
            {GetSession, SignOut, Reload, ScheduleSessionRetry, SignInAnonymously}"
        using es l0 by auto
      then show ?thesis by blast
    next
      case ts: True
      show ?thesis
      proof (cases "getItem OTP_KEY (storage ?w0)")
        case (Inl err)
        with ne Inr ts l0 show ?thesis by (simp add: initForSession_def Let_def)
      next
        case otp: (Inr pendingOtp)
        show ?thesis
        proof (cases "abandoned_otp (now_otp e) pendingOtp")
          case True
          with ne Inr ts otp have "initForSession J e w = sign_out_abandoned e ?w0"
            by (simp add: initForSession_def Let_def)
          then obtain es where es: "log (snd (initForSession J e w)) = log ?w0 @ es"
              "fst ` set es \<subseteq> {SignOut, Reload}"
            using log_sign_out_abandoned [of e ?w0] by auto
          have "log (snd (initForSession J e w)) = log w @ ((GetSession, lock_cell (storage w)) # es) \<and>
              fst ` set ((GetSession, lock_cell (storage w)) # es) \<subseteq>
                {GetSession, SignOut, Reload, ScheduleSessionRetry, SignInAnonymously}"
            using es l0 by auto
          then show ?thesis by blast
        next
          case False
          with ne Inr ts otp have eq: "initForSession J e w = with_session J e session ?w0"
            by (simp add: initForSession_def Let_def)
          from with_session_shape [of J e session ?w0] show ?thesis
          proof
            assume "\<exists>su wl. with_session J e session ?w0 =
                (Returned, emit LockReleased (on_storage releaseSyncLock (locked_section J e su wl))) \<and>
              net_after_session e \<and>
              mode (storage wl) = mode (storage ?w0) \<and>
              getItem PENDING_KEY (storage wl) = getItem PENDING_KEY (storage ?w0) \<and>
              lock_cell (storage wl) =
                (if mode (storage ?w0) = Available then Some (show_int (now_lock e))
                 else lock_cell (storage ?w0)) \<and>
              ((\<forall>d. mode (storage ?w0) \<noteq> Denied d) \<longrightarrow> \<not> lock_held (now_lock e) (storage ?w0)) \<and>
              log wl = log ?w0 @ [(LockAcquired, lock_cell (storage wl))] \<and>
              getSnapshot (store wl) = getSnapshot (store ?w0)"
            then obtain su wl where
              "with_session J e session ?w0 =
                (Returned, emit LockReleased (on_storage releaseSyncLock (locked_section J e su wl)))"
              "net_after_session e"
              "mode (storage wl) = mode (storage ?w0)"
              "getItem PENDING_KEY (storage wl) = getItem PENDING_KEY (storage ?w0)"
              "lock_cell (storage wl) =
                (if mode (storage ?w0) = Available then Some (show_int (now_lock e))
                 else lock_cell (storage ?w0))"
              "(\<forall>d. mode (storage ?w0) \<noteq> Denied d) \<longrightarrow> \<not> lock_held (now_lock e) (storage ?w0)"
              "log wl = log ?w0 @ [(LockAcquired, lock_cell (storage wl))]"
              "getSnapshot (store wl) = getSnapshot (store ?w0)"
              by blast
            with eq ne l0 have "initForSession J e w =
                (Returned, emit LockReleased (on_storage releaseSyncLock (locked_section J e su wl))) \<and>
              net_entry e \<and> net_after_session e \<and>
              mode (storage wl) = mode (storage w) \<and>
              getItem PENDING_KEY (storage wl) = getItem PENDING_KEY (storage w) \<and>
              lock_cell (storage wl) =
                (if mode (storage w) = Available then Some (show_int (now_lock e)) else lock_cell (storage w)) \<and>
              ((\<forall>d. mode (storage w) \<noteq> Denied d) \<longrightarrow> \<not> lock_held (now_lock e) (storage w)) \<and>
              log wl = log w @ [(GetSession, lock_cell (storage w)), (LockAcquired, lock_cell (storage wl))] \<and>
              getSnapshot (store wl) = getSnapshot (store w)"
              by simp
            then show ?thesis by blast
          next
            assume "log (snd (with_session J e session ?w0)) = log ?w0"
            with eq l0 have "log (snd (initForSession J e w)) = log w @ [(GetSession, lock_cell (storage w))]" by simp
            then show ?thesis by auto
          qed
        qed
      qed
    qed
  qed
qed


lemma no_upserts_see:
  "\<forall>s. UpsertCloudState s \<notin> fst ` set es \<Longrightarrow> upserts_see c es"
proof (induction es)
  case Nil
  show ?case by simp
next
  case (Cons en es)
  obtain ev k where en: "en = (ev, k)" by (cases en)
  from Cons show ?case unfolding en by (cases ev) auto
qed



lemmas run_defs = initForSession_def resolve_session_def with_session_def locked_section_def
  pull_section_def remember_auth_def user_of_def acquireSyncLock_def releaseSyncLock_def
  getItem_def setItem_def removeItem_def storage_keys_def abandoned_otp_def present_text_def
  getPendingSnapshot_def setPendingSnapshot_def clearPendingSnapshot_def lock_cell_def
  pushSnapshot_def world_ops mark_ready_def init_done_def init_failed_def
  OTP_KEY_def SYNC_LOCK_KEY_def WAS_AUTHENTICATED_KEY_def STORAGE_KEY_def SEEN_KEY_def
  PENDING_KEY_def coalesce_def js_or_def setUser_def setCloudSyncReady_def
  show_int_def show_nat.simps digit_char_def Let_def

lemmas scenario_defs = sample_codec_def sample_stringify_def sample_snapshot_def
  cached_artifact_def sample_store_def buffered_storage_def empty_storage_def
  refusing_storage_def reachable_ok_def user_session_def anonymous_session_def


lemma online_run:
  "initForSession sample_codec online_env pending_world =
     (Returned,
      \<lparr>store = sample_store\<lparr>cloudStatus := Ok, cloudMode := Cloud,
           user := \<lparr>email = JStr ''ann@example.org'', name = JNull, avatarUrl = JNull, provider = JNull\<rparr>\<rparr>,
       storage = \<lparr>items = [(''app.wasAuthenticated'', ''true''), (''app.lastAuthEmail'', ''ann@example.org'')],
                  mode = Available\<rparr>,
       initialized = True,
       log = [(GetSession, None), (LockAcquired, Some ''7000''),
              (UpsertCloudState sample_snapshot, Some ''7000''), (LockReleased, None)]\<rparr>)"
  by (simp add: run_defs online_env_def pending_world_def scenario_defs)



section \<open>Lock discipline\<close>




section \<open>Pending changes go first\<close>

lemma buffer_by_mode:
  "getItem PENDING_KEY (setPendingSnapshot str p a) =
     (if mode a = Available then Inr (Some (str p)) else getItem PENDING_KEY a)"
  "getItem PENDING_KEY (clearPendingSnapshot a) =
     (case mode a of Denied d \<Rightarrow> Inl d | _ \<Rightarrow> Inr None)"
  by (cases "mode a";
      simp add: setPendingSnapshot_def clearPendingSnapshot_def getItem_def setItem_def
        removeItem_def update_conv' delete_conv')+

lemma buffer_result_cong:
  assumes "mode a = mode b" and "getItem PENDING_KEY a = getItem PENDING_KEY b"
  shows "getItem PENDING_KEY (setPendingSnapshot str p a) = getItem PENDING_KEY (setPendingSnapshot str p b)"
    and "getItem PENDING_KEY (clearPendingSnapshot a) = getItem PENDING_KEY (clearPendingSnapshot b)"
  unfolding buffer_by_mode assms by (rule refl)+

lemma release_keeps_buffer:
  "getItem PENDING_KEY (releaseSyncLock ls) = getItem PENDING_KEY ls"
  by (cases "mode ls")
     (simp_all add: releaseSyncLock_def removeItem_def getItem_def delete_conv' PENDING_KEY_def
        SYNC_LOCK_KEY_def)

lemma pushSnapshot_result:
  "cloudStatus (store (pushSnapshot J pe p w)) = cloudStatus (store (pushSnapshot J pe p w'))"
  "getSnapshot (store (pushSnapshot J pe p w)) = getSnapshot (store w)"
  by (simp_all add: pushSnapshot_def Let_def split: option.splits)

lemma pushSnapshot_buffer:
  assumes "mode (storage w) = mode (storage w')"
    and "getItem PENDING_KEY (storage w) = getItem PENDING_KEY (storage w')"
  shows "getItem PENDING_KEY (storage (pushSnapshot J pe p w)) =
       getItem PENDING_KEY (storage (pushSnapshot J pe p w'))"
proof -
  note c = buffer_result_cong [OF assms]
  show ?thesis
  proof (cases "network_status pe")
    case False
    then show ?thesis by (simp add: pushSnapshot_offline c)
  next
    case True
    show ?thesis
    proof (cases "upsert_result pe")
      case None
      with True show ?thesis by (simp add: pushSnapshot_ok c)
    next
      case (Some err)
      with True show ?thesis by (simp add: pushSnapshot_failed c)
    qed
  qed
qed

text \<open>
  C7. A Pending Change exists when reading the buffer (\<open>getPendingSnapshot\<close> on the
  storage) gives a truthy value. In a run of \<open>initForSession\<close> that acquired the lock:
  when a Pending Change exists at entry, the run pushes it and returns without asking the
  remote store for its document (the calls added are the session lookup, the acquisition,
  the upsert of the pending snapshot if the push finds connectivity, and the release;
  buffer and status end as the push of that snapshot leaves them, and the snapshot of the
  local state is unchanged); when none exists, the run pulls. A pull happens in no other
  run: it implies that the lock was acquired and that no Pending Change existed.
\<close>

theorem pending_push_before_pull:
  "(LockAcquired \<in> set (new_events w (snd (initForSession J e w))) \<and>
    truthy (getPendingSnapshot (json_parse J) (storage w)) \<longrightarrow>
      fst (initForSession J e w) = Returned \<and>
      new_events w (snd (initForSession J e w)) =
        [GetSession, LockAcquired] @
        (if network_status (push e)
         then [UpsertCloudState (getPendingSnapshot (json_parse J) (storage w))] else []) @
        [LockReleased] \<and>
      GetCloudState \<notin> set (new_events w (snd (initForSession J e w))) \<and>
      getItem PENDING_KEY (storage (snd (initForSession J e w))) =
        getItem PENDING_KEY
          (storage (pushSnapshot J (push e) (getPendingSnapshot (json_parse J) (storage w)) w)) \<and>
      cloudStatus (store (snd (initForSession J e w))) =
        cloudStatus (store (pushSnapshot J (push e) (getPendingSnapshot (json_parse J) (storage w)) w)) \<and>
      getSnapshot (store (snd (initForSession J e w))) = getSnapshot (store w)) \<and>
   (LockAcquired \<in> set (new_events w (snd (initForSession J e w))) \<and>
    \<not> truthy (getPendingSnapshot (json_parse J) (storage w)) \<longrightarrow>
      GetCloudState \<in> set (new_events w (snd (initForSession J e w)))) \<and>
   (GetCloudState \<in> set (new_events w (snd (initForSession J e w))) \<longrightarrow>
      LockAcquired \<in> set (new_events w (snd (initForSession J e w))) \<and>
      \<not> truthy (getPendingSnapshot (json_parse J) (storage w)))"
  using initForSession_shape [of J e w]
proof
  assume "\<exists>su wl. initForSession J e w =
        (Returned, emit LockReleased (on_storage releaseSyncLock (locked_section J e su wl))) \<and>
      net_entry e \<and> net_after_session e \<and>
      mode (storage wl) = mode (storage w) \<and>
      getItem PENDING_KEY (storage wl) = getItem PENDING_KEY (storage w) \<and>
      lock_cell (storage wl) =
        (if mode (storage w) = Available then Some (show_int (now_lock e)) else lock_cell (storage w)) \<and>
      ((\<forall>d. mode (storage w) \<noteq> Denied d) \<longrightarrow> \<not> lock_held (now_lock e) (storage w)) \<and>
      log wl = log w @ [(GetSession, lock_cell (storage w)), (LockAcquired, lock_cell (storage wl))] \<and>
      getSnapshot (store wl) = getSnapshot (store w)"
  then obtain su wl where r: "initForSession J e w =
        (Returned, emit LockReleased (on_storage releaseSyncLock (locked_section J e su wl)))"
    and md: "mode (storage wl) = mode (storage w)"
    and pk: "getItem PENDING_KEY (storage wl) = getItem PENDING_KEY (storage w)"
    and l: "log wl = log w @ [(GetSession, lock_cell (storage w)), (LockAcquired, lock_cell (storage wl))]"
    and g: "getSnapshot (store wl) = getSnapshot (store w)"
    by blast
  let ?p = "getPendingSnapshot (json_parse J) (storage w)"
  have pw: "getPendingSnapshot (json_parse J) (storage wl) = ?p"
    using pk by (rule getPendingSnapshot_cong)
  show ?thesis
  proof (cases "truthy ?p")
    case True
    let ?wl1 = "on_store (setCloudStatus Syncing) wl"
    let ?ps = "pushSnapshot J (push e) ?p ?wl1"
    have ls: "locked_section J e su wl = ?ps\<lparr>initialized := True\<rparr>"
      using True pw locked_section_pending [of J wl e su] by simp
    have "\<exists>c1 c2. log (snd (initForSession J e w)) =
        log w @ ([(GetSession, lock_cell (storage w)), (LockAcquired, lock_cell (storage wl))] @
          (if network_status (push e) then [(UpsertCloudState ?p, c1)] else []) @ [(LockReleased, c2)])"
      unfolding r ls by (simp add: log_pushSnapshot l emit_def)
    then obtain c1 c2 where "log (snd (initForSession J e w)) =
        log w @ ([(GetSession, lock_cell (storage w)), (LockAcquired, lock_cell (storage wl))] @
          (if network_status (push e) then [(UpsertCloudState ?p, c1)] else []) @ [(LockReleased, c2)])"
      by blast
    then have "new_events w (snd (initForSession J e w)) =
        map fst ([(GetSession, lock_cell (storage w)), (LockAcquired, lock_cell (storage wl))] @
          (if network_status (push e) then [(UpsertCloudState ?p, c1)] else []) @ [(LockReleased, c2)])"
      by (rule new_events_append)
    then have ne: "new_events w (snd (initForSession J e w)) =
        [GetSession, LockAcquired] @
          (if network_status (push e) then [UpsertCloudState ?p] else []) @ [LockReleased]"
      by simp
    have m1: "mode (storage ?wl1) = mode (storage w)"
      and p1: "getItem PENDING_KEY (storage ?wl1) = getItem PENDING_KEY (storage w)"
      using md pk by simp_all
    have pe: "getItem PENDING_KEY (storage (snd (initForSession J e w))) =
        getItem PENDING_KEY (storage (pushSnapshot J (push e) ?p w))"
      unfolding r ls using pushSnapshot_buffer [OF m1 p1, of J "push e" ?p]
      by (simp add: release_keeps_buffer)
    have cs: "cloudStatus (store (snd (initForSession J e w))) =
        cloudStatus (store (pushSnapshot J (push e) ?p w))"
      unfolding r ls using pushSnapshot_result(1) [of J "push e" ?p ?wl1 w]
      by simp
    have gs: "getSnapshot (store (snd (initForSession J e w))) = getSnapshot (store w)"
      unfolding r ls using g by (simp add: pushSnapshot_result(2))
    have f: "fst (initForSession J e w) = Returned" unfolding r by simp
    from True f pe cs gs show ?thesis unfolding ne by simp
  next
    case False
    with pw have "\<not> truthy (getPendingSnapshot (json_parse J) (storage wl))" by simp
    from locked_section_pull [OF this, of e su] obtain es where
      "log (locked_section J e su wl) = log wl @ (GetCloudState, lock_cell (storage wl)) # es" by blast
    then have "\<exists>c2. log (snd (initForSession J e w)) =
        log w @ ([(GetSession, lock_cell (storage w)), (LockAcquired, lock_cell (storage wl)),
                  (GetCloudState, lock_cell (storage wl))] @ es @ [(LockReleased, c2)])"
      unfolding r by (simp add: l emit_def)
    then obtain c2 where "log (snd (initForSession J e w)) =
        log w @ ([(GetSession, lock_cell (storage w)), (LockAcquired, lock_cell (storage wl)),
                  (GetCloudState, lock_cell (storage wl))] @ es @ [(LockReleased, c2)])"
      by blast
    then have "new_events w (snd (initForSession J e w)) =
        map fst ([(GetSession, lock_cell (storage w)), (LockAcquired, lock_cell (storage wl)),
                  (GetCloudState, lock_cell (storage wl))] @ es @ [(LockReleased, c2)])"
      by (rule new_events_append)
    then have ne: "new_events w (snd (initForSession J e w)) =
        [GetSession, LockAcquired, GetCloudState] @ map fst es @ [LockReleased]"
      by simp
    from False show ?thesis unfolding ne by simp
  qed
next
  assume "\<exists>es. log (snd (initForSession J e w)) = log w @ es \<and>
      fst ` set es \<subseteq> {GetSession, SignOut, Reload, ScheduleSessionRetry, SignInAnonymously}"
  then obtain es where es: "log (snd (initForSession J e w)) = log w @ es"
      "fst ` set es \<subseteq> {GetSession, SignOut, Reload, ScheduleSessionRetry, SignInAnonymously}"
    by blast
  from es(1) have ne: "new_events w (snd (initForSession J e w)) = map fst es"
    by (rule new_events_append)
  from es(2) have "set (map fst es) \<subseteq> {GetSession, SignOut, Reload, ScheduleSessionRetry, SignInAnonymously}"
    by simp
  from quiet_events [OF this, of False] show ?thesis
    unfolding ne by simp
qed

text \<open>A run without a pending change: the remote store is asked, and being empty, seeded.\<close>

lemma seeding_run:
  "map fst (log (snd (initForSession sample_codec online_env cached_world))) =
     [GetSession, LockAcquired, GetCloudState, UpsertCloudState (getSnapshot sample_store),
      InitializePushNotifications, LockReleased]"
  by (simp add: run_defs online_env_def cached_world_def user_session_def reachable_ok_def
      updateLastAuthTimestamp_def saveState_def getSnapshot_def sample_store_def)

theorem pending_push_before_pull_witness:
  "getPendingSnapshot (json_parse sample_codec) (storage pending_world) = sample_snapshot \<and>
   truthy sample_snapshot \<and>
   new_events pending_world (snd (initForSession sample_codec online_env pending_world)) =
     [GetSession, LockAcquired, UpsertCloudState sample_snapshot, LockReleased] \<and>
   getItem PENDING_KEY (storage (snd (initForSession sample_codec online_env pending_world))) = Inr None \<and>
   cloudStatus (store (snd (initForSession sample_codec online_env pending_world))) = Ok \<and>
   GetCloudState \<notin> set (new_events pending_world (snd (initForSession sample_codec online_env pending_world))) \<and>
   \<not> truthy (getPendingSnapshot (json_parse sample_codec) (storage cached_world)) \<and>
   LockAcquired \<in> set (new_events cached_world (snd (initForSession sample_codec online_env cached_world))) \<and>
   GetCloudState \<in> set (new_events cached_world (snd (initForSession sample_codec online_env cached_world)))"
proof -
  let ?w' = "snd (initForSession sample_codec online_env pending_world)"
  let ?c' = "snd (initForSession sample_codec online_env cached_world)"
  let ?p = "getPendingSnapshot (json_parse sample_codec) (storage pending_world)"
  have lg: "log pending_world = []" by (simp add: pending_world_def)
  have n: "new_events pending_world ?w' =
      [GetSession, LockAcquired, UpsertCloudState sample_snapshot, LockReleased]"
    by (simp add: online_run new_events_def new_entries_def lg)
  have gp: "?p = sample_snapshot"
    by (simp add: pending_world_def buffered_storage_def getPendingSnapshot_def getItem_def
        PENDING_KEY_def sample_codec_def)
  have ts: "truthy sample_snapshot" by (simp add: sample_snapshot_def)
  with gp have ip: "truthy ?p" by simp
  have la: "LockAcquired \<in> set (new_events pending_world ?w')" using n by simp
  note t = pending_push_before_pull [of pending_world sample_codec online_env]
  from t la ip have 1: "GetCloudState \<notin> set (new_events pending_world ?w')" by blast
  from t la ip have 2: "getItem PENDING_KEY (storage ?w') =
      getItem PENDING_KEY (storage (pushSnapshot sample_codec (push online_env) ?p pending_world))"
    by blast
  from t la ip have 3: "cloudStatus (store ?w') =
      cloudStatus (store (pushSnapshot sample_codec (push online_env) ?p pending_world))"
    by blast
  have ok: "network_status (push online_env)" "upsert_result (push online_env) = None"
    by (simp_all add: online_env_def reachable_ok_def)
  have ma: "mode (storage pending_world) = Available"
    by (simp add: pending_world_def buffered_storage_def)
  have 4: "getItem PENDING_KEY (storage (pushSnapshot sample_codec (push online_env) ?p pending_world)) = Inr None"
    using ma by (simp add: pushSnapshot_ok [OF ok] buffer_by_mode)
  have 5: "cloudStatus (store (pushSnapshot sample_codec (push online_env) ?p pending_world)) = Ok"
    by (simp add: pushSnapshot_ok [OF ok])
  have np: "\<not> truthy (getPendingSnapshot (json_parse sample_codec) (storage cached_world))"
    by (simp add: cached_world_def getPendingSnapshot_def getItem_def PENDING_KEY_def)
  have lc: "log cached_world = []" by (simp add: cached_world_def)
  have lac: "LockAcquired \<in> set (new_events cached_world ?c')"
    by (simp add: new_events_def new_entries_def lc seeding_run)
  note u = pending_push_before_pull [of cached_world sample_codec online_env]
  from u lac np have 6: "GetCloudState \<in> set (new_events cached_world ?c')" by blast
  from gp ts n 1 2 3 4 5 np lac 6 show ?thesis by simp
qed

section \<open>Reconciliation without connectivity\<close>

text \<open>
  C4, as the claim states it, fails for the run that starts offline and recovers the
  session from a cached artefact: mode becomes \<open>cloud\<close> and status \<open>offline\<close>, but nothing
  is written to the Pending-Change Buffer.
\<close>

theorem offline_startup_counterexample:
  "fst (initForSession sample_codec offline_env cached_world) = Returned \<and>
   cloudMode (store (snd (initForSession sample_codec offline_env cached_world))) = Cloud \<and>
   cloudStatus (store (snd (initForSession sample_codec offline_env cached_world))) = Offline \<and>
   getItem PENDING_KEY (storage (snd (initForSession sample_codec offline_env cached_world))) = Inr None \<and>
   getPendingSnapshot (json_parse sample_codec)
     (storage (snd (initForSession sample_codec offline_env cached_world))) = JNull"
  by (simp add: initForSession_def offline_startup_def offline_env_def online_env_def
      cached_world_def sample_codec_def cached_artifact_def storage_keys_def getItem_def
      is_auth_token_key_def present_text_def js_or_def mark_ready_def world_ops Let_def
      setCloudSyncReady_def setUser_def getPendingSnapshot_def PENDING_KEY_def)

lemma offline_startup_cloud:
  assumes "storage_keys (storage w) = Inr ks"
    and "stored_session (json_parse J) (storage w) (filter is_auth_token_key ks) = Some session"
  shows "fst (offline_startup J w) = Returned"
    and "cloudMode (store (snd (offline_startup J w))) = Cloud"
    and "cloudStatus (store (snd (offline_startup J w))) = Offline"
    and "initialized (snd (offline_startup J w))"
  using assms
  by (simp_all add: offline_startup_def Let_def mark_ready_def world_ops setUser_def setCloudSyncReady_def)

lemma resolve_session_emit: "resolve_session J e (emit ev w) = resolve_session J e w"
  by (simp add: resolve_session_def split: sum.splits)

lemma remember_auth_anonymous:
  "\<not> (truthy (opt_prop su ''email'') \<and> \<not> truthy (opt_prop su ''is_anonymous'')) \<Longrightarrow>
     remember_auth su ls = Inr ls"
  by (auto simp: remember_auth_def)

lemma remember_auth_available:
  "mode ls = Available \<Longrightarrow> \<exists>ls1. remember_auth su ls = Inr ls1"
  by (simp add: remember_auth_def setItem_def)

lemma remember_auth_refused:
  "truthy (opt_prop su ''email'') \<Longrightarrow> \<not> truthy (opt_prop su ''is_anonymous'') \<Longrightarrow>
     mode ls \<noteq> Available \<Longrightarrow> \<exists>err. remember_auth su ls = Inl err"
  by (cases "mode ls") (simp_all add: remember_auth_def setItem_def)

lemma dropped_after_session:
  assumes "net_entry e" "\<not> net_after_session e"
    and "resolve_session J e w = Inr session" "truthy session"
    and "getItem OTP_KEY (storage w) = Inr po" "\<not> abandoned_otp (now_otp e) po"
    and "\<not> nullish (opt_prop session ''user'')"
  shows "remember_auth (opt_prop session ''user'') (storage w) = Inr ls1 \<Longrightarrow>
     initForSession J e w =
     (Returned,
      mark_ready (on_storage (setPendingSnapshot (json_stringify J) (getSnapshot (store w)))
        (on_store (setCloudStatus Offline)
           (on_store (setCloudMode Cloud)
              ((on_store (setUser (user_of (opt_prop session ''user''))) (emit GetSession w))
                 \<lparr>storage := ls1\<rparr>)))))"
    and "remember_auth (opt_prop session ''user'') (storage w) = Inl err \<Longrightarrow>
     initForSession J e w =
       (Rejected err, on_store (setUser (user_of (opt_prop session ''user''))) (emit GetSession w))"
  using assms by (simp_all add: initForSession_def with_session_def Let_def resolve_session_emit)

text \<open>
  C4, amended. When the run starts without connectivity, it makes no call and leaves the
  storage, and with it the Pending-Change Buffer, as it is; if a session is recovered
  from a cached artefact, the mode becomes \<open>cloud\<close> and the status \<open>offline\<close>. When the
  run starts with connectivity, the session lookup resolves to a session that carries a
  user object, the pending-verification mark can be read and is not abandoned, and
  connectivity is absent at the probe that follows, the session lookup is the only call
  made, and: for an identified user (an email, not anonymous) on a storage that refuses
  writes, the run is rejected by the refused breadcrumb write before mode, status or
  buffer are set; otherwise (an anonymous user, or a storage that can be written) the run
  returns with mode \<open>cloud\<close> and status \<open>offline\<close>, and the write of the current
  in-memory snapshot to the buffer is attempted: the buffer holds the serialised snapshot
  when the storage can be written, and the storage is unchanged when it cannot.
\<close>

theorem offline_reconcile_amended:
  "(\<not> net_entry e \<longrightarrow>
      storage (snd (initForSession J e w)) = storage w \<and>
      log (snd (initForSession J e w)) = log w \<and>
      (storage_keys (storage w) = Inr ks \<and>
       stored_session (json_parse J) (storage w) (filter is_auth_token_key ks) = Some cached \<longrightarrow>
         fst (initForSession J e w) = Returned \<and>
         cloudMode (store (snd (initForSession J e w))) = Cloud \<and>
         cloudStatus (store (snd (initForSession J e w))) = Offline \<and>
         initialized (snd (initForSession J e w)))) \<and>
   (net_entry e \<and> \<not> net_after_session e \<and>
    resolve_session J e w = Inr session \<and> truthy session \<and>
    \<not> nullish (opt_prop session ''user'') \<and>
    getItem OTP_KEY (storage w) = Inr po \<and> \<not> abandoned_otp (now_otp e) po \<longrightarrow>
      new_events w (snd (initForSession J e w)) = [GetSession] \<and>
      (truthy (opt_prop (opt_prop session ''user'') ''email'') \<and>
       \<not> truthy (opt_prop (opt_prop session ''user'') ''is_anonymous'') \<and>
       mode (storage w) \<noteq> Available \<longrightarrow>
         (\<exists>err. fst (initForSession J e w) = Rejected err) \<and>
         cloudMode (store (snd (initForSession J e w))) = cloudMode (store w) \<and>
         cloudStatus (store (snd (initForSession J e w))) = cloudStatus (store w) \<and>
         initialized (snd (initForSession J e w)) = initialized w \<and>
         storage (snd (initForSession J e w)) = storage w) \<and>
      (\<not> (truthy (opt_prop (opt_prop session ''user'') ''email'') \<and>
          \<not> truthy (opt_prop (opt_prop session ''user'') ''is_anonymous'')) \<or>
       mode (storage w) = Available \<longrightarrow>
         fst (initForSession J e w) = Returned \<and>
         cloudMode (store (snd (initForSession J e w))) = Cloud \<and>
         cloudStatus (store (snd (initForSession J e w))) = Offline \<and>
         initialized (snd (initForSession J e w)) \<and>
         (mode (storage w) = Available \<longrightarrow>
            getItem PENDING_KEY (storage (snd (initForSession J e w))) =
              Inr (Some (json_stringify J (getSnapshot (store w))))) \<and>
         (mode (storage w) \<noteq> Available \<longrightarrow>
            storage (snd (initForSession J e w)) = storage w)))"
proof -
  let ?su = "opt_prop session ''user''"
  have a: "\<not> net_entry e \<Longrightarrow> initForSession J e w = offline_startup J w"
    by (simp add: initForSession_def)
  have 1: "\<not> net_entry e \<longrightarrow>
      storage (snd (initForSession J e w)) = storage w \<and>
      log (snd (initForSession J e w)) = log w \<and>
      (storage_keys (storage w) = Inr ks \<and>
       stored_session (json_parse J) (storage w) (filter is_auth_token_key ks) = Some cached \<longrightarrow>
         fst (initForSession J e w) = Returned \<and>
         cloudMode (store (snd (initForSession J e w))) = Cloud \<and>
         cloudStatus (store (snd (initForSession J e w))) = Offline \<and>
         initialized (snd (initForSession J e w)))"
    using offline_startup_cloud [of w ks J cached]
    by (simp add: a offline_startup_frame)
  have 2: "net_entry e \<and> \<not> net_after_session e \<and>
    resolve_session J e w = Inr session \<and> truthy session \<and>
    \<not> nullish ?su \<and>
    getItem OTP_KEY (storage w) = Inr po \<and> \<not> abandoned_otp (now_otp e) po \<longrightarrow>
      new_events w (snd (initForSession J e w)) = [GetSession] \<and>
      (truthy (opt_prop ?su ''email'') \<and> \<not> truthy (opt_prop ?su ''is_anonymous'') \<and>
       mode (storage w) \<noteq> Available \<longrightarrow>
         (\<exists>err. fst (initForSession J e w) = Rejected err) \<and>
         cloudMode (store (snd (initForSession J e w))) = cloudMode (store w) \<and>
         cloudStatus (store (snd (initForSession J e w))) = cloudStatus (store w) \<and>
         initialized (snd (initForSession J e w)) = initialized w \<and>
         storage (snd (initForSession J e w)) = storage w) \<and>
      (\<not> (truthy (opt_prop ?su ''email'') \<and> \<not> truthy (opt_prop ?su ''is_anonymous'')) \<or>
       mode (storage w) = Available \<longrightarrow>
         fst (initForSession J e w) = Returned \<and>
         cloudMode (store (snd (initForSession J e w))) = Cloud \<and>
         cloudStatus (store (snd (initForSession J e w))) = Offline \<and>
         initialized (snd (initForSession J e w)) \<and>
         (mode (storage w) = Available \<longrightarrow>
            getItem PENDING_KEY (storage (snd (initForSession J e w))) =
              Inr (Some (json_stringify J (getSnapshot (store w))))) \<and>
         (mode (storage w) \<noteq> Available \<longrightarrow>
            storage (snd (initForSession J e w)) = storage w))"
  proof (intro impI, elim conjE)
    assume h: "net_entry e" "\<not> net_after_session e"
      "resolve_session J e w = Inr session" "truthy session"
      "getItem OTP_KEY (storage w) = Inr po" "\<not> abandoned_otp (now_otp e) po"
      "\<not> nullish ?su"
    note d = dropped_after_session [OF h]
    have ev: "new_events w (snd (initForSession J e w)) = [GetSession]"
    proof (cases "remember_auth ?su (storage w)")
      case (Inl err)
      show ?thesis unfolding d(2) [OF Inl] by (simp add: new_events_def new_entries_def)
    next
      case (Inr ls1)
      show ?thesis unfolding d(1) [OF Inr] by (simp add: new_events_def new_entries_def)
    qed
    have rej: "truthy (opt_prop ?su ''email'') \<and> \<not> truthy (opt_prop ?su ''is_anonymous'') \<and>
       mode (storage w) \<noteq> Available \<longrightarrow>
         (\<exists>err. fst (initForSession J e w) = Rejected err) \<and>
         cloudMode (store (snd (initForSession J e w))) = cloudMode (store w) \<and>
         cloudStatus (store (snd (initForSession J e w))) = cloudStatus (store w) \<and>
         initialized (snd (initForSession J e w)) = initialized w \<and>
         storage (snd (initForSession J e w)) = storage w"
    proof (intro impI, elim conjE)
      assume "truthy (opt_prop ?su ''email'')" "\<not> truthy (opt_prop ?su ''is_anonymous'')"
        "mode (storage w) \<noteq> Available"
      from remember_auth_refused [OF this] obtain err where
        r: "remember_auth ?su (storage w) = Inl err" by blast
      show "(\<exists>err. fst (initForSession J e w) = Rejected err) \<and>
         cloudMode (store (snd (initForSession J e w))) = cloudMode (store w) \<and>
         cloudStatus (store (snd (initForSession J e w))) = cloudStatus (store w) \<and>
         initialized (snd (initForSession J e w)) = initialized w \<and>
         storage (snd (initForSession J e w)) = storage w"
        unfolding d(2) [OF r] by (simp add: setUser_def)
    qed
    have ret: "\<not> (truthy (opt_prop ?su ''email'') \<and> \<not> truthy (opt_prop ?su ''is_anonymous'')) \<or>
       mode (storage w) = Available \<longrightarrow>
         fst (initForSession J e w) = Returned \<and>
         cloudMode (store (snd (initForSession J e w))) = Cloud \<and>
         cloudStatus (store (snd (initForSession J e w))) = Offline \<and>
         initialized (snd (initForSession J e w)) \<and>
         (mode (storage w) = Available \<longrightarrow>
            getItem PENDING_KEY (storage (snd (initForSession J e w))) =
              Inr (Some (json_stringify J (getSnapshot (store w))))) \<and>
         (mode (storage w) \<noteq> Available \<longrightarrow>
            storage (snd (initForSession J e w)) = storage w)"
    proof
      assume c: "\<not> (truthy (opt_prop ?su ''email'') \<and> \<not> truthy (opt_prop ?su ''is_anonymous'')) \<or>
        mode (storage w) = Available"
      have "\<exists>ls1. remember_auth ?su (storage w) = Inr ls1 \<and>
          (mode (storage w) \<noteq> Available \<longrightarrow> ls1 = storage w)"
      proof (cases "mode (storage w) = Available")
        case True
        with remember_auth_available [of "storage w" ?su] show ?thesis by blast
      next
        case False
        with c have "\<not> (truthy (opt_prop ?su ''email'') \<and> \<not> truthy (opt_prop ?su ''is_anonymous''))"
          by blast
        from remember_auth_anonymous [OF this, of "storage w"] show ?thesis by blast
      qed
      then obtain ls1 where r: "remember_auth ?su (storage w) = Inr ls1"
        and same: "mode (storage w) \<noteq> Available \<longrightarrow> ls1 = storage w"
        by blast
      note f = remember_auth_frame [OF r]
      have st: "storage (snd (initForSession J e w)) =
          setPendingSnapshot (json_stringify J) (getSnapshot (store w)) ls1"
        unfolding d(1) [OF r] by simp
      have b1: "mode (storage w) = Available \<longrightarrow>
            getItem PENDING_KEY (storage (snd (initForSession J e w))) =
              Inr (Some (json_stringify J (getSnapshot (store w))))"
        unfolding st using f(1) by (simp add: buffer_by_mode)
      have b2: "mode (storage w) \<noteq> Available \<longrightarrow> storage (snd (initForSession J e w)) = storage w"
      proof
        assume na: "mode (storage w) \<noteq> Available"
        with same have l: "ls1 = storage w" by blast
        from na show "storage (snd (initForSession J e w)) = storage w"
          unfolding st l
          by (cases "mode (storage w)") (simp_all add: buffer_refused buffer_denied)
      qed
      have b0: "fst (initForSession J e w) = Returned \<and>
         cloudMode (store (snd (initForSession J e w))) = Cloud \<and>
         cloudStatus (store (snd (initForSession J e w))) = Offline \<and>
         initialized (snd (initForSession J e w))"
        unfolding d(1) [OF r]
        by (simp add: setCloudSyncReady_def setCloudStatus_def setCloudMode_def)
      from b0 b1 b2 show "fst (initForSession J e w) = Returned \<and>
         cloudMode (store (snd (initForSession J e w))) = Cloud \<and>
         cloudStatus (store (snd (initForSession J e w))) = Offline \<and>
         initialized (snd (initForSession J e w)) \<and>
         (mode (storage w) = Available \<longrightarrow>
            getItem PENDING_KEY (storage (snd (initForSession J e w))) =
              Inr (Some (json_stringify J (getSnapshot (store w))))) \<and>
         (mode (storage w) \<noteq> Available \<longrightarrow>
            storage (snd (initForSession J e w)) = storage w)"
        by blast
    qed
    from ev rej ret show "new_events w (snd (initForSession J e w)) = [GetSession] \<and>
      (truthy (opt_prop ?su ''email'') \<and> \<not> truthy (opt_prop ?su ''is_anonymous'') \<and>
       mode (storage w) \<noteq> Available \<longrightarrow>
         (\<exists>err. fst (initForSession J e w) = Rejected err) \<and>
         cloudMode (store (snd (initForSession J e w))) = cloudMode (store w) \<and>
         cloudStatus (store (snd (initForSession J e w))) = cloudStatus (store w) \<and>
         initialized (snd (initForSession J e w)) = initialized w \<and>
         storage (snd (initForSession J e w)) = storage w) \<and>
      (\<not> (truthy (opt_prop ?su ''email'') \<and> \<not> truthy (opt_prop ?su ''is_anonymous'')) \<or>
       mode (storage w) = Available \<longrightarrow>
         fst (initForSession J e w) = Returned \<and>
         cloudMode (store (snd (initForSession J e w))) = Cloud \<and>
         cloudStatus (store (snd (initForSession J e w))) = Offline \<and>
         initialized (snd (initForSession J e w)) \<and>
         (mode (storage w) = Available \<longrightarrow>
            getItem PENDING_KEY (storage (snd (initForSession J e w))) =
              Inr (Some (json_stringify J (getSnapshot (store w))))) \<and>
         (mode (storage w) \<noteq> Available \<longrightarrow>
            storage (snd (initForSession J e w)) = storage w))"
      by (intro conjI)
  qed
  from 1 2 show ?thesis by (intro conjI)
qed

theorem offline_reconcile_amended_witness:
  "\<not> net_entry offline_env \<and>
   cloudMode (store (snd (initForSession sample_codec offline_env cached_world))) = Cloud \<and>
   cloudStatus (store (snd (initForSession sample_codec offline_env cached_world))) = Offline \<and>
   storage (snd (initForSession sample_codec offline_env cached_world)) = storage cached_world \<and>
   net_entry dropped_env \<and> \<not> net_after_session dropped_env \<and>
   cloudMode (store (snd (initForSession sample_codec dropped_env cached_world))) = Cloud \<and>
   cloudStatus (store (snd (initForSession sample_codec dropped_env cached_world))) = Offline \<and>
   getItem PENDING_KEY (storage (snd (initForSession sample_codec dropped_env cached_world))) =
     Inr (Some (json_stringify sample_codec (getSnapshot sample_store))) \<and>
   new_events cached_world (snd (initForSession sample_codec dropped_env cached_world)) = [GetSession] \<and>
   (\<exists>err. fst (initForSession sample_codec dropped_env refused_world) = Rejected err) \<and>
   cloudStatus (store (snd (initForSession sample_codec dropped_env refused_world))) = Ok \<and>
   storage (snd (initForSession sample_codec dropped_env refused_world)) = refusing_storage \<and>
   fst (initForSession sample_codec (anonymous_env\<lparr>net_after_session := False\<rparr>) refused_world) = Returned \<and>
   cloudStatus (store (snd (initForSession sample_codec (anonymous_env\<lparr>net_after_session := False\<rparr>)
     refused_world))) = Offline \<and>
   storage (snd (initForSession sample_codec (anonymous_env\<lparr>net_after_session := False\<rparr>) refused_world)) =
     refusing_storage"
proof -
  let ?J = sample_codec
  let ?ae = "anonymous_env\<lparr>net_after_session := False\<rparr>"
  have o: "\<not> net_entry offline_env"
    by (simp add: offline_env_def)
  have k: "storage_keys (storage cached_world) = Inr [''sb-demo-auth-token'']"
    by (simp add: cached_world_def storage_keys_def)
  have f: "stored_session (json_parse ?J) (storage cached_world)
      (filter is_auth_token_key [''sb-demo-auth-token'']) = Some cached_artifact"
    by (simp add: cached_world_def sample_codec_def is_auth_token_key_def getItem_def
        present_text_def cached_artifact_def)
  have p0: "store cached_world = sample_store" "mode (storage cached_world) = Available"
    by (simp_all add: cached_world_def)
  note a = offline_reconcile_amended [of offline_env ?J cached_world
      "[''sb-demo-auth-token'']" cached_artifact]
  from a o k f have a1: "cloudMode (store (snd (initForSession ?J offline_env cached_world))) = Cloud"
    by blast
  from a o k f have a2: "cloudStatus (store (snd (initForSession ?J offline_env cached_world))) = Offline"
    by blast
  from a o have a3: "storage (snd (initForSession ?J offline_env cached_world)) = storage cached_world"
    by blast
  have d: "net_entry dropped_env" "\<not> net_after_session dropped_env"
    by (simp_all add: dropped_env_def online_env_def)
  have r: "resolve_session ?J dropped_env cached_world = Inr user_session"
    "resolve_session ?J dropped_env refused_world = Inr user_session"
    by (simp_all add: resolve_session_def dropped_env_def online_env_def)
  have t: "truthy user_session" "\<not> nullish (opt_prop user_session ''user'')"
    by (simp_all add: user_session_def)
  have id: "truthy (opt_prop (opt_prop user_session ''user'') ''email'')"
    "\<not> truthy (opt_prop (opt_prop user_session ''user'') ''is_anonymous'')"
    by (simp_all add: user_session_def)
  have g: "getItem OTP_KEY (storage cached_world) = Inr None"
    "getItem OTP_KEY (storage refused_world) = Inr None"
    by (simp_all add: cached_world_def refused_world_def refusing_storage_def getItem_def OTP_KEY_def)
  have n: "\<not> abandoned_otp (now_otp dropped_env) None" "\<not> abandoned_otp (now_otp ?ae) None"
    by (simp_all add: abandoned_otp_def present_text_def)
  note b = offline_reconcile_amended [of dropped_env ?J cached_world _ _ user_session None]
  from b d r(1) t g(1) n(1) have b0: "new_events cached_world (snd (initForSession ?J dropped_env cached_world)) = [GetSession]"
    by blast
  from b d r(1) t g(1) n(1) p0(2) have b1: "cloudMode (store (snd (initForSession ?J dropped_env cached_world))) = Cloud"
    by blast
  from b d r(1) t g(1) n(1) p0(2) have b2: "cloudStatus (store (snd (initForSession ?J dropped_env cached_world))) = Offline"
    by blast
  from b d r(1) t g(1) n(1) p0(2) have b3: "getItem PENDING_KEY (storage (snd (initForSession ?J dropped_env cached_world))) =
      Inr (Some (json_stringify ?J (getSnapshot (store cached_world))))"
    by blast
  have q0: "mode (storage refused_world) \<noteq> Available" "storage refused_world = refusing_storage"
    "cloudStatus (store refused_world) = Ok"
    by (simp_all add: refused_world_def refusing_storage_def sample_store_def)
  note c = offline_reconcile_amended [of dropped_env ?J refused_world _ _ user_session None]
  from c d r(2) t g(2) n(1) id q0(1) have c1: "\<exists>err. fst (initForSession ?J dropped_env refused_world) = Rejected err"
    by blast
  from c d r(2) t g(2) n(1) id q0(1) have c2: "cloudStatus (store (snd (initForSession ?J dropped_env refused_world))) =
      cloudStatus (store refused_world)"
    by blast
  from c d r(2) t g(2) n(1) id q0(1) have c3: "storage (snd (initForSession ?J dropped_env refused_world)) =
      storage refused_world"
    by blast
  have ad: "net_entry ?ae" "\<not> net_after_session ?ae"
    by (simp_all add: anonymous_env_def online_env_def)
  have ar: "resolve_session ?J ?ae refused_world = Inr anonymous_session"
    by (simp add: resolve_session_def anonymous_env_def online_env_def)
  have at: "truthy anonymous_session" "\<not> nullish (opt_prop anonymous_session ''user'')"
    by (simp_all add: anonymous_session_def)
  have an: "\<not> (truthy (opt_prop (opt_prop anonymous_session ''user'') ''email'') \<and>
      \<not> truthy (opt_prop (opt_prop anonymous_session ''user'') ''is_anonymous''))"
    by (simp add: anonymous_session_def)
  note e = offline_reconcile_amended [of ?ae ?J refused_world _ _ anonymous_session None]
  from e ad ar at g(2) n(2) an have e1: "fst (initForSession ?J ?ae refused_world) = Returned"
    by blast
  from e ad ar at g(2) n(2) an have e2: "cloudStatus (store (snd (initForSession ?J ?ae refused_world))) = Offline"
    by blast
  from e ad ar at g(2) n(2) an q0(1) have e3: "storage (snd (initForSession ?J ?ae refused_world)) =
      storage refused_world"
    by blast
  from o a1 a2 a3 d b0 b1 b2 b3 c1 c2 c3 e1 e2 e3 show ?thesis by (simp add: p0 q0)
qed

section \<open>Sign-out\<close>

text \<open>
  C2, as the claim states it, fails: with the was-previously-authenticated breadcrumb
  present the sign-out handler leaves the storage (saved state, onboarding flag, Pending
  Change) and the in-memory data as they are and requests no anonymous session.
\<close>

theorem sign_out_breadcrumb_counterexample:
  "getItem WAS_AUTHENTICATED_KEY (storage breadcrumb_world) = Inr (Some ''true'') \<and>
   fst (signed_out sample_codec 9000 True (Inr JNull) breadcrumb_world) = Returned \<and>
   storage (snd (signed_out sample_codec 9000 True (Inr JNull) breadcrumb_world)) = storage breadcrumb_world \<and>
   getItem PENDING_KEY (storage (snd (signed_out sample_codec 9000 True (Inr JNull) breadcrumb_world))) =
     Inr (Some ''snapshot'') \<and>
   getItem STORAGE_KEY (storage (snd (signed_out sample_codec 9000 True (Inr JNull) breadcrumb_world))) =
     Inr (Some ''2'') \<and>
   welcomeSeen (store (snd (signed_out sample_codec 9000 True (Inr JNull) breadcrumb_world))) = JBool True \<and>
   log (snd (signed_out sample_codec 9000 True (Inr JNull) breadcrumb_world)) = []"
  by (simp add: signed_out_def breadcrumb_world_def getItem_def oauth_in_progress_def
      present_text_def OAUTH_TRANSITION_KEY_def WAS_AUTHENTICATED_KEY_def world_ops
      setSessionExpired_def sample_store_def Let_def PENDING_KEY_def STORAGE_KEY_def)

lemma signed_out_kept:
  assumes "getItem OAUTH_TRANSITION_KEY (storage w) = Inr t" "\<not> oauth_in_progress now t"
    and "getItem WAS_AUTHENTICATED_KEY (storage w) = Inr a" "present_text a"
  shows "fst (signed_out J now ci anon w) = Returned"
    and "sessionExpired (store (snd (signed_out J now ci anon w)))"
    and "cloudMode (store (snd (signed_out J now ci anon w))) = Guest"
    and "cloudStatus (store (snd (signed_out J now ci anon w))) = Idle"
    and "log (snd (signed_out J now ci anon w)) = log w"
    and "getSnapshot (store (snd (signed_out J now ci anon w))) = getSnapshot (store w)"
    and "getItem PENDING_KEY (storage (snd (signed_out J now ci anon w))) = getItem PENDING_KEY (storage w)"
    and "getItem STORAGE_KEY (storage (snd (signed_out J now ci anon w))) = getItem STORAGE_KEY (storage w)"
    and "getItem SEEN_KEY (storage (snd (signed_out J now ci anon w))) = getItem SEEN_KEY (storage w)"
proof -
  from assms(1) have nd: "\<And>d. mode (storage w) \<noteq> Denied d"
    by (auto simp: getItem_def split: ls_mode.splits)
  define ls1 where "ls1 = (if present_text t
      then (storage w)\<lparr>items := AList.delete OAUTH_TRANSITION_KEY (items (storage w))\<rparr> else storage w)"
  have r: "(if present_text t then removeItem OAUTH_TRANSITION_KEY (storage w) else Inr (storage w)) = Inr ls1"
    using nd by (cases "mode (storage w)") (auto simp: removeItem_def ls1_def)
  have g: "getItem k ls1 = getItem k (storage w)" if "k \<noteq> OAUTH_TRANSITION_KEY" for k
    using that by (simp add: ls1_def getItem_def delete_conv' split: ls_mode.splits)
  have ga: "getItem WAS_AUTHENTICATED_KEY ls1 = Inr a"
    using g [of WAS_AUTHENTICATED_KEY] assms(3)
    by (simp add: WAS_AUTHENTICATED_KEY_def OAUTH_TRANSITION_KEY_def)
  have eq: "signed_out J now ci anon w =
      (Returned, on_store (setCloudStatus Idle)
         (on_store (setCloudMode Guest) (on_store (setSessionExpired True) (w\<lparr>storage := ls1\<rparr>))))"
    using assms r ga by (simp add: signed_out_def Let_def)
  show "fst (signed_out J now ci anon w) = Returned"
    and "sessionExpired (store (snd (signed_out J now ci anon w)))"
    and "cloudMode (store (snd (signed_out J now ci anon w))) = Guest"
    and "cloudStatus (store (snd (signed_out J now ci anon w))) = Idle"
    and "log (snd (signed_out J now ci anon w)) = log w"
    and "getSnapshot (store (snd (signed_out J now ci anon w))) = getSnapshot (store w)"
    unfolding eq
    by (simp_all add: setSessionExpired_def setCloudMode_def setCloudStatus_def getSnapshot_def)
  show "getItem PENDING_KEY (storage (snd (signed_out J now ci anon w))) = getItem PENDING_KEY (storage w)"
    unfolding eq using g [of PENDING_KEY] by (simp add: PENDING_KEY_def OAUTH_TRANSITION_KEY_def)
  show "getItem STORAGE_KEY (storage (snd (signed_out J now ci anon w))) = getItem STORAGE_KEY (storage w)"
    unfolding eq using g [of STORAGE_KEY] by (simp add: STORAGE_KEY_def OAUTH_TRANSITION_KEY_def)
  show "getItem SEEN_KEY (storage (snd (signed_out J now ci anon w))) = getItem SEEN_KEY (storage w)"
    unfolding eq using g [of SEEN_KEY] by (simp add: SEEN_KEY_def OAUTH_TRANSITION_KEY_def)
qed

text \<open>
  The reset of the data that the sign-out handler and the wipe of \<open>initForSession\<close> share:
  \<open>replaceAllData({ schemaVersion: 1 })\<close>, the removal of the onboarding key and
  \<open>setWelcomeSeen(false)\<close>.
\<close>

lemma reset_data_store:
  "store (on_both (setWelcomeSeen str False)
      (on_storage remove_seen_key
         (on_both (\<lambda>sl. snd (replaceAllData str default_document sl)) w))) =
   (store w)\<lparr>schemaVersion := JNum 1,
              security := JObj [(''biometricEnabled'', JBool False)], welcomeSeen := JBool False\<rparr>"
  by (simp add: on_both_def on_storage_def setWelcomeSeen_def replaceAllData_def Let_def
      default_document_def coalesce_def)

lemma reset_data_frame:
  "log (on_both (setWelcomeSeen str False)
      (on_storage remove_seen_key
         (on_both (\<lambda>sl. snd (replaceAllData str default_document sl)) w))) = log w"
  "initialized (on_both (setWelcomeSeen str False)
      (on_storage remove_seen_key
         (on_both (\<lambda>sl. snd (replaceAllData str default_document sl)) w))) = initialized w"
  by simp_all

lemma reset_data_storage:
  "mode (storage (on_both (setWelcomeSeen str False)
      (on_storage remove_seen_key
         (on_both (\<lambda>sl. snd (replaceAllData str default_document sl)) w)))) = mode (storage w)"
  "getItem PENDING_KEY (storage (on_both (setWelcomeSeen str False)
      (on_storage remove_seen_key
         (on_both (\<lambda>sl. snd (replaceAllData str default_document sl)) w)))) =
     getItem PENDING_KEY (storage w)"
  by (cases "mode (storage w)";
      simp add: on_both_def on_storage_def setWelcomeSeen_def replaceAllData_def Let_def
        default_document_def remove_seen_key_def write_seen_flag_def saveState_def
        setItem_def removeItem_def getItem_def update_conv' delete_conv'
        SEEN_KEY_def STORAGE_KEY_def PENDING_KEY_def)+

lemma reset_data_seen:
  assumes "\<And>d. mode (storage w) \<noteq> Denied d"
  shows "getItem SEEN_KEY (storage (on_both (setWelcomeSeen str False)
      (on_storage remove_seen_key
         (on_both (\<lambda>sl. snd (replaceAllData str default_document sl)) w)))) = Inr None"
  using assms
  by (cases "mode (storage w)")
     (auto simp: on_both_def on_storage_def setWelcomeSeen_def replaceAllData_def Let_def
        default_document_def remove_seen_key_def write_seen_flag_def saveState_def
        setItem_def removeItem_def getItem_def update_conv' delete_conv'
        SEEN_KEY_def STORAGE_KEY_def)

lemma reset_data_saved:
  assumes "mode (storage w) = Available"
  shows "getItem STORAGE_KEY (storage (on_both (setWelcomeSeen str False)
      (on_storage remove_seen_key
         (on_both (\<lambda>sl. snd (replaceAllData str default_document sl)) w)))) =
    Inr (Some (str (store_doc ((store w)\<lparr>schemaVersion := JNum 1,
              security := JObj [(''biometricEnabled'', JBool False)], welcomeSeen := JBool False\<rparr>))))"
  using assms
  by (simp add: on_both_def on_storage_def setWelcomeSeen_def replaceAllData_def Let_def
        default_document_def remove_seen_key_def write_seen_flag_def saveState_def
        setItem_def removeItem_def getItem_def update_conv' delete_conv'
        SEEN_KEY_def STORAGE_KEY_def coalesce_def)

lemma reset_data_cleared:
  assumes "mode (storage w) = WriteRefused q"
  shows "getItem STORAGE_KEY (storage (on_both (setWelcomeSeen str False)
      (on_storage remove_seen_key
         (on_both (\<lambda>sl. snd (replaceAllData str default_document sl))
            (on_storage clearState w))))) = Inr None"
  using assms
  by (simp add: on_both_def on_storage_def setWelcomeSeen_def replaceAllData_def Let_def
        default_document_def remove_seen_key_def write_seen_flag_def saveState_def clearState_def
        setItem_def removeItem_def getItem_def update_conv' delete_conv'
        SEEN_KEY_def STORAGE_KEY_def)

lemma clearState_frame [simp]:
  "mode (clearState ls) = mode ls"
  "getItem PENDING_KEY (clearState ls) = getItem PENDING_KEY ls"
  by (cases "mode ls";
      simp add: clearState_def removeItem_def getItem_def delete_conv' PENDING_KEY_def STORAGE_KEY_def)+

lemma default_snapshot_store:
  "getSnapshot (s\<lparr>schemaVersion := JNum 1,
              security := JObj [(''biometricEnabled'', JBool False)], welcomeSeen := JBool False\<rparr>) = default_snapshot"
  by (simp add: getSnapshot_def default_snapshot_def)

lemma signed_out_wiped:
  assumes "getItem OAUTH_TRANSITION_KEY (storage w) = Inr t" "\<not> oauth_in_progress now t"
    and "getItem WAS_AUTHENTICATED_KEY (storage w) = Inr a" "\<not> present_text a"
  shows "fst (signed_out J now ci anon w) = Returned \<and>
    getItem PENDING_KEY (storage (snd (signed_out J now ci anon w))) = Inr None \<and>
    getSnapshot (store (snd (signed_out J now ci anon w))) = default_snapshot \<and>
    subscription (store (snd (signed_out J now ci anon w))) = JNull \<and>
    getItem SEEN_KEY (storage (snd (signed_out J now ci anon w))) = Inr None \<and>
    user (store (snd (signed_out J now ci anon w))) = no_user \<and>
    cloudMode (store (snd (signed_out J now ci anon w))) = Guest \<and>
    cloudStatus (store (snd (signed_out J now ci anon w))) = Idle \<and>
    \<not> initialized (snd (signed_out J now ci anon w)) \<and>
    new_events w (snd (signed_out J now ci anon w)) =
      [DeactivateToken, CleanupPushNotifications, SignInAnonymously] @
      (if ci then [ClearSubscriptionCache] else []) \<and>
    (mode (storage w) = Available \<longrightarrow>
       getItem STORAGE_KEY (storage (snd (signed_out J now ci anon w))) =
         Inr (Some (json_stringify J (store_doc ((store w)\<lparr>schemaVersion := JNum 1,
           security := JObj [(''biometricEnabled'', JBool False)], subscription := JNull,
           welcomeSeen := JBool False\<rparr>))))) \<and>
    (mode (storage w) = WriteRefused q \<longrightarrow>
       getItem STORAGE_KEY (storage (snd (signed_out J now ci anon w))) = Inr None)"
proof -
  from assms(1) have nd: "\<And>d. mode (storage w) \<noteq> Denied d"
    by (auto simp: getItem_def split: ls_mode.splits)
  define ls1 where "ls1 = (if present_text t
      then (storage w)\<lparr>items := AList.delete OAUTH_TRANSITION_KEY (items (storage w))\<rparr> else storage w)"
  have r: "(if present_text t then removeItem OAUTH_TRANSITION_KEY (storage w) else Inr (storage w)) = Inr ls1"
    using nd by (cases "mode (storage w)") (auto simp: removeItem_def ls1_def)
  have m1: "mode ls1 = mode (storage w)" by (simp add: ls1_def)
  have ga: "getItem WAS_AUTHENTICATED_KEY ls1 = Inr a"
    using assms(3)
    by (simp add: ls1_def getItem_def delete_conv' WAS_AUTHENTICATED_KEY_def OAUTH_TRANSITION_KEY_def
        split: ls_mode.splits)
  define w2 where "w2 = emit CleanupPushNotifications (emit DeactivateToken (w\<lparr>storage := ls1\<rparr>))"
  define w3 where "w3 = on_store clearSubscription (on_storage clearPendingSnapshot w2)"
  define w4 where "w4 = on_storage clearState w3"
  define w6 where "w6 = on_both (setWelcomeSeen (json_stringify J) False)
      (on_storage remove_seen_key
         (on_both (\<lambda>sl. snd (replaceAllData (json_stringify J) default_document sl)) w4))"
  define w7 where "w7 = (on_store (setCloudStatus Idle) (on_store (setCloudMode Guest)
          (on_store (setUser no_user) w6)))\<lparr>initialized := False\<rparr>"
  define w9 where "w9 = (if ci then emit ClearSubscriptionCache (emit SignInAnonymously w7)
      else emit SignInAnonymously w7)"
  have w4': "w4 = on_store clearSubscription
      (on_storage clearState (on_storage clearPendingSnapshot w2))"
    by (simp add: w4_def w3_def on_store_def on_storage_def)
  have eq: "snd (signed_out J now ci anon w) = w9 \<or> snd (signed_out J now ci anon w) = on_store setCloudSyncReady w9"
    and f: "fst (signed_out J now ci anon w) = Returned"
    using assms r ga
    by (auto simp: signed_out_def Let_def w9_def w7_def w6_def w4' w2_def split: sum.splits)
  have l2: "\<exists>c1 c2. log w2 = log w @ [(DeactivateToken, c1), (CleanupPushNotifications, c2)]"
    by (simp add: w2_def emit_def)
  have m3: "mode (storage w3) = mode (storage w)"
    by (simp add: w3_def w2_def m1)
  have m4: "mode (storage w4) = mode (storage w)"
    by (simp add: w4_def m3)
  have nd4: "\<And>d. mode (storage w4) \<noteq> Denied d" using nd by (simp add: m4)
  have p4: "getItem PENDING_KEY (storage w4) = Inr None"
  proof -
    have "getItem PENDING_KEY (storage w4) = getItem PENDING_KEY (clearPendingSnapshot ls1)"
      by (simp add: w4_def w3_def w2_def)
    also have "\<dots> = Inr None"
      using nd m1 by (cases "mode (storage w)") (auto simp: buffer_by_mode)
    finally show ?thesis .
  qed
  have s4: "store w4 = (store w)\<lparr>subscription := JNull\<rparr>" "log w4 = log w2"
    by (simp_all add: w4_def w3_def w2_def clearSubscription_def setSubscription_def)
  have p6: "getItem PENDING_KEY (storage w6) = Inr None"
    unfolding w6_def by (simp add: reset_data_storage p4)
  have l6: "log w6 = log w2" "mode (storage w6) = mode (storage w)"
    unfolding w6_def by (simp_all add: reset_data_frame reset_data_storage s4 m4)
  have st6: "store w6 = (store w)\<lparr>schemaVersion := JNum 1,
      security := JObj [(''biometricEnabled'', JBool False)], subscription := JNull,
      welcomeSeen := JBool False\<rparr>"
    unfolding w6_def by (simp add: reset_data_store s4)
  have g6: "getSnapshot (store w6) = default_snapshot" "subscription (store w6) = JNull"
    unfolding st6 by (simp_all add: getSnapshot_def default_snapshot_def)
  have s6: "getItem SEEN_KEY (storage w6) = Inr None"
    unfolding w6_def using nd4 by (rule reset_data_seen)
  have a6: "mode (storage w) = Available \<longrightarrow>
      getItem STORAGE_KEY (storage w6) = Inr (Some (json_stringify J (store_doc (store w6))))"
  proof
    assume "mode (storage w) = Available"
    with m4 have "mode (storage w4) = Available" by simp
    from reset_data_saved [OF this, of "json_stringify J"]
    have "getItem STORAGE_KEY (storage w6) =
        Inr (Some (json_stringify J (store_doc ((store w4)\<lparr>schemaVersion := JNum 1,
              security := JObj [(''biometricEnabled'', JBool False)], welcomeSeen := JBool False\<rparr>))))"
      by (simp add: w6_def)
    moreover have "(store w4)\<lparr>schemaVersion := JNum 1,
              security := JObj [(''biometricEnabled'', JBool False)], welcomeSeen := JBool False\<rparr> = store w6"
      unfolding st6 s4 by simp
    ultimately show "getItem STORAGE_KEY (storage w6) = Inr (Some (json_stringify J (store_doc (store w6))))"
      by simp
  qed
  have c6: "mode (storage w) = WriteRefused q \<longrightarrow> getItem STORAGE_KEY (storage w6) = Inr None"
  proof
    assume wr: "mode (storage w) = WriteRefused q"
    then have "mode (storage w3) = WriteRefused q" using m3 by simp
    from reset_data_cleared [OF this, of "json_stringify J"]
    show "getItem STORAGE_KEY (storage w6) = Inr None"
      by (simp add: w6_def w4_def)
  qed
  have w9s: "storage w9 = storage w6" "store w9 = setCloudStatus Idle (setCloudMode Guest (setUser no_user (store w6)))"
    "\<not> initialized w9"
    by (simp_all add: w9_def w7_def)
  have l9: "map fst (log w9) = map fst (log w6) @ [SignInAnonymously] @ (if ci then [ClearSubscriptionCache] else [])"
    by (simp add: w9_def w7_def)
  from l2 l6(1) have "map fst (log w6) = map fst (log w) @ [DeactivateToken, CleanupPushNotifications]"
    by auto
  with l9 have "map fst (log w9) = map fst (log w) @
      ([DeactivateToken, CleanupPushNotifications, SignInAnonymously] @
       (if ci then [ClearSubscriptionCache] else []))"
    by simp
  moreover have "length (log w) \<le> length (log w9)"
    using l2 l6(1) by (auto simp: w9_def w7_def)
  ultimately have n9: "new_events w w9 =
      [DeactivateToken, CleanupPushNotifications, SignInAnonymously] @
       (if ci then [ClearSubscriptionCache] else [])"
    by (simp add: new_events_def new_entries_def drop_map [symmetric] del: drop_map)
  have f9: "getSnapshot (store w9) = default_snapshot" "subscription (store w9) = JNull"
    "user (store w9) = no_user" "cloudMode (store w9) = Guest" "cloudStatus (store w9) = Idle"
    using g6 by (simp_all add: w9s setUser_def setCloudMode_def setCloudStatus_def getSnapshot_def)
  have body: "fst (signed_out J now ci anon w) = Returned \<and>
    getItem PENDING_KEY (storage w9) = Inr None \<and>
    getSnapshot (store w9) = default_snapshot \<and>
    subscription (store w9) = JNull \<and>
    getItem SEEN_KEY (storage w9) = Inr None \<and>
    user (store w9) = no_user \<and>
    cloudMode (store w9) = Guest \<and>
    cloudStatus (store w9) = Idle \<and>
    \<not> initialized w9 \<and>
    new_events w w9 =
      [DeactivateToken, CleanupPushNotifications, SignInAnonymously] @
      (if ci then [ClearSubscriptionCache] else []) \<and>
    (mode (storage w) = Available \<longrightarrow>
       getItem STORAGE_KEY (storage w9) =
         Inr (Some (json_stringify J (store_doc ((store w)\<lparr>schemaVersion := JNum 1,
           security := JObj [(''biometricEnabled'', JBool False)], subscription := JNull,
           welcomeSeen := JBool False\<rparr>))))) \<and>
    (mode (storage w) = WriteRefused q \<longrightarrow> getItem STORAGE_KEY (storage w9) = Inr None)"
    using f p6 s6 a6 c6 f9 n9 w9s(3) unfolding w9s(1) st6 by (intro conjI)
  have rs: "storage (on_store setCloudSyncReady w9) = storage w9"
    "getSnapshot (store (on_store setCloudSyncReady w9)) = getSnapshot (store w9)"
    "subscription (store (on_store setCloudSyncReady w9)) = subscription (store w9)"
    "user (store (on_store setCloudSyncReady w9)) = user (store w9)"
    "cloudMode (store (on_store setCloudSyncReady w9)) = cloudMode (store w9)"
    "cloudStatus (store (on_store setCloudSyncReady w9)) = cloudStatus (store w9)"
    "initialized (on_store setCloudSyncReady w9) = initialized w9"
    "new_events w (on_store setCloudSyncReady w9) = new_events w w9"
    by (simp_all add: setCloudSyncReady_def new_events_def new_entries_def getSnapshot_def)
  from eq show ?thesis
  proof
    assume e: "snd (signed_out J now ci anon w) = w9"
    show ?thesis unfolding e by (rule body)
  next
    assume e: "snd (signed_out J now ci anon w) = on_store setCloudSyncReady w9"
    show ?thesis unfolding e rs by (rule body)
  qed
qed

lemma without_session_kept:
  assumes "getItem WAS_AUTHENTICATED_KEY (storage w) = Inr (Some ''true'')"
  shows "fst (without_session J e w) = Returned \<and>
    sessionExpired (store (snd (without_session J e w))) \<and>
    cloudMode (store (snd (without_session J e w))) = Guest \<and>
    cloudStatus (store (snd (without_session J e w))) = Idle \<and>
    log (snd (without_session J e w)) = log w \<and>
    storage (snd (without_session J e w)) = storage w \<and>
    getSnapshot (store (snd (without_session J e w))) = getSnapshot (store w)"
  using assms
  by (simp add: without_session_def setSessionExpired_def getSnapshot_def setCloudSyncReady_def
      setCloudMode_def setCloudStatus_def mark_ready_def)

lemma without_session_wiped:
  assumes "getItem WAS_AUTHENTICATED_KEY (storage w) = Inr flag" "flag \<noteq> Some ''true''"
    and "cloudMode (store w) = Cloud" "truthy (email (user (store w)))"
    and "\<not> dev_mode e" "net_entry e"
  shows "fst (without_session J e w) = Returned \<and>
    getItem PENDING_KEY (storage (snd (without_session J e w))) = Inr None \<and>
    getSnapshot (store (snd (without_session J e w))) = default_snapshot \<and>
    getItem SEEN_KEY (storage (snd (without_session J e w))) = Inr None \<and>
    user (store (snd (without_session J e w))) = no_user \<and>
    new_events w (snd (without_session J e w)) = [SignInAnonymously] \<and>
    (mode (storage w) = Available \<longrightarrow>
       getItem STORAGE_KEY (storage (snd (without_session J e w))) =
         Inr (Some (json_stringify J (store_doc ((store w)\<lparr>schemaVersion := JNum 1,
           security := JObj [(''biometricEnabled'', JBool False)],
           welcomeSeen := JBool False\<rparr>))))) \<and>
    (mode (storage w) = WriteRefused q \<longrightarrow>
       getItem STORAGE_KEY (storage (snd (without_session J e w))) = Inr None)"
proof -
  from assms(1) have nd: "\<And>d. mode (storage w) \<noteq> Denied d"
    by (auto simp: getItem_def split: ls_mode.splits)
  define w4 where "w4 = on_storage clearState (on_storage clearPendingSnapshot w)"
  define w6 where "w6 = wipe_local J w"
  define w3 where "w3 = emit SignInAnonymously (on_store (setUser no_user) w6)"
  have w6: "w6 = on_both (setWelcomeSeen (json_stringify J) False)
      (on_storage remove_seen_key
         (on_both (\<lambda>sl. snd (replaceAllData (json_stringify J) default_document sl)) w4))"
    by (simp add: w6_def w4_def wipe_local_def Let_def)
  have eq: "snd (without_session J e w) = w3 \<or> snd (without_session J e w) = guest_fallback w3"
    and f: "fst (without_session J e w) = Returned"
    using assms by (auto simp: without_session_def Let_def w3_def w6_def split: sum.splits)
  have m4: "mode (storage w4) = mode (storage w)" "store w4 = store w" "log w4 = log w"
    by (simp_all add: w4_def)
  have nd4: "\<And>d. mode (storage w4) \<noteq> Denied d" using nd by (simp add: m4)
  have p4: "getItem PENDING_KEY (storage w4) = Inr None"
    using nd by (cases "mode (storage w)") (auto simp: w4_def buffer_by_mode)
  have p6: "getItem PENDING_KEY (storage w6) = Inr None" "log w6 = log w"
    unfolding w6 by (simp_all add: reset_data_storage reset_data_frame p4 m4)
  have st6: "store w6 = (store w)\<lparr>schemaVersion := JNum 1,
      security := JObj [(''biometricEnabled'', JBool False)], welcomeSeen := JBool False\<rparr>"
    unfolding w6 by (simp add: reset_data_store m4)
  have g6: "getSnapshot (store w6) = default_snapshot"
    unfolding st6 by (simp add: getSnapshot_def default_snapshot_def)
  have s6: "getItem SEEN_KEY (storage w6) = Inr None"
    unfolding w6 using nd4 by (rule reset_data_seen)
  have a6: "mode (storage w) = Available \<longrightarrow>
      getItem STORAGE_KEY (storage w6) = Inr (Some (json_stringify J (store_doc (store w6))))"
  proof
    assume "mode (storage w) = Available"
    with m4 have "mode (storage w4) = Available" by simp
    from reset_data_saved [OF this, of "json_stringify J"]
    show "getItem STORAGE_KEY (storage w6) = Inr (Some (json_stringify J (store_doc (store w6))))"
      unfolding st6 by (simp add: w6 m4)
  qed
  have c6: "mode (storage w) = WriteRefused q \<longrightarrow> getItem STORAGE_KEY (storage w6) = Inr None"
  proof
    assume wr: "mode (storage w) = WriteRefused q"
    then have "mode (storage (on_storage clearPendingSnapshot w)) = WriteRefused q" by simp
    from reset_data_cleared [OF this, of "json_stringify J"]
    show "getItem STORAGE_KEY (storage w6) = Inr None"
      by (simp add: w6 w4_def)
  qed
  have w3s: "storage w3 = storage w6" "getSnapshot (store w3) = default_snapshot"
    "user (store w3) = no_user"
    using g6 by (simp_all add: w3_def setUser_def getSnapshot_def)
  have "\<exists>c. log w3 = log w @ [(SignInAnonymously, c)]"
    by (simp add: w3_def p6 emit_def)
  then obtain c where "log w3 = log w @ [(SignInAnonymously, c)]" by blast
  then have n3: "new_events w w3 = [SignInAnonymously]"
    by (simp add: new_events_def new_entries_def)
  have body: "fst (without_session J e w) = Returned \<and>
    getItem PENDING_KEY (storage w3) = Inr None \<and>
    getSnapshot (store w3) = default_snapshot \<and>
    getItem SEEN_KEY (storage w3) = Inr None \<and>
    user (store w3) = no_user \<and>
    new_events w w3 = [SignInAnonymously] \<and>
    (mode (storage w) = Available \<longrightarrow>
       getItem STORAGE_KEY (storage w3) =
         Inr (Some (json_stringify J (store_doc ((store w)\<lparr>schemaVersion := JNum 1,
           security := JObj [(''biometricEnabled'', JBool False)],
           welcomeSeen := JBool False\<rparr>))))) \<and>
    (mode (storage w) = WriteRefused q \<longrightarrow> getItem STORAGE_KEY (storage w3) = Inr None)"
    using f p6(1) s6 a6 c6 w3s(2,3) n3 unfolding w3s(1) st6 by (intro conjI)
  have gf: "storage (guest_fallback w3) = storage w3"
    "getSnapshot (store (guest_fallback w3)) = getSnapshot (store w3)"
    "user (store (guest_fallback w3)) = user (store w3)"
    "new_events w (guest_fallback w3) = new_events w w3"
    by (simp_all add: guest_fallback_def setCloudSyncReady_def setCloudMode_def setCloudStatus_def
        getSnapshot_def new_events_def new_entries_def)
  from eq show ?thesis
  proof
    assume e: "snd (without_session J e w) = w3"
    show ?thesis unfolding e by (rule body)
  next
    assume e: "snd (without_session J e w) = guest_fallback w3"
    show ?thesis unfolding e gf by (rule body)
  qed
qed

text \<open>
  C2, amended. For a sign-out whose OAuth marker can be read and does not show a
  transition in progress, and whose breadcrumb can be read: when the
  was-previously-authenticated breadcrumb is present, the handler only raises the
  session-expired flag and sets mode \<open>guest\<close> and status \<open>idle\<close>; Pending Change, saved
  state, onboarding flag and in-memory data stay, and no call is made. When the
  breadcrumb is absent, the handler deregisters the push capabilities, empties the
  Pending-Change Buffer, clears the subscription, resets the in-memory data to the default
  schema-version-1 document, removes the onboarding flag, clears the identity, sets mode
  \<open>guest\<close> and status \<open>idle\<close>, marks the gate uninitialised and requests an anonymous
  session; the subscription cache is cleared after that request, and only if its module
  loads. The durable store is cleared and then written again by the reset: where the
  storage accepts writes it ends holding the serialised store with schema version 1, the
  default security settings, no subscription and the onboarding flag false, and with the
  identity, mode and status the store had before the sign-out (they are reset after the
  last save); where the storage refuses writes it ends with no record. The no-session
  branch of \<open>initForSession\<close> decides the same way: with the breadcrumb \<open>true\<close> it raises
  the session-expired flag, sets mode \<open>guest\<close> and status \<open>idle\<close> and leaves the storage as
  it is; without it, outside development mode and with connectivity at entry, a store
  still in cloud mode with a known user is wiped in the same way (the subscription apart)
  and an anonymous session is requested.
\<close>

theorem sign_out_amended:
  "(getItem OAUTH_TRANSITION_KEY (storage w) = Inr t \<and> \<not> oauth_in_progress now t \<and>
    getItem WAS_AUTHENTICATED_KEY (storage w) = Inr a \<and> present_text a \<longrightarrow>
      fst (signed_out J now ci anon w) = Returned \<and>
      sessionExpired (store (snd (signed_out J now ci anon w))) \<and>
      cloudMode (store (snd (signed_out J now ci anon w))) = Guest \<and>
      cloudStatus (store (snd (signed_out J now ci anon w))) = Idle \<and>
      log (snd (signed_out J now ci anon w)) = log w \<and>
      getSnapshot (store (snd (signed_out J now ci anon w))) = getSnapshot (store w) \<and>
      getItem PENDING_KEY (storage (snd (signed_out J now ci anon w))) = getItem PENDING_KEY (storage w) \<and>
      getItem STORAGE_KEY (storage (snd (signed_out J now ci anon w))) = getItem STORAGE_KEY (storage w) \<and>
      getItem SEEN_KEY (storage (snd (signed_out J now ci anon w))) = getItem SEEN_KEY (storage w)) \<and>
   (getItem OAUTH_TRANSITION_KEY (storage w) = Inr t \<and> \<not> oauth_in_progress now t \<and>
    getItem WAS_AUTHENTICATED_KEY (storage w) = Inr a \<and> \<not> present_text a \<longrightarrow>
      fst (signed_out J now ci anon w) = Returned \<and>
      getItem PENDING_KEY (storage (snd (signed_out J now ci anon w))) = Inr None \<and>
      getSnapshot (store (snd (signed_out J now ci anon w))) = default_snapshot \<and>
      subscription (store (snd (signed_out J now ci anon w))) = JNull \<and>
      getItem SEEN_KEY (storage (snd (signed_out J now ci anon w))) = Inr None \<and>
      user (store (snd (signed_out J now ci anon w))) = no_user \<and>
      cloudMode (store (snd (signed_out J now ci anon w))) = Guest \<and>
      cloudStatus (store (snd (signed_out J now ci anon w))) = Idle \<and>
      \<not> initialized (snd (signed_out J now ci anon w)) \<and>
      new_events w (snd (signed_out J now ci anon w)) =
        [DeactivateToken, CleanupPushNotifications, SignInAnonymously] @
        (if ci then [ClearSubscriptionCache] else []) \<and>
      (mode (storage w) = Available \<longrightarrow>
         getItem STORAGE_KEY (storage (snd (signed_out J now ci anon w))) =
           Inr (Some (json_stringify J (store_doc ((store w)\<lparr>schemaVersion := JNum 1,
             security := JObj [(''biometricEnabled'', JBool False)], subscription := JNull,
             welcomeSeen := JBool False\<rparr>))))) \<and>
      (mode (storage w) = WriteRefused q \<longrightarrow>
         getItem STORAGE_KEY (storage (snd (signed_out J now ci anon w))) = Inr None)) \<and>
   (getItem WAS_AUTHENTICATED_KEY (storage w) = Inr (Some ''true'') \<longrightarrow>
      fst (without_session J e w) = Returned \<and>
      sessionExpired (store (snd (without_session J e w))) \<and>
      cloudMode (store (snd (without_session J e w))) = Guest \<and>
      cloudStatus (store (snd (without_session J e w))) = Idle \<and>
      log (snd (without_session J e w)) = log w \<and>
      storage (snd (without_session J e w)) = storage w \<and>
      getSnapshot (store (snd (without_session J e w))) = getSnapshot (store w)) \<and>
   (getItem WAS_AUTHENTICATED_KEY (storage w) = Inr flag \<and> flag \<noteq> Some ''true'' \<and>
    cloudMode (store w) = Cloud \<and> truthy (email (user (store w))) \<and>
    \<not> dev_mode e \<and> net_entry e \<longrightarrow>
      fst (without_session J e w) = Returned \<and>
      getItem PENDING_KEY (storage (snd (without_session J e w))) = Inr None \<and>
      getSnapshot (store (snd (without_session J e w))) = default_snapshot \<and>
      getItem SEEN_KEY (storage (snd (without_session J e w))) = Inr None \<and>
      user (store (snd (without_session J e w))) = no_user \<and>
      new_events w (snd (without_session J e w)) = [SignInAnonymously] \<and>
      (mode (storage w) = Available \<longrightarrow>
         getItem STORAGE_KEY (storage (snd (without_session J e w))) =
           Inr (Some (json_stringify J (store_doc ((store w)\<lparr>schemaVersion := JNum 1,
             security := JObj [(''biometricEnabled'', JBool False)],
             welcomeSeen := JBool False\<rparr>))))) \<and>
      (mode (storage w) = WriteRefused q \<longrightarrow>
         getItem STORAGE_KEY (storage (snd (without_session J e w))) = Inr None))"
proof (intro conjI)
  show "getItem OAUTH_TRANSITION_KEY (storage w) = Inr t \<and> \<not> oauth_in_progress now t \<and>
    getItem WAS_AUTHENTICATED_KEY (storage w) = Inr a \<and> present_text a \<longrightarrow>
      fst (signed_out J now ci anon w) = Returned \<and>
      sessionExpired (store (snd (signed_out J now ci anon w))) \<and>
      cloudMode (store (snd (signed_out J now ci anon w))) = Guest \<and>
      cloudStatus (store (snd (signed_out J now ci anon w))) = Idle \<and>
      log (snd (signed_out J now ci anon w)) = log w \<and>
      getSnapshot (store (snd (signed_out J now ci anon w))) = getSnapshot (store w) \<and>
      getItem PENDING_KEY (storage (snd (signed_out J now ci anon w))) = getItem PENDING_KEY (storage w) \<and>
      getItem STORAGE_KEY (storage (snd (signed_out J now ci anon w))) = getItem STORAGE_KEY (storage w) \<and>
      getItem SEEN_KEY (storage (snd (signed_out J now ci anon w))) = getItem SEEN_KEY (storage w)"
    using signed_out_kept [of w t now a J ci anon] by simp
  show "getItem OAUTH_TRANSITION_KEY (storage w) = Inr t \<and> \<not> oauth_in_progress now t \<and>
    getItem WAS_AUTHENTICATED_KEY (storage w) = Inr a \<and> \<not> present_text a \<longrightarrow>
      fst (signed_out J now ci anon w) = Returned \<and>
      getItem PENDING_KEY (storage (snd (signed_out J now ci anon w))) = Inr None \<and>
      getSnapshot (store (snd (signed_out J now ci anon w))) = default_snapshot \<and>
      subscription (store (snd (signed_out J now ci anon w))) = JNull \<and>
      getItem SEEN_KEY (storage (snd (signed_out J now ci anon w))) = Inr None \<and>
      user (store (snd (signed_out J now ci anon w))) = no_user \<and>
      cloudMode (store (snd (signed_out J now ci anon w))) = Guest \<and>
      cloudStatus (store (snd (signed_out J now ci anon w))) = Idle \<and>
      \<not> initialized (snd (signed_out J now ci anon w)) \<and>
      new_events w (snd (signed_out J now ci anon w)) =
        [DeactivateToken, CleanupPushNotifications, SignInAnonymously] @
        (if ci then [ClearSubscriptionCache] else []) \<and>
      (mode (storage w) = Available \<longrightarrow>
         getItem STORAGE_KEY (storage (snd (signed_out J now ci anon w))) =
           Inr (Some (json_stringify J (store_doc ((store w)\<lparr>schemaVersion := JNum 1,
             security := JObj [(''biometricEnabled'', JBool False)], subscription := JNull,
             welcomeSeen := JBool False\<rparr>))))) \<and>
      (mode (storage w) = WriteRefused q \<longrightarrow>
         getItem STORAGE_KEY (storage (snd (signed_out J now ci anon w))) = Inr None)"
    by (intro impI, elim conjE, rule signed_out_wiped)
  show "getItem WAS_AUTHENTICATED_KEY (storage w) = Inr (Some ''true'') \<longrightarrow>
      fst (without_session J e w) = Returned \<and>
      sessionExpired (store (snd (without_session J e w))) \<and>
      cloudMode (store (snd (without_session J e w))) = Guest \<and>
      cloudStatus (store (snd (without_session J e w))) = Idle \<and>
      log (snd (without_session J e w)) = log w \<and>
      storage (snd (without_session J e w)) = storage w \<and>
      getSnapshot (store (snd (without_session J e w))) = getSnapshot (store w)"
    by (intro impI, rule without_session_kept)
  show "getItem WAS_AUTHENTICATED_KEY (storage w) = Inr flag \<and> flag \<noteq> Some ''true'' \<and>
    cloudMode (store w) = Cloud \<and> truthy (email (user (store w))) \<and>
    \<not> dev_mode e \<and> net_entry e \<longrightarrow>
      fst (without_session J e w) = Returned \<and>
      getItem PENDING_KEY (storage (snd (without_session J e w))) = Inr None \<and>
      getSnapshot (store (snd (without_session J e w))) = default_snapshot \<and>
      getItem SEEN_KEY (storage (snd (without_session J e w))) = Inr None \<and>
      user (store (snd (without_session J e w))) = no_user \<and>
      new_events w (snd (without_session J e w)) = [SignInAnonymously] \<and>
      (mode (storage w) = Available \<longrightarrow>
         getItem STORAGE_KEY (storage (snd (without_session J e w))) =
           Inr (Some (json_stringify J (store_doc ((store w)\<lparr>schemaVersion := JNum 1,
             security := JObj [(''biometricEnabled'', JBool False)],
             welcomeSeen := JBool False\<rparr>))))) \<and>
      (mode (storage w) = WriteRefused q \<longrightarrow>
         getItem STORAGE_KEY (storage (snd (without_session J e w))) = Inr None)"
    by (intro impI, elim conjE, rule without_session_wiped)
qed

theorem sign_out_amended_witness:
  "present_text (Some ''true'') \<and>
   getItem PENDING_KEY (storage (snd (signed_out sample_codec 9000 True (Inr JNull) breadcrumb_world))) =
     Inr (Some ''snapshot'') \<and>
   log (snd (signed_out sample_codec 9000 True (Inr JNull) breadcrumb_world)) = [] \<and>
   \<not> present_text None \<and>
   getItem PENDING_KEY (storage (snd (signed_out sample_codec 9000 True (Inr JNull) signed_in_world))) =
     Inr None \<and>
   getSnapshot (store (snd (signed_out sample_codec 9000 True (Inr JNull) signed_in_world))) = default_snapshot \<and>
   getItem SEEN_KEY (storage (snd (signed_out sample_codec 9000 True (Inr JNull) signed_in_world))) = Inr None \<and>
   getItem STORAGE_KEY (storage (snd (signed_out sample_codec 9000 True (Inr JNull) signed_in_world))) =
     Inr (Some ''1'') \<and>
   new_events signed_in_world (snd (signed_out sample_codec 9000 True (Inr JNull) signed_in_world)) =
     [DeactivateToken, CleanupPushNotifications, SignInAnonymously, ClearSubscriptionCache] \<and>
   new_events signed_in_world (snd (signed_out sample_codec 9000 False (Inr JNull) signed_in_world)) =
     [DeactivateToken, CleanupPushNotifications, SignInAnonymously] \<and>
   getItem STORAGE_KEY (storage (snd (signed_out sample_codec 9000 True (Inr JNull) refused_world))) =
     Inr None \<and>
   storage (snd (without_session sample_codec online_env breadcrumb_world)) = storage breadcrumb_world \<and>
   getItem PENDING_KEY (storage (snd (without_session sample_codec online_env known_user_world))) =
     Inr None \<and>
   new_events known_user_world (snd (without_session sample_codec online_env known_user_world)) =
     [SignInAnonymously]"
proof -
  let ?J = sample_codec
  have b0: "getItem OAUTH_TRANSITION_KEY (storage breadcrumb_world) = Inr None"
    "getItem WAS_AUTHENTICATED_KEY (storage breadcrumb_world) = Inr (Some ''true'')"
    "getItem PENDING_KEY (storage breadcrumb_world) = Inr (Some ''snapshot'')"
    "log breadcrumb_world = []"
    by (simp_all add: breadcrumb_world_def getItem_def OAUTH_TRANSITION_KEY_def
        WAS_AUTHENTICATED_KEY_def PENDING_KEY_def)
  have s0: "getItem OAUTH_TRANSITION_KEY (storage signed_in_world) = Inr None"
    "getItem WAS_AUTHENTICATED_KEY (storage signed_in_world) = Inr None"
    "mode (storage signed_in_world) = Available" "store signed_in_world = sample_store"
    by (simp_all add: signed_in_world_def getItem_def OAUTH_TRANSITION_KEY_def WAS_AUTHENTICATED_KEY_def)
  have r0: "getItem OAUTH_TRANSITION_KEY (storage refused_world) = Inr None"
    "getItem WAS_AUTHENTICATED_KEY (storage refused_world) = Inr None"
    "mode (storage refused_world) = WriteRefused quota_exceeded"
    by (simp_all add: refused_world_def refusing_storage_def getItem_def)
  have k0: "getItem WAS_AUTHENTICATED_KEY (storage known_user_world) = Inr None"
    "None \<noteq> Some ''true''" "cloudMode (store known_user_world) = Cloud"
    "truthy (email (user (store known_user_world)))"
    "\<not> dev_mode online_env" "net_entry online_env"
    by (simp_all add: known_user_world_def getItem_def WAS_AUTHENTICATED_KEY_def sample_store_def
        online_env_def)
  have o: "\<not> oauth_in_progress 9000 None"
    by (simp add: oauth_in_progress_def present_text_def)
  have p: "present_text (Some ''true'')" "\<not> present_text None"
    by (simp_all add: present_text_def)
  have saved: "json_stringify ?J (store_doc (sample_store\<lparr>schemaVersion := JNum 1,
      security := JObj [(''biometricEnabled'', JBool False)], subscription := JNull,
      welcomeSeen := JBool False\<rparr>)) = ''1''"
    by (simp add: sample_codec_def sample_stringify_def version_text_def store_doc_def
        sample_store_def sample_snapshot_def cached_artifact_def show_int_def show_nat.simps
        digit_char_def)
  note b = sign_out_amended [where w = breadcrumb_world and t = None and now = 9000
      and a = "Some ''true''" and J = ?J and ci = True and anon = "Inr JNull"]
  from b b0 o p have b1: "getItem PENDING_KEY
      (storage (snd (signed_out ?J 9000 True (Inr JNull) breadcrumb_world))) =
      getItem PENDING_KEY (storage breadcrumb_world)"
    by blast
  from b b0 o p have b2: "log (snd (signed_out ?J 9000 True (Inr JNull) breadcrumb_world)) =
      log breadcrumb_world"
    by blast
  note s = sign_out_amended [where w = signed_in_world and t = None and now = 9000
      and a = None and J = ?J and ci = True and anon = "Inr JNull"]
  from s s0 o p have s1: "getItem PENDING_KEY
      (storage (snd (signed_out ?J 9000 True (Inr JNull) signed_in_world))) = Inr None"
    by blast
  from s s0 o p have s2: "getSnapshot (store (snd (signed_out ?J 9000 True (Inr JNull) signed_in_world))) =
      default_snapshot"
    by blast
  from s s0 o p have s3: "getItem SEEN_KEY (storage (snd (signed_out ?J 9000 True (Inr JNull) signed_in_world))) =
      Inr None"
    by blast
  from s s0 o p have s4: "new_events signed_in_world (snd (signed_out ?J 9000 True (Inr JNull) signed_in_world)) =
     [DeactivateToken, CleanupPushNotifications, SignInAnonymously] @
     (if True then [ClearSubscriptionCache] else [])"
    by blast
  from s s0 o p have s5: "getItem STORAGE_KEY (storage (snd (signed_out ?J 9000 True (Inr JNull) signed_in_world))) =
      Inr (Some (json_stringify ?J (store_doc ((store signed_in_world)\<lparr>schemaVersion := JNum 1,
             security := JObj [(''biometricEnabled'', JBool False)], subscription := JNull,
             welcomeSeen := JBool False\<rparr>))))"
    by blast
  note u = sign_out_amended [where w = signed_in_world and t = None and now = 9000
      and a = None and J = ?J and ci = False and anon = "Inr JNull"]
  from u s0 o p have u1: "new_events signed_in_world (snd (signed_out ?J 9000 False (Inr JNull) signed_in_world)) =
     [DeactivateToken, CleanupPushNotifications, SignInAnonymously] @
     (if False then [ClearSubscriptionCache] else [])"
    by blast
  note r = sign_out_amended [where w = refused_world and t = None and now = 9000
      and a = None and J = ?J and ci = True and anon = "Inr JNull" and q = quota_exceeded]
  from r r0 o p have r1: "getItem STORAGE_KEY (storage (snd (signed_out ?J 9000 True (Inr JNull) refused_world))) =
      Inr None"
    by blast
  note c = sign_out_amended [where w = breadcrumb_world and J = ?J and e = online_env]
  from c b0(2) have c1: "storage (snd (without_session ?J online_env breadcrumb_world)) =
      storage breadcrumb_world"
    by blast
  note d = sign_out_amended [where w = known_user_world and J = ?J and e = online_env
      and flag = None]
  from d k0 have d1: "getItem PENDING_KEY (storage (snd (without_session ?J online_env known_user_world))) =
      Inr None"
    by blast
  from d k0 have d2: "new_events known_user_world (snd (without_session ?J online_env known_user_world)) =
      [SignInAnonymously]"
    by blast
  from p b1 b2 s1 s2 s3 s4 s5 u1 r1 c1 d1 d2 show ?thesis
    by (simp add: b0 s0 saved)
qed

end
